theory Spec2Isabelle
  imports Complex_Main "HOL-Library.Word"
begin

section \<open>The Newton-M2 binary parser (modules/drivers/gnss/parser/newtonm2\_parser.cc)\<close>

text \<open>
  A shallow embedding of \<^verbatim>\<open>NewtonM2Parser\<close>. The class is a record of its members;
  every member function takes the object and returns it updated. Conventions:
  \<^item> \<^verbatim>\<open>double\<close> and \<^verbatim>\<open>float\<close> values are idealised as \<open>real\<close> (no rounding, no NaN);
  \<^item> unsigned wire integers that are only copied are \<open>nat\<close>, signed ones \<open>int\<close>; the
    header's fixed-width fields are words;
  \<^item> a protobuf message is a record of the fields the parser touches, an unset scalar
    reading as its default \<open>0\<close>; only \<^verbatim>\<open>velocity_latency\<close>, whose presence the code
    tests, is an \<open>option\<close>;
  \<^item> logging (\<^verbatim>\<open>AERROR\<close>, \<^verbatim>\<open>AINFO\<close>, \<^verbatim>\<open>AWARN\<close>) has no effect on the object and is
    left out;
  \<^item> the declarations of \<^verbatim>\<open>newtonm2_messages.h\<close>, \<^verbatim>\<open>newtonm2_parser.h\<close>, \<^verbatim>\<open>parser.h\<close> and
    \<^verbatim>\<open>rtcm_decode.h\<close> are not part of the sources at hand: what the code takes from
    them is the parameter record \<open>env\<close>.
\<close>

type_synonym uint8_t = "8 word"
type_synonym uint16_t = "16 word"
type_synonym uint32_t = "32 word"

subsection \<open>Enumerations\<close>

text \<open>\<^verbatim>\<open>Parser::MessageType\<close>: the values this parser returns.\<close>

datatype MessageType =
  NONE | BEST_GNSS_POS | GNSS | INS | IMU | INS_STAT
  | BDSEPHEMERIDES | GPSEPHEMERIDES | GLOEPHEMERIDES | OBSERVATION | HEADING

text \<open>
  \<^verbatim>\<open>newtonm2::MessageId\<close>: the identifiers the switch of \<^verbatim>\<open>PrepareMessage\<close> names; every
  other 16-bit identifier is \<open>OTHER_ID\<close>. (\<^verbatim>\<open>newtonm2::HEADING\<close> is \<open>HEADING_ID\<close> here,
  the name \<open>HEADING\<close> being the message type.)
\<close>

datatype MessageId =
  BESTGNSSPOS | BESTPOS | PSRPOS | BESTGNSSVEL | BESTVEL | PSRVEL
  | CORRIMUDATA | CORRIMUDATAS | INSCOV | INSCOVS | INSPVA | INSPVAS
  | RAWIMUX | RAWIMUSX | RAWIMU | RAWIMUS | INSPVAX
  | BDSEPHEMERIS | GPSEPHEMERIS | GLOEPHEMERIS | RANGE | HEADING_ID
  | OTHER_ID uint16_t

text \<open>\<^verbatim>\<open>newtonm2::SolutionStatus\<close>, \<^verbatim>\<open>newtonm2::SolutionType\<close>, \<^verbatim>\<open>newtonm2::DatumId\<close>,
  \<^verbatim>\<open>newtonm2::InsStatus\<close>: the enumerators the code names, and the rest.\<close>

datatype SolutionStatus = SOL_COMPUTED | OTHER_SOLUTION_STATUS nat

datatype SolutionType =
  SINGLE | INS_PSRSP
  | PSRDIFF | WAAS | INS_SBAS
  | FLOATCONV | L1_FLOAT | IONOFREE_FLOAT | NARROW_FLOAT | RTK_DIRECT_INS | INS_RTKFLOAT
  | WIDELANE | NARROWLANE | L1_INT | WIDE_INT | NARROW_INT | INS_RTKFIXED
  | OMNISTAR | INS_OMNISTAR | INS_OMNISTAR_HP | INS_OMNISTAR_XP | OMNISTAR_HP | OMNISTAR_XP
  | PPP_CONVERGING | PPP | INS_PPP_CONVERGING | INS_PPP
  | PROPOGATED
  | OTHER_SOLUTION_TYPE nat

datatype DatumId = WGS84 | OTHER_DATUM nat

datatype InsStatus =
  ALIGNMENT_COMPLETE | SOLUTION_GOOD | ALIGNING | HIGH_VARIANCE | SOLUTION_FREE
  | OTHER_INS_STATUS nat

text \<open>\<^verbatim>\<open>apollo::drivers::gnss::Gnss::Type\<close> and \<^verbatim>\<open>Ins::Type\<close> (the output taxonomy).\<close>

datatype Gnss_Type =
  Gnss_INVALID | Gnss_PROPAGATED | Gnss_SINGLE | Gnss_PSRDIFF | Gnss_PPP
  | Gnss_RTK_FLOAT | Gnss_RTK_INTEGER

datatype Ins_Type = Ins_INVALID | Ins_CONVERGING | Ins_GOOD

datatype GnssType = GPS_SYS | BDS_SYS | GLO_SYS | OTHER_SYS nat

datatype GnssTimeType = GPS_TIME | BDS_TIME | GLO_TIME

datatype PseudoType = CORSE_CODE | PRECISION_CODE

datatype GnssBandID = BAND_ID nat

text \<open>\<^verbatim>\<open>config::ImuType\<close>: the key of the calibration table.\<close>

datatype ImuType = IMU_TYPE nat

subsection \<open>Wire structures (the fields the parser reads)\<close>

record Header =
  header_message_id :: MessageId
  header_message_length :: uint16_t
  header_gps_week :: uint16_t
  header_gps_millisecs :: uint32_t

record BestPos =
  pos_solution_status :: SolutionStatus
  pos_position_type :: SolutionType
  pos_latitude :: real
  pos_longitude :: real
  pos_height_msl :: real
  pos_undulation :: real
  pos_datum_id :: DatumId
  pos_latitude_std_dev :: real
  pos_longitude_std_dev :: real
  pos_height_std_dev :: real
  pos_base_station_id :: "uint8_t list"
  pos_differential_age :: real
  pos_solution_age :: real
  pos_num_sats_tracked :: nat
  pos_num_sats_in_solution :: nat
  pos_num_sats_l1 :: nat
  pos_num_sats_multi :: nat
  pos_extended_solution_status :: nat
  pos_galileo_beidou_used_mask :: nat
  pos_gps_glonass_used_mask :: nat

record BestVel =
  vel_velocity_type :: SolutionType
  vel_latency :: real
  vel_track_over_ground :: real
  vel_horizontal_speed :: real
  vel_vertical_speed :: real

record CorrImuData =
  corr_gps_week :: nat
  corr_gps_seconds :: real
  corr_x_angle_change :: real
  corr_y_angle_change :: real
  corr_z_angle_change :: real
  corr_x_velocity_change :: real
  corr_y_velocity_change :: real
  corr_z_velocity_change :: real

text \<open>The three arrays of \<^verbatim>\<open>InsCov\<close> have nine entries each; an array is read by index.\<close>

record InsCov =
  cov_position_covariance :: "nat \<Rightarrow> real"
  cov_attitude_covariance :: "nat \<Rightarrow> real"
  cov_velocity_covariance :: "nat \<Rightarrow> real"

record InsPva =
  pva_gps_week :: nat
  pva_gps_seconds :: real
  pva_latitude :: real
  pva_longitude :: real
  pva_height :: real
  pva_north_velocity :: real
  pva_east_velocity :: real
  pva_up_velocity :: real
  pva_roll :: real
  pva_pitch :: real
  pva_azimuth :: real
  pva_status :: InsStatus

record InsPvaX =
  pvax_ins_status :: nat
  pvax_pos_type :: nat

record RawImuX =
  imux_imu_error :: nat
  imux_imuStatus :: nat
  imux_gps_week :: nat
  imux_gps_seconds :: real
  imux_z_velocity_change :: int
  imux_y_velocity_change_neg :: int
  imux_x_velocity_change :: int
  imux_z_angle_change :: int
  imux_y_angle_change_neg :: int
  imux_x_angle_change :: int

record RawImu =
  rimu_gps_week :: nat
  rimu_gps_seconds :: real
  rimu_z_velocity_change :: int
  rimu_y_velocity_change_neg :: int
  rimu_x_velocity_change :: int
  rimu_z_angle_change :: int
  rimu_y_angle_change_neg :: int
  rimu_x_angle_change :: int

record ImuParameter =
  param_gyro_scale :: real
  param_accel_scale :: real
  param_sampling_rate_hz :: real

record GPS_Ephemeris =
  gpseph_prn :: nat
  gpseph_week :: nat
  gpseph_af0 :: real
  gpseph_af1 :: real
  gpseph_af2 :: real
  gpseph_iode1 :: nat
  gpseph_delta_A :: real
  gpseph_M_0 :: real
  gpseph_ecc :: real
  gpseph_A :: real
  gpseph_toe :: real
  gpseph_toc :: real
  gpseph_cic :: real
  gpseph_crc :: real
  gpseph_cis :: real
  gpseph_crs :: real
  gpseph_cuc :: real
  gpseph_cus :: real
  gpseph_omega_0 :: real
  gpseph_omega :: real
  gpseph_I_0 :: real
  gpseph_dot_omega :: real
  gpseph_dot_I :: real
  gpseph_ura :: real
  gpseph_health :: nat
  gpseph_tgd :: real
  gpseph_iodc :: nat

record BDS_Ephemeris =
  bdseph_satellite_id :: nat
  bdseph_week :: nat
  bdseph_a0 :: real
  bdseph_a1 :: real
  bdseph_a2 :: real
  bdseph_aode :: nat
  bdseph_delta_N :: real
  bdseph_M0 :: real
  bdseph_ecc :: real
  bdseph_rootA :: real
  bdseph_toe :: real
  bdseph_toc :: real
  bdseph_cic :: real
  bdseph_crc :: real
  bdseph_cis :: real
  bdseph_crs :: real
  bdseph_cuc :: real
  bdseph_cus :: real
  bdseph_omega0 :: real
  bdseph_omega :: real
  bdseph_inc_angle :: real
  bdseph_rra :: real
  bdseph_idot :: real
  bdseph_ura :: real
  bdseph_health1 :: nat
  bdseph_tdg1 :: real
  bdseph_aodc :: nat

record GLO_Ephemeris =
  gloeph_sloto :: int
  gloeph_e_time :: nat
  gloeph_freqo :: int
  gloeph_e_week :: nat
  gloeph_Tk :: nat
  gloeph_tau_n :: real
  gloeph_gamma :: real
  gloeph_health :: nat
  gloeph_pos_x :: real
  gloeph_pos_y :: real
  gloeph_pos_z :: real
  gloeph_vel_x :: real
  gloeph_vel_y :: real
  gloeph_vel_z :: real
  gloeph_acc_x :: real
  gloeph_acc_y :: real
  gloeph_acc_z :: real
  gloeph_age :: nat

record Heading =
  hd_solution_status :: SolutionStatus
  hd_position_type :: SolutionType
  hd_length :: real
  hd_heading :: real
  hd_pitch :: real
  hd_reserved :: real
  hd_heading_std_dev :: real
  hd_pitch_std_dev :: real
  hd_station_id :: "uint8_t list"
  hd_num_sats_tracked :: nat
  hd_num_sats_in_solution :: nat
  hd_num_sats_ele :: nat
  hd_num_sats_l2 :: nat
  hd_solution_source :: nat
  hd_extended_solution_status :: nat
  hd_galileo_beidou_sig_mask :: nat
  hd_gps_glonass_sig_mask :: nat

text \<open>
  The state of the raw-observation sub-decoder (\<^verbatim>\<open>raw_t\<close> of \<^verbatim>\<open>rtcm_decode.h\<close>), as far
  as the parser reads it: the receiver time and the observation buffer \<^verbatim>\<open>obs.data[0..n-1]\<close>
  (the list \<open>raw_obs\<close>, so that \<^verbatim>\<open>obs.n\<close> is its length). The arrays of one
  observation (\<^verbatim>\<open>L\<close>, \<^verbatim>\<open>P\<close>, \<^verbatim>\<open>D\<close>, \<^verbatim>\<open>SNR\<close>, \<^verbatim>\<open>code\<close>) are functions of the index: the
  code reads \<^verbatim>\<open>code[i]\<close> at the satellite's index, which may lie past the array.
  \<open>raw_internal\<close> stands for the bytes the sub-decoder has buffered.
\<close>

record obsd_t =
  obsd_sat :: nat
  obsd_L :: "nat \<Rightarrow> real"
  obsd_P :: "nat \<Rightarrow> real"
  obsd_D :: "nat \<Rightarrow> real"
  obsd_SNR :: "nat \<Rightarrow> nat"
  obsd_code :: "nat \<Rightarrow> nat"

record raw_t =
  raw_time :: real
  raw_obs :: "obsd_t list"
  raw_internal :: "uint8_t list"

subsection \<open>Output records (protobuf messages)\<close>

record PointLLH =
  lon :: real
  lat :: real
  height :: real

record Point3D =
  x :: real
  y :: real
  z :: real

record GnssBestPose =
  bestpos_sol_status :: SolutionStatus
  bestpos_sol_type :: SolutionType
  bestpos_latitude :: real
  bestpos_longitude :: real
  bestpos_height_msl :: real
  bestpos_undulation :: real
  bestpos_datum_id :: DatumId
  bestpos_latitude_std_dev :: real
  bestpos_longitude_std_dev :: real
  bestpos_height_std_dev :: real
  bestpos_base_station_id :: "uint8_t list"
  bestpos_differential_age :: real
  bestpos_solution_age :: real
  bestpos_num_sats_tracked :: nat
  bestpos_num_sats_in_solution :: nat
  bestpos_num_sats_l1 :: nat
  bestpos_num_sats_multi :: nat
  bestpos_extended_solution_status :: nat
  bestpos_galileo_beidou_used_mask :: nat
  bestpos_gps_glonass_used_mask :: nat
  bestpos_measurement_time :: real

text \<open>\<open>gnss_solution_status\<close> and \<open>gnss_position_type\<close> hold a \<^verbatim>\<open>uint32\<close>: the numeric
  value of the enumerator, through the cast of \<open>env\<close>.\<close>

record Gnss =
  gnss_position :: PointLLH
  gnss_position_std_dev :: Point3D
  gnss_num_sats :: nat
  gnss_solution_status :: uint32_t
  gnss_position_type :: uint32_t
  gnss_Type :: Gnss_Type
  gnss_measurement_time :: real
  gnss_velocity_latency :: "real option"
  gnss_linear_velocity :: Point3D

record Ins =
  ins_linear_acceleration :: Point3D
  ins_angular_velocity :: Point3D
  ins_measurement_time :: real
  ins_header_timestamp_sec :: real
  ins_position_covariance :: "real list"
  ins_euler_angles_covariance :: "real list"
  ins_linear_velocity_covariance :: "real list"
  ins_position :: PointLLH
  ins_euler_angles :: Point3D
  ins_linear_velocity :: Point3D
  ins_type :: Ins_Type

record Imu =
  imu_measurement_span :: real
  imu_measurement_time :: real
  imu_linear_acceleration :: Point3D
  imu_angular_velocity :: Point3D

record InsStat =
  ins_stat_header_timestamp_sec :: real
  ins_stat_ins_status :: nat
  ins_stat_pos_type :: nat

record KepplerOrbit =
  ko_gnss_type :: GnssType
  ko_gnss_time_type :: GnssTimeType
  ko_sat_prn :: nat
  ko_week_num :: nat
  ko_af0 :: real
  ko_af1 :: real
  ko_af2 :: real
  ko_iode :: nat
  ko_deltan :: real
  ko_m0 :: real
  ko_e :: real
  ko_roota :: real
  ko_toe :: real
  ko_toc :: real
  ko_cic :: real
  ko_crc :: real
  ko_cis :: real
  ko_crs :: real
  ko_cuc :: real
  ko_cus :: real
  ko_omega0 :: real
  ko_omega :: real
  ko_i0 :: real
  ko_omegadot :: real
  ko_idot :: real
  ko_accuracy :: real
  ko_health :: nat
  ko_tgd :: real
  ko_iodc :: nat

record GlonassOrbit =
  go_gnss_type :: GnssType
  go_gnss_time_type :: GnssTimeType
  go_slot_prn :: int
  go_toe :: nat
  go_frequency_no :: int
  go_week_num :: nat
  go_week_second_s :: nat
  go_tk :: nat
  go_clock_offset :: real
  go_clock_drift :: real
  go_health :: nat
  go_position_x :: real
  go_position_y :: real
  go_position_z :: real
  go_velocity_x :: real
  go_velocity_y :: real
  go_velocity_z :: real
  go_accelerate_x :: real
  go_accelerate_y :: real
  go_accelerate_z :: real
  go_infor_age :: nat

record GnssEphemeris =
  eph_gnss_type :: GnssType
  eph_keppler_orbit :: KepplerOrbit
  eph_glonass_orbit :: GlonassOrbit

record HeadingMsg =
  heading_solution_status :: uint32_t
  heading_position_type :: uint32_t
  heading_baseline_length :: real
  heading_heading :: real
  heading_pitch :: real
  heading_reserved :: real
  heading_heading_std_dev :: real
  heading_pitch_std_dev :: real
  heading_station_id :: "uint8_t list"
  heading_satellite_tracked_number :: nat
  heading_satellite_soulution_number :: nat
  heading_satellite_number_obs :: nat
  heading_satellite_number_multi :: nat
  heading_solution_source :: nat
  heading_extended_solution_status :: nat
  heading_galileo_beidou_sig_mask :: nat
  heading_gps_glonass_sig_mask :: nat
  heading_measurement_time :: real

record BandObservation =
  band_pseudo_type :: "PseudoType option"
  band_band_id :: GnssBandID
  band_pseudo_range :: real
  band_carrier_phase :: real
  band_loss_lock_index :: nat
  band_doppler :: real
  band_snr :: nat

record SatelliteObservation =
  sat_sat_prn :: int
  sat_sat_sys :: GnssType
  sat_band_obs :: "BandObservation list"
  sat_band_obs_num :: nat

record EpochObservation =
  epoch_receiver_id :: nat
  epoch_gnss_time_type :: "GnssTimeType option"
  epoch_gnss_week :: int
  epoch_gnss_second_s :: real
  epoch_sat_obs_num :: nat
  epoch_sat_obs :: "SatelliteObservation list"

subsection \<open>What the code takes from the headers that are not at hand\<close>

text \<open>
  The constants, layouts, tables and helper functions declared outside this file. A
  \<open>sizeof_\<close> field is the size of the wire structure, an \<open>as_\<close> field the view that
  \<^verbatim>\<open>reinterpret_cast\<close> gives of the bytes at a pointer (the list from that pointer on),
  \<open>load_uint32\<close> the host's read of a \<^verbatim>\<open>uint32_t\<close> there. \<open>satsys\<close> returns the system and
  the PRN; \<open>gnss_sys_type\<close> and \<open>gnss_baud_id\<close> return \<open>None\<close> where the C function
  returns false; \<open>input_oem4\<close> and \<open>init_raw\<close> return their status and the sub-decoder's
  new state; \<open>rfu_to_flu r f u p\<close> is the target \<open>p\<close> after the call.
\<close>

record env =
  SYNC_2_LONG_HEADER :: uint8_t
  SYNC_2_SHORT_HEADER :: uint8_t
  sizeof_LongHeader :: nat
  sizeof_ShortHeader :: nat
  crc32_block :: "uint8_t list \<Rightarrow> uint32_t"
  load_uint32 :: "uint8_t list \<Rightarrow> uint32_t"
  as_LongHeader :: "uint8_t list \<Rightarrow> Header"
  as_ShortHeader :: "uint8_t list \<Rightarrow> Header"
  sizeof_BestPos :: nat
  sizeof_BestVel :: nat
  sizeof_CorrImuData :: nat
  sizeof_InsCov :: nat
  sizeof_InsPva :: nat
  sizeof_RawImuX :: nat
  sizeof_RawImu :: nat
  sizeof_InsPvaX :: nat
  sizeof_BDS_Ephemeris :: nat
  sizeof_GPS_Ephemeris :: nat
  sizeof_GLO_Ephemeris :: nat
  sizeof_Heading :: nat
  as_BestPos :: "uint8_t list \<Rightarrow> BestPos"
  as_BestVel :: "uint8_t list \<Rightarrow> BestVel"
  as_CorrImuData :: "uint8_t list \<Rightarrow> CorrImuData"
  as_InsCov :: "uint8_t list \<Rightarrow> InsCov"
  as_InsPva :: "uint8_t list \<Rightarrow> InsPva"
  as_RawImuX :: "uint8_t list \<Rightarrow> RawImuX"
  as_RawImu :: "uint8_t list \<Rightarrow> RawImu"
  as_InsPvaX :: "uint8_t list \<Rightarrow> InsPvaX"
  as_BDS_Ephemeris :: "uint8_t list \<Rightarrow> BDS_Ephemeris"
  as_GPS_Ephemeris :: "uint8_t list \<Rightarrow> GPS_Ephemeris"
  as_GLO_Ephemeris :: "uint8_t list \<Rightarrow> GLO_Ephemeris"
  as_Heading :: "uint8_t list \<Rightarrow> Heading"
  uint32_of_SolutionStatus :: "SolutionStatus \<Rightarrow> uint32_t"
  uint32_of_SolutionType :: "SolutionType \<Rightarrow> uint32_t"
  GetImuParameter :: "ImuType \<Rightarrow> ImuParameter"
  azimuth_deg_to_yaw_rad :: "real \<Rightarrow> real"
  rfu_to_flu :: "real \<Rightarrow> real \<Rightarrow> real \<Rightarrow> Point3D \<Rightarrow> Point3D"
  gps2unix :: "real \<Rightarrow> real"
  DEG_TO_RAD :: real
  INDEX :: "nat \<Rightarrow> nat"
  FLOAT_NAN :: real
  init_raw :: "raw_t \<Rightarrow> int \<times> raw_t"
  input_oem4 :: "raw_t \<Rightarrow> uint8_t \<Rightarrow> int \<times> raw_t"
  time2gpst :: "real \<Rightarrow> real \<times> int"
  satsys :: "nat \<Rightarrow> int \<times> int"
  gnss_sys_type :: "int \<Rightarrow> GnssType option"
  gnss_baud_id :: "GnssType \<Rightarrow> nat \<Rightarrow> GnssBandID option"
  NFREQ_NEXOBS :: nat
  CODE_L1C :: nat
  CODE_L1P :: nat

text \<open>Modelled from the spec: the first two sync bytes, absent from the sources, are
  \<^verbatim>\<open>[0xAA,0x44]\<close>.\<close>

definition SYNC_0 :: uint8_t where
  "SYNC_0 = 0xAA"

definition SYNC_1 :: uint8_t where
  "SYNC_1 = 0x44"

text \<open>Modelled from the spec: the frame ends with a 4-byte checksum
  (\<^verbatim>\<open>newtonm2::CRC_LENGTH\<close>, absent from the sources).\<close>

definition CRC_LENGTH :: nat where
  "CRC_LENGTH = 4"

text \<open>Modelled from the spec: receiver time is \<^verbatim>\<open>week*604800 + ms/1000\<close>
  (\<^verbatim>\<open>SECONDS_PER_WEEK\<close>, absent from the sources); the integer product is taken
  without overflow.\<close>

definition SECONDS_PER_WEEK :: nat where
  "SECONDS_PER_WEEK = 604800"

text \<open>Modelled from the spec: calibration is unset when the gyro scale is zero
  (\<^verbatim>\<open>is_zero\<close>, absent from the sources, compares with \<open>0\<close>).\<close>

definition is_zero :: "real \<Rightarrow> bool" where
  "is_zero v = (v = 0)"

subsection \<open>The parser object\<close>

text \<open>
  The members of \<^verbatim>\<open>NewtonM2Parser\<close> and of its base \<^verbatim>\<open>Parser\<close>; a member \<^verbatim>\<open>buffer_\<close>
  is the field \<open>buffer_m\<close> (a name cannot end in an underscore here). The input range
  \<^verbatim>\<open>[data_, data_end_)\<close> is the list of its bytes, \<open>None\<close> when \<^verbatim>\<open>data_\<close> is null.
\<close>

record NewtonM2Parser =
  data_m :: "uint8_t list option"
  buffer_m :: "uint8_t list"
  header_length_m :: nat
  total_length_m :: nat
  imu_type_m :: ImuType
  imu_frame_mapping_m :: int
  gyro_scale_m :: real
  accel_scale_m :: real
  imu_measurement_hz_m :: real
  imu_measurement_span_m :: real
  imu_measurement_time_previous_m :: real
  solution_status_m :: SolutionStatus
  position_type_m :: SolutionType
  velocity_type_m :: SolutionType
  ins_status_m :: InsStatus
  raw_m :: raw_t
  bestpos_m :: GnssBestPose
  gnss_m :: Gnss
  ins_m :: Ins
  imu_m :: Imu
  ins_stat_m :: InsStat
  gnss_ephemeris_m :: GnssEphemeris
  heading_m :: HeadingMsg
  gnss_observation_m :: EpochObservation

text \<open>\<^verbatim>\<open>config::Config\<close>: the optional IMU type.\<close>

record Config =
  config_imu_type :: "ImuType option"

text \<open>
  The constructor from a configuration. \<open>d\<close> is the object as the in-class member
  initialisers of the header leave it; the buffer of a fresh vector is empty
  (\<^verbatim>\<open>reserve\<close> changes its capacity only), \<^verbatim>\<open>Resize(9, FLOAT_NAN)\<close> fills the three
  covariance fields up to nine entries.
\<close>

definition Resize :: "real list \<Rightarrow> nat \<Rightarrow> real \<Rightarrow> real list" where
  "Resize xs n v = take n xs @ replicate (n - length xs) v"

definition NewtonM2Parser_new :: "env \<Rightarrow> NewtonM2Parser \<Rightarrow> Config \<Rightarrow> NewtonM2Parser" where
  "NewtonM2Parser_new E d config =
    (let s0 = d\<lparr>buffer_m := []\<rparr>;
         s1 = s0\<lparr>ins_m := (ins_m s0)
                \<lparr>ins_position_covariance := Resize (ins_position_covariance (ins_m s0)) 9 (FLOAT_NAN E),
                 ins_euler_angles_covariance := Resize (ins_euler_angles_covariance (ins_m s0)) 9 (FLOAT_NAN E),
                 ins_linear_velocity_covariance :=
                   Resize (ins_linear_velocity_covariance (ins_m s0)) 9 (FLOAT_NAN E)\<rparr>\<rparr>;
         s2 = (case config_imu_type config of
                 Some t \<Rightarrow> s1\<lparr>imu_type_m := t\<rparr>
               | None \<Rightarrow> s1)
     in s2\<lparr>raw_m := snd (init_raw E (raw_m s2))\<rparr>)"

text \<open>\<^verbatim>\<open>Parser::Update\<close>: a new input range.\<close>

definition Update :: "NewtonM2Parser \<Rightarrow> uint8_t list \<Rightarrow> NewtonM2Parser" where
  "Update s bytes = s\<lparr>data_m := Some bytes\<rparr>"

subsection \<open>Decode handlers\<close>

text \<open>
  Each handler returns its \<^verbatim>\<open>bool\<close> (ready to emit) and the object after the call.
  \<open>header_seconds\<close> is the expression
  \<^verbatim>\<open>gps_week * SECONDS_PER_WEEK + gps_millisecs * 1e-3\<close> that four handlers compute from
  the header's week and millisecond fields.
\<close>

definition header_seconds :: "uint16_t \<Rightarrow> uint32_t \<Rightarrow> real" where
  "header_seconds gps_week gps_millisecs =
     real (unat gps_week * SECONDS_PER_WEEK) + real (unat gps_millisecs) * (1 / 1000)"

definition HandleGnssBestpos ::
  "env \<Rightarrow> NewtonM2Parser \<Rightarrow> BestPos \<Rightarrow> uint16_t \<Rightarrow> uint32_t \<Rightarrow> bool \<times> NewtonM2Parser" where
  "HandleGnssBestpos E s pos gps_week gps_millisecs =
    (let seconds = header_seconds gps_week gps_millisecs
     in (True, s\<lparr>bestpos_m := (bestpos_m s)
          \<lparr>bestpos_sol_status := pos_solution_status pos,
           bestpos_sol_type := pos_position_type pos,
           bestpos_latitude := pos_latitude pos,
           bestpos_longitude := pos_longitude pos,
           bestpos_height_msl := pos_height_msl pos,
           bestpos_undulation := pos_undulation pos,
           bestpos_datum_id := pos_datum_id pos,
           bestpos_latitude_std_dev := pos_latitude_std_dev pos,
           bestpos_longitude_std_dev := pos_longitude_std_dev pos,
           bestpos_height_std_dev := pos_height_std_dev pos,
           bestpos_base_station_id := pos_base_station_id pos,
           bestpos_differential_age := pos_differential_age pos,
           bestpos_solution_age := pos_solution_age pos,
           bestpos_num_sats_tracked := pos_num_sats_tracked pos,
           bestpos_num_sats_in_solution := pos_num_sats_in_solution pos,
           bestpos_num_sats_l1 := pos_num_sats_l1 pos,
           bestpos_num_sats_multi := pos_num_sats_multi pos,
           bestpos_extended_solution_status := pos_extended_solution_status pos,
           bestpos_galileo_beidou_used_mask := pos_galileo_beidou_used_mask pos,
           bestpos_gps_glonass_used_mask := pos_gps_glonass_used_mask pos,
           bestpos_measurement_time := seconds\<rparr>\<rparr>))"

text \<open>The switch of \<^verbatim>\<open>HandleBestPos\<close> over the position type, for a computed solution.\<close>

definition position_type_class :: "SolutionType \<Rightarrow> Gnss_Type" where
  "position_type_class t =
    (case t of
       SINGLE \<Rightarrow> Gnss_SINGLE
     | INS_PSRSP \<Rightarrow> Gnss_SINGLE
     | PSRDIFF \<Rightarrow> Gnss_PSRDIFF
     | WAAS \<Rightarrow> Gnss_PSRDIFF
     | INS_SBAS \<Rightarrow> Gnss_PSRDIFF
     | FLOATCONV \<Rightarrow> Gnss_RTK_FLOAT
     | L1_FLOAT \<Rightarrow> Gnss_RTK_FLOAT
     | IONOFREE_FLOAT \<Rightarrow> Gnss_RTK_FLOAT
     | NARROW_FLOAT \<Rightarrow> Gnss_RTK_FLOAT
     | RTK_DIRECT_INS \<Rightarrow> Gnss_RTK_FLOAT
     | INS_RTKFLOAT \<Rightarrow> Gnss_RTK_FLOAT
     | WIDELANE \<Rightarrow> Gnss_RTK_INTEGER
     | NARROWLANE \<Rightarrow> Gnss_RTK_INTEGER
     | L1_INT \<Rightarrow> Gnss_RTK_INTEGER
     | WIDE_INT \<Rightarrow> Gnss_RTK_INTEGER
     | NARROW_INT \<Rightarrow> Gnss_RTK_INTEGER
     | INS_RTKFIXED \<Rightarrow> Gnss_RTK_INTEGER
     | OMNISTAR \<Rightarrow> Gnss_PPP
     | INS_OMNISTAR \<Rightarrow> Gnss_PPP
     | INS_OMNISTAR_HP \<Rightarrow> Gnss_PPP
     | INS_OMNISTAR_XP \<Rightarrow> Gnss_PPP
     | OMNISTAR_HP \<Rightarrow> Gnss_PPP
     | OMNISTAR_XP \<Rightarrow> Gnss_PPP
     | PPP_CONVERGING \<Rightarrow> Gnss_PPP
     | PPP \<Rightarrow> Gnss_PPP
     | INS_PPP_CONVERGING \<Rightarrow> Gnss_PPP
     | INS_PPP \<Rightarrow> Gnss_PPP
     | PROPOGATED \<Rightarrow> Gnss_PROPAGATED
     | OTHER_SOLUTION_TYPE _ \<Rightarrow> Gnss_INVALID)"

definition HandleBestPos ::
  "env \<Rightarrow> NewtonM2Parser \<Rightarrow> BestPos \<Rightarrow> uint16_t \<Rightarrow> uint32_t \<Rightarrow> bool \<times> NewtonM2Parser" where
  "HandleBestPos E s pos gps_week gps_millisecs =
    (let g1 = (gnss_m s)
           \<lparr>gnss_position := (gnss_position (gnss_m s))
              \<lparr>lon := pos_longitude pos,
               lat := pos_latitude pos,
               height := pos_height_msl pos + pos_undulation pos\<rparr>,
            gnss_position_std_dev := (gnss_position_std_dev (gnss_m s))
              \<lparr>x := pos_longitude_std_dev pos,
               y := pos_latitude_std_dev pos,
               z := pos_height_std_dev pos\<rparr>,
            gnss_num_sats := pos_num_sats_in_solution pos\<rparr>;
         s1 = (if solution_status_m s \<noteq> pos_solution_status pos
               then s\<lparr>solution_status_m := pos_solution_status pos\<rparr> else s);
         s2 = (if position_type_m s1 \<noteq> pos_position_type pos
               then s1\<lparr>position_type_m := pos_position_type pos\<rparr> else s1);
         g2 = g1\<lparr>gnss_solution_status := uint32_of_SolutionStatus E (pos_solution_status pos)\<rparr>;
         g3 = (if pos_solution_status pos = SOL_COMPUTED
               then g2\<lparr>gnss_position_type := uint32_of_SolutionType E (pos_position_type pos),
                       gnss_Type := position_type_class (pos_position_type pos)\<rparr>
               else g2\<lparr>gnss_Type := Gnss_INVALID, gnss_position_type := 0\<rparr>);
         seconds = header_seconds gps_week gps_millisecs
     in if gnss_measurement_time g3 \<noteq> seconds
        then (False, s2\<lparr>gnss_m := g3\<lparr>gnss_measurement_time := seconds\<rparr>\<rparr>)
        else (True, s2\<lparr>gnss_m := g3\<rparr>))"

definition HandleBestVel ::
  "env \<Rightarrow> NewtonM2Parser \<Rightarrow> BestVel \<Rightarrow> uint16_t \<Rightarrow> uint32_t \<Rightarrow> bool \<times> NewtonM2Parser" where
  "HandleBestVel E s vel gps_week gps_millisecs =
    (let s1 = (if velocity_type_m s \<noteq> vel_velocity_type vel
               then s\<lparr>velocity_type_m := vel_velocity_type vel\<rparr> else s);
         g0 = gnss_m s1;
         g1 = (if gnss_velocity_latency g0 = None
                  \<or> the (gnss_velocity_latency g0) \<noteq> vel_latency vel
               then g0\<lparr>gnss_velocity_latency := Some (vel_latency vel)\<rparr> else g0);
         yaw = azimuth_deg_to_yaw_rad E (vel_track_over_ground vel);
         g2 = g1\<lparr>gnss_linear_velocity := (gnss_linear_velocity g1)
                \<lparr>x := vel_horizontal_speed vel * cos yaw,
                 y := vel_horizontal_speed vel * sin yaw,
                 z := vel_vertical_speed vel\<rparr>\<rparr>;
         seconds = header_seconds gps_week gps_millisecs
     in if gnss_measurement_time g2 \<noteq> seconds
        then (False, s1\<lparr>gnss_m := g2\<lparr>gnss_measurement_time := seconds\<rparr>\<rparr>)
        else (True, s1\<lparr>gnss_m := g2\<rparr>))"

text \<open>\<open>now\<close> is the value of \<^verbatim>\<open>ros::Time::now().toSec()\<close> at the call.\<close>

definition HandleCorrImuData ::
  "env \<Rightarrow> real \<Rightarrow> NewtonM2Parser \<Rightarrow> CorrImuData \<Rightarrow> bool \<times> NewtonM2Parser" where
  "HandleCorrImuData E now s imu =
    (let i1 = (ins_m s)\<lparr>ins_linear_acceleration :=
                 rfu_to_flu E (corr_x_velocity_change imu * imu_measurement_hz_m s)
                              (corr_y_velocity_change imu * imu_measurement_hz_m s)
                              (corr_z_velocity_change imu * imu_measurement_hz_m s)
                              (ins_linear_acceleration (ins_m s))\<rparr>;
         i2 = i1\<lparr>ins_angular_velocity :=
                 rfu_to_flu E (corr_x_angle_change imu * imu_measurement_hz_m s)
                              (corr_y_angle_change imu * imu_measurement_hz_m s)
                              (corr_z_angle_change imu * imu_measurement_hz_m s)
                              (ins_angular_velocity i1)\<rparr>;
         seconds = real (corr_gps_week imu * SECONDS_PER_WEEK) + corr_gps_seconds imu
     in if ins_measurement_time i2 \<noteq> seconds
        then (False, s\<lparr>ins_m := i2\<lparr>ins_measurement_time := seconds\<rparr>\<rparr>)
        else (True, s\<lparr>ins_m := i2\<lparr>ins_header_timestamp_sec := now\<rparr>\<rparr>))"

text \<open>One round of the loop of \<^verbatim>\<open>HandleInsCov\<close>; \<^verbatim>\<open>set_..._covariance(i, v)\<close> writes entry
  \<open>i\<close> of the repeated field.\<close>

definition InsCov_round :: "env \<Rightarrow> InsCov \<Rightarrow> Ins \<Rightarrow> nat \<Rightarrow> Ins" where
  "InsCov_round E cov i0 i =
     i0\<lparr>ins_position_covariance := (ins_position_covariance i0)[i := cov_position_covariance cov i],
        ins_euler_angles_covariance := (ins_euler_angles_covariance i0)
          [INDEX E i := (DEG_TO_RAD E * DEG_TO_RAD E) * cov_attitude_covariance cov i],
        ins_linear_velocity_covariance :=
          (ins_linear_velocity_covariance i0)[i := cov_velocity_covariance cov i]\<rparr>"

definition HandleInsCov :: "env \<Rightarrow> NewtonM2Parser \<Rightarrow> InsCov \<Rightarrow> bool \<times> NewtonM2Parser" where
  "HandleInsCov E s cov = (False, s\<lparr>ins_m := foldl (InsCov_round E cov) (ins_m s) [0..<9]\<rparr>)"

definition ins_status_class :: "InsStatus \<Rightarrow> Ins_Type" where
  "ins_status_class st =
    (case st of
       ALIGNMENT_COMPLETE \<Rightarrow> Ins_GOOD
     | SOLUTION_GOOD \<Rightarrow> Ins_GOOD
     | ALIGNING \<Rightarrow> Ins_CONVERGING
     | HIGH_VARIANCE \<Rightarrow> Ins_CONVERGING
     | SOLUTION_FREE \<Rightarrow> Ins_CONVERGING
     | OTHER_INS_STATUS _ \<Rightarrow> Ins_INVALID)"

definition HandleInsPva ::
  "env \<Rightarrow> real \<Rightarrow> NewtonM2Parser \<Rightarrow> InsPva \<Rightarrow> bool \<times> NewtonM2Parser" where
  "HandleInsPva E now s pva =
    (let s1 = (if ins_status_m s \<noteq> pva_status pva
               then s\<lparr>ins_status_m := pva_status pva\<rparr> else s);
         i0 = ins_m s1;
         i1 = i0\<lparr>ins_position := (ins_position i0)
                  \<lparr>lon := pva_longitude pva, lat := pva_latitude pva, height := pva_height pva\<rparr>,
                 ins_euler_angles := (ins_euler_angles i0)
                  \<lparr>x := pva_roll pva * DEG_TO_RAD E,
                   y := - pva_pitch pva * DEG_TO_RAD E,
                   z := azimuth_deg_to_yaw_rad E (pva_azimuth pva)\<rparr>,
                 ins_linear_velocity := (ins_linear_velocity i0)
                  \<lparr>x := pva_east_velocity pva,
                   y := pva_north_velocity pva,
                   z := pva_up_velocity pva\<rparr>,
                 ins_type := ins_status_class (pva_status pva)\<rparr>;
         seconds = real (pva_gps_week pva * SECONDS_PER_WEEK) + pva_gps_seconds pva
     in if ins_measurement_time i1 \<noteq> seconds
        then (False, s1\<lparr>ins_m := i1\<lparr>ins_measurement_time := seconds\<rparr>\<rparr>)
        else (True, s1\<lparr>ins_m := i1\<lparr>ins_header_timestamp_sec := now\<rparr>\<rparr>))"

definition HandleInsPvax ::
  "env \<Rightarrow> NewtonM2Parser \<Rightarrow> InsPvaX \<Rightarrow> uint16_t \<Rightarrow> uint32_t \<Rightarrow> bool \<times> NewtonM2Parser" where
  "HandleInsPvax E s pvax gps_week gps_millisecs =
    (let seconds = header_seconds gps_week gps_millisecs;
         unix_sec = gps2unix E seconds
     in (True, s\<lparr>ins_stat_m := (ins_stat_m s)
          \<lparr>ins_stat_header_timestamp_sec := unix_sec,
           ins_stat_ins_status := pvax_ins_status pvax,
           ins_stat_pos_type := pvax_pos_type pvax\<rparr>\<rparr>))"

text \<open>
  The raw-inertial handlers. The early return (unsupported device) is taken exactly when
  the gyro scale is zero and the sampling rate of the table entry is zero, so it is the
  first test here. The continuity check on the sample interval only logs. The switch over
  \<^verbatim>\<open>imu_frame_mapping_\<close> has the cases 5 and 6 and a default that logs; the statements
  after the switch run in every case.
\<close>

definition HandleRawImuX :: "env \<Rightarrow> NewtonM2Parser \<Rightarrow> RawImuX \<Rightarrow> bool \<times> NewtonM2Parser" where
  "HandleRawImuX E s0 imu =
    (let param = GetImuParameter E (imu_type_m s0)
     in if is_zero (gyro_scale_m s0) \<and> is_zero (param_sampling_rate_hz param)
        then (False, s0)
        else
          (let s = (if is_zero (gyro_scale_m s0)
                    then s0\<lparr>gyro_scale_m := param_gyro_scale param * param_sampling_rate_hz param,
                            accel_scale_m := param_accel_scale param * param_sampling_rate_hz param,
                            imu_measurement_hz_m := param_sampling_rate_hz param,
                            imu_measurement_span_m := 1 / param_sampling_rate_hz param,
                            imu_m := (imu_m s0)
                              \<lparr>imu_measurement_span := 1 / param_sampling_rate_hz param\<rparr>\<rparr>
                    else s0);
               time = real (imux_gps_week imu * SECONDS_PER_WEEK) + imux_gps_seconds imu;
               m1 = (imu_m s)\<lparr>imu_measurement_time := time\<rparr>;
               m2 = (if imu_frame_mapping_m s = 5
               then m1\<lparr>imu_linear_acceleration :=
                         rfu_to_flu E (real_of_int (imux_x_velocity_change imu) * accel_scale_m s)
                                      (real_of_int (- imux_y_velocity_change_neg imu) * accel_scale_m s)
                                      (real_of_int (imux_z_velocity_change imu) * accel_scale_m s)
                                      (imu_linear_acceleration m1),
                       imu_angular_velocity :=
                         rfu_to_flu E (real_of_int (imux_x_angle_change imu) * gyro_scale_m s)
                                      (real_of_int (- imux_y_angle_change_neg imu) * gyro_scale_m s)
                                      (real_of_int (imux_z_angle_change imu) * gyro_scale_m s)
                                      (imu_angular_velocity m1)\<rparr>
               else if imu_frame_mapping_m s = 6
               then m1\<lparr>imu_linear_acceleration :=
                         rfu_to_flu E (real_of_int (- imux_y_velocity_change_neg imu) * accel_scale_m s)
                                      (real_of_int (imux_x_velocity_change imu) * accel_scale_m s)
                                      (real_of_int (- imux_z_velocity_change imu) * accel_scale_m s)
                                      (imu_linear_acceleration m1),
                       imu_angular_velocity :=
                         rfu_to_flu E (real_of_int (- imux_y_angle_change_neg imu) * gyro_scale_m s)
                                      (real_of_int (imux_x_angle_change imu) * gyro_scale_m s)
                                      (real_of_int (- imux_z_angle_change imu) * gyro_scale_m s)
                                      (imu_angular_velocity m1)\<rparr>
               else m1)
           in (True, s\<lparr>imu_m := m2, imu_measurement_time_previous_m := time\<rparr>)))"

definition HandleRawImu :: "env \<Rightarrow> NewtonM2Parser \<Rightarrow> RawImu \<Rightarrow> bool \<times> NewtonM2Parser" where
  "HandleRawImu E s imu =
    (let param = GetImuParameter E (imu_type_m s)
     in if is_zero (gyro_scale_m s) \<and> is_zero (param_sampling_rate_hz param)
        then (False, s)
        else
          (let gyro_scale = (if is_zero (gyro_scale_m s)
                             then param_gyro_scale param * param_sampling_rate_hz param
                             else gyro_scale_m s);
               accel_scale = (if is_zero (gyro_scale_m s)
                              then param_accel_scale param * param_sampling_rate_hz param
                              else accel_scale_m s);
               imu_measurement_span = (if is_zero (gyro_scale_m s)
                                       then 1 / param_sampling_rate_hz param
                                       else imu_measurement_span_m s);
               m0 = (imu_m s)\<lparr>imu_measurement_span := imu_measurement_span\<rparr>;
               time = real (rimu_gps_week imu * SECONDS_PER_WEEK) + rimu_gps_seconds imu;
               m1 = m0\<lparr>imu_measurement_time := time\<rparr>;
               m2 = (if imu_frame_mapping_m s = 5
               then m1\<lparr>imu_linear_acceleration :=
                         rfu_to_flu E (real_of_int (rimu_x_velocity_change imu) * accel_scale)
                                      (real_of_int (- rimu_y_velocity_change_neg imu) * accel_scale)
                                      (real_of_int (rimu_z_velocity_change imu) * accel_scale)
                                      (imu_linear_acceleration m1),
                       imu_angular_velocity :=
                         rfu_to_flu E (real_of_int (rimu_x_angle_change imu) * gyro_scale)
                                      (real_of_int (- rimu_y_angle_change_neg imu) * gyro_scale)
                                      (real_of_int (rimu_z_angle_change imu) * gyro_scale)
                                      (imu_angular_velocity m1)\<rparr>
               else if imu_frame_mapping_m s = 6
               then m1\<lparr>imu_linear_acceleration :=
                         rfu_to_flu E (real_of_int (- rimu_y_velocity_change_neg imu) * accel_scale)
                                      (real_of_int (rimu_x_velocity_change imu) * accel_scale)
                                      (real_of_int (- rimu_z_velocity_change imu) * accel_scale)
                                      (imu_linear_acceleration m1),
                       imu_angular_velocity :=
                         rfu_to_flu E (real_of_int (- rimu_y_angle_change_neg imu) * gyro_scale)
                                      (real_of_int (rimu_x_angle_change imu) * gyro_scale)
                                      (real_of_int (- rimu_z_angle_change imu) * gyro_scale)
                                      (imu_angular_velocity m1)\<rparr>
               else m1)
           in (True, s\<lparr>imu_m := m2, imu_measurement_time_previous_m := time\<rparr>)))"

definition HandleGpsEph :: "env \<Rightarrow> NewtonM2Parser \<Rightarrow> GPS_Ephemeris \<Rightarrow> bool \<times> NewtonM2Parser" where
  "HandleGpsEph E s gps_emph =
    (let e1 = (gnss_ephemeris_m s)\<lparr>eph_gnss_type := GPS_SYS\<rparr>
     in (True, s\<lparr>gnss_ephemeris_m := e1\<lparr>eph_keppler_orbit := (eph_keppler_orbit e1)
          \<lparr>ko_gnss_type := GPS_SYS,
           ko_gnss_time_type := GPS_TIME,
           ko_sat_prn := gpseph_prn gps_emph,
           ko_week_num := gpseph_week gps_emph,
           ko_af0 := gpseph_af0 gps_emph,
           ko_af1 := gpseph_af1 gps_emph,
           ko_af2 := gpseph_af2 gps_emph,
           ko_iode := gpseph_iode1 gps_emph,
           ko_deltan := gpseph_delta_A gps_emph,
           ko_m0 := gpseph_M_0 gps_emph,
           ko_e := gpseph_ecc gps_emph,
           ko_roota := sqrt (gpseph_A gps_emph),
           ko_toe := gpseph_toe gps_emph,
           ko_toc := gpseph_toc gps_emph,
           ko_cic := gpseph_cic gps_emph,
           ko_crc := gpseph_crc gps_emph,
           ko_cis := gpseph_cis gps_emph,
           ko_crs := gpseph_crs gps_emph,
           ko_cuc := gpseph_cuc gps_emph,
           ko_cus := gpseph_cus gps_emph,
           ko_omega0 := gpseph_omega_0 gps_emph,
           ko_omega := gpseph_omega gps_emph,
           ko_i0 := gpseph_I_0 gps_emph,
           ko_omegadot := gpseph_dot_omega gps_emph,
           ko_idot := gpseph_dot_I gps_emph,
           ko_accuracy := sqrt (gpseph_ura gps_emph),
           ko_health := gpseph_health gps_emph,
           ko_tgd := gpseph_tgd gps_emph,
           ko_iodc := gpseph_iodc gps_emph\<rparr>\<rparr>\<rparr>))"

definition HandleBdsEph :: "env \<Rightarrow> NewtonM2Parser \<Rightarrow> BDS_Ephemeris \<Rightarrow> bool \<times> NewtonM2Parser" where
  "HandleBdsEph E s bds_emph =
    (let e1 = (gnss_ephemeris_m s)\<lparr>eph_gnss_type := BDS_SYS\<rparr>
     in (True, s\<lparr>gnss_ephemeris_m := e1\<lparr>eph_keppler_orbit := (eph_keppler_orbit e1)
          \<lparr>ko_gnss_type := BDS_SYS,
           ko_gnss_time_type := BDS_TIME,
           ko_sat_prn := bdseph_satellite_id bds_emph,
           ko_week_num := bdseph_week bds_emph,
           ko_af0 := bdseph_a0 bds_emph,
           ko_af1 := bdseph_a1 bds_emph,
           ko_af2 := bdseph_a2 bds_emph,
           ko_iode := bdseph_aode bds_emph,
           ko_deltan := bdseph_delta_N bds_emph,
           ko_m0 := bdseph_M0 bds_emph,
           ko_e := bdseph_ecc bds_emph,
           ko_roota := bdseph_rootA bds_emph,
           ko_toe := bdseph_toe bds_emph,
           ko_toc := bdseph_toc bds_emph,
           ko_cic := bdseph_cic bds_emph,
           ko_crc := bdseph_crc bds_emph,
           ko_cis := bdseph_cis bds_emph,
           ko_crs := bdseph_crs bds_emph,
           ko_cuc := bdseph_cuc bds_emph,
           ko_cus := bdseph_cus bds_emph,
           ko_omega0 := bdseph_omega0 bds_emph,
           ko_omega := bdseph_omega bds_emph,
           ko_i0 := bdseph_inc_angle bds_emph,
           ko_omegadot := bdseph_rra bds_emph,
           ko_idot := bdseph_idot bds_emph,
           ko_accuracy := bdseph_ura bds_emph,
           ko_health := bdseph_health1 bds_emph,
           ko_tgd := bdseph_tdg1 bds_emph,
           ko_iodc := bdseph_aodc bds_emph\<rparr>\<rparr>\<rparr>))"

text \<open>\<^verbatim>\<open>e_time / 1000\<close> divides an unsigned integer.\<close>

definition HandleGloEph :: "env \<Rightarrow> NewtonM2Parser \<Rightarrow> GLO_Ephemeris \<Rightarrow> bool \<times> NewtonM2Parser" where
  "HandleGloEph E s glo_emph =
    (let e1 = (gnss_ephemeris_m s)\<lparr>eph_gnss_type := GLO_SYS\<rparr>
     in (True, s\<lparr>gnss_ephemeris_m := e1\<lparr>eph_glonass_orbit := (eph_glonass_orbit e1)
          \<lparr>go_gnss_type := GLO_SYS,
           go_gnss_time_type := GLO_TIME,
           go_slot_prn := gloeph_sloto glo_emph - 37,
           go_toe := gloeph_e_time glo_emph div 1000,
           go_frequency_no := gloeph_freqo glo_emph - 7,
           go_week_num := gloeph_e_week glo_emph,
           go_week_second_s := gloeph_e_time glo_emph div 1000,
           go_tk := gloeph_Tk glo_emph,
           go_clock_offset := - gloeph_tau_n glo_emph,
           go_clock_drift := gloeph_gamma glo_emph,
           go_health := (if gloeph_health glo_emph \<le> 3 then 0 else 1),
           go_position_x := gloeph_pos_x glo_emph,
           go_position_y := gloeph_pos_y glo_emph,
           go_position_z := gloeph_pos_z glo_emph,
           go_velocity_x := gloeph_vel_x glo_emph,
           go_velocity_y := gloeph_vel_y glo_emph,
           go_velocity_z := gloeph_vel_z glo_emph,
           go_accelerate_x := gloeph_acc_x glo_emph,
           go_accelerate_y := gloeph_acc_y glo_emph,
           go_accelerate_z := gloeph_acc_z glo_emph,
           go_infor_age := gloeph_age glo_emph\<rparr>\<rparr>\<rparr>))"

definition HandleHeading ::
  "env \<Rightarrow> NewtonM2Parser \<Rightarrow> Heading \<Rightarrow> uint16_t \<Rightarrow> uint32_t \<Rightarrow> bool \<times> NewtonM2Parser" where
  "HandleHeading E s heading gps_week gps_millisecs =
    (let seconds = header_seconds gps_week gps_millisecs
     in (True, s\<lparr>heading_m := (heading_m s)
          \<lparr>heading_solution_status := uint32_of_SolutionStatus E (hd_solution_status heading),
           heading_position_type := uint32_of_SolutionType E (hd_position_type heading),
           heading_baseline_length := hd_length heading,
           heading_heading := hd_heading heading,
           heading_pitch := hd_pitch heading,
           heading_reserved := hd_reserved heading,
           heading_heading_std_dev := hd_heading_std_dev heading,
           heading_pitch_std_dev := hd_pitch_std_dev heading,
           heading_station_id := hd_station_id heading,
           heading_satellite_tracked_number := hd_num_sats_tracked heading,
           heading_satellite_soulution_number := hd_num_sats_in_solution heading,
           heading_satellite_number_obs := hd_num_sats_ele heading,
           heading_satellite_number_multi := hd_num_sats_l2 heading,
           heading_solution_source := hd_solution_source heading,
           heading_extended_solution_status := hd_extended_solution_status heading,
           heading_galileo_beidou_sig_mask := hd_galileo_beidou_sig_mask heading,
           heading_gps_glonass_sig_mask := hd_gps_glonass_sig_mask heading,
           heading_measurement_time := seconds\<rparr>\<rparr>))"

subsection \<open>Raw observations\<close>

text \<open>
  The inner loop of \<^verbatim>\<open>DecodeGnssObservation\<close> over the bands \<open>j\<close> of satellite \<open>i\<close>: it
  returns the value of \<open>j\<close> when the loop ends (by \<^verbatim>\<open>break\<close> or at
  \<^verbatim>\<open>NFREQ + NEXOBS\<close>) and the satellite record. The code type is read at index \<open>i\<close>, as
  the source does.
\<close>

function band_obs_loop ::
  "env \<Rightarrow> GnssType \<Rightarrow> obsd_t \<Rightarrow> nat \<Rightarrow> nat \<Rightarrow> SatelliteObservation \<Rightarrow> nat \<times> SatelliteObservation" where
  "band_obs_loop E gnss_type d i j sat_obs =
    (if j < NFREQ_NEXOBS E then
       (if is_zero (obsd_L d j) then (j, sat_obs)
        else
          (case gnss_baud_id E gnss_type j of
             None \<Rightarrow> (j, sat_obs)
           | Some baud_id \<Rightarrow>
               band_obs_loop E gnss_type d i (j + 1)
                 (sat_obs\<lparr>sat_band_obs := sat_band_obs sat_obs @
                    [\<lparr>band_pseudo_type =
                        (if obsd_code d i = CODE_L1C E then Some CORSE_CODE
                         else if obsd_code d i = CODE_L1P E then Some PRECISION_CODE
                         else None),
                      band_band_id = baud_id,
                      band_pseudo_range = obsd_P d j,
                      band_carrier_phase = obsd_L d j,
                      band_loss_lock_index = obsd_SNR d j,
                      band_doppler = obsd_D d j,
                      band_snr = obsd_SNR d j\<rparr>]\<rparr>)))
     else (j, sat_obs))"
  by pat_completeness auto
termination
  by (relation "measure (\<lambda>(E, gnss_type, d, i, j, sat_obs). NFREQ_NEXOBS E - j)") auto

declare band_obs_loop.simps [simp del]

text \<open>
  The outer loop over the satellites \<^verbatim>\<open>obs.data[i]\<close>, \<open>i\<close> counting from the first; an
  unrecognised system leaves the loop (\<^verbatim>\<open>break\<close>).
\<close>

fun sat_obs_loop ::
  "env \<Rightarrow> nat \<Rightarrow> obsd_t list \<Rightarrow> EpochObservation \<Rightarrow> EpochObservation" where
  "sat_obs_loop E i [] ob = ob"
| "sat_obs_loop E i (d # ds) ob =
    (case gnss_sys_type E (fst (satsys E (obsd_sat d))) of
       None \<Rightarrow> ob
     | Some gnss_type \<Rightarrow>
         (let sat_obs = \<lparr>sat_sat_prn = snd (satsys E (obsd_sat d)), sat_sat_sys = gnss_type,
                         sat_band_obs = [], sat_band_obs_num = 0\<rparr>;
              r = band_obs_loop E gnss_type d i 0 sat_obs
          in sat_obs_loop E (i + 1) ds
               (ob\<lparr>epoch_sat_obs := epoch_sat_obs ob @ [(snd r)\<lparr>sat_band_obs_num := fst r\<rparr>]\<rparr>)))"

text \<open>Case 1 of the switch (a complete epoch): \<^verbatim>\<open>Clear\<close>, the receiver id,
  \<^verbatim>\<open>SetObservationTime\<close>, the satellite count and the two loops.\<close>

definition SetObservationTime :: "env \<Rightarrow> raw_t \<Rightarrow> EpochObservation \<Rightarrow> EpochObservation" where
  "SetObservationTime E r ob =
     ob\<lparr>epoch_gnss_time_type := Some GPS_TIME,
        epoch_gnss_week := snd (time2gpst E (raw_time r)),
        epoch_gnss_second_s := fst (time2gpst E (raw_time r))\<rparr>"

definition observation_epoch :: "env \<Rightarrow> raw_t \<Rightarrow> EpochObservation" where
  "observation_epoch E r =
    (let cleared = \<lparr>epoch_receiver_id = 0, epoch_gnss_time_type = None, epoch_gnss_week = 0,
                    epoch_gnss_second_s = 0, epoch_sat_obs_num = 0, epoch_sat_obs = []\<rparr>;
         ob1 = SetObservationTime E r (cleared\<lparr>epoch_receiver_id := 0\<rparr>);
         ob2 = ob1\<lparr>epoch_sat_obs_num := length (raw_obs r)\<rparr>
     in sat_obs_loop E 0 (raw_obs r) ob2)"

fun DecodeGnssObservation ::
  "env \<Rightarrow> NewtonM2Parser \<Rightarrow> uint8_t list \<Rightarrow> bool \<times> NewtonM2Parser" where
  "DecodeGnssObservation E s [] = (False, s)"
| "DecodeGnssObservation E s (b # obs_data) =
    (let s1 = s\<lparr>raw_m := snd (input_oem4 E (raw_m s) b)\<rparr>
     in if fst (input_oem4 E (raw_m s) b) = 1
        then (True, s1\<lparr>gnss_observation_m := observation_epoch E (raw_m s1)\<rparr>)
        else DecodeGnssObservation E s1 obs_data)"

subsection \<open>Integrity check and dispatch\<close>

definition check_crc :: "env \<Rightarrow> NewtonM2Parser \<Rightarrow> bool" where
  "check_crc E s =
    (let l = length (buffer_m s) - CRC_LENGTH
     in crc32_block E (take l (buffer_m s)) = load_uint32 E (drop l (buffer_m s)))"

text \<open>A case of the switch after its length test: the handler's result decides between
  the message type (\<^verbatim>\<open>*message_ptr\<close> is set to the record that the type names) and the
  \<^verbatim>\<open>break\<close> that ends in \<^verbatim>\<open>return MessageType::NONE\<close>.\<close>

definition handled :: "MessageType \<Rightarrow> bool \<times> NewtonM2Parser \<Rightarrow> MessageType \<times> NewtonM2Parser" where
  "handled type r = (if fst r then (type, snd r) else (NONE, snd r))"

text \<open>The switch of \<^verbatim>\<open>PrepareMessage\<close> over the message identifier, with the local
  variables that the two branches before it assign from the header.\<close>

definition PrepareMessage_switch ::
  "env \<Rightarrow> real \<Rightarrow> NewtonM2Parser \<Rightarrow> uint8_t list \<Rightarrow> MessageId \<Rightarrow> uint16_t \<Rightarrow> uint16_t \<Rightarrow> uint32_t
     \<Rightarrow> MessageType \<times> NewtonM2Parser" where
  "PrepareMessage_switch E now s message message_id message_length gps_week gps_millisecs =
    (case message_id of
      BESTGNSSPOS \<Rightarrow>
        if unat message_length \<noteq> sizeof_BestPos E then (NONE, s)
        else handled BEST_GNSS_POS
               (HandleGnssBestpos E s (as_BestPos E message) gps_week gps_millisecs)
    | BESTPOS \<Rightarrow>
        if unat message_length \<noteq> sizeof_BestPos E then (NONE, s)
        else handled GNSS (HandleBestPos E s (as_BestPos E message) gps_week gps_millisecs)
    | PSRPOS \<Rightarrow>
        if unat message_length \<noteq> sizeof_BestPos E then (NONE, s)
        else handled GNSS (HandleBestPos E s (as_BestPos E message) gps_week gps_millisecs)
    | BESTGNSSVEL \<Rightarrow>
        if unat message_length \<noteq> sizeof_BestVel E then (NONE, s)
        else handled GNSS (HandleBestVel E s (as_BestVel E message) gps_week gps_millisecs)
    | BESTVEL \<Rightarrow>
        if unat message_length \<noteq> sizeof_BestVel E then (NONE, s)
        else handled GNSS (HandleBestVel E s (as_BestVel E message) gps_week gps_millisecs)
    | PSRVEL \<Rightarrow>
        if unat message_length \<noteq> sizeof_BestVel E then (NONE, s)
        else handled GNSS (HandleBestVel E s (as_BestVel E message) gps_week gps_millisecs)
    | CORRIMUDATA \<Rightarrow>
        if unat message_length \<noteq> sizeof_CorrImuData E then (NONE, s)
        else handled INS (HandleCorrImuData E now s (as_CorrImuData E message))
    | CORRIMUDATAS \<Rightarrow>
        if unat message_length \<noteq> sizeof_CorrImuData E then (NONE, s)
        else handled INS (HandleCorrImuData E now s (as_CorrImuData E message))
    | INSCOV \<Rightarrow>
        if unat message_length \<noteq> sizeof_InsCov E then (NONE, s)
        else handled INS (HandleInsCov E s (as_InsCov E message))
    | INSCOVS \<Rightarrow>
        if unat message_length \<noteq> sizeof_InsCov E then (NONE, s)
        else handled INS (HandleInsCov E s (as_InsCov E message))
    | INSPVA \<Rightarrow>
        if unat message_length \<noteq> sizeof_InsPva E then (NONE, s)
        else handled INS (HandleInsPva E now s (as_InsPva E message))
    | INSPVAS \<Rightarrow>
        if unat message_length \<noteq> sizeof_InsPva E then (NONE, s)
        else handled INS (HandleInsPva E now s (as_InsPva E message))
    | RAWIMUX \<Rightarrow>
        if unat message_length \<noteq> sizeof_RawImuX E then (NONE, s)
        else handled IMU (HandleRawImuX E s (as_RawImuX E message))
    | RAWIMUSX \<Rightarrow>
        if unat message_length \<noteq> sizeof_RawImuX E then (NONE, s)
        else handled IMU (HandleRawImuX E s (as_RawImuX E message))
    | RAWIMU \<Rightarrow>
        if unat message_length \<noteq> sizeof_RawImu E then (NONE, s)
        else handled IMU (HandleRawImu E s (as_RawImu E message))
    | RAWIMUS \<Rightarrow>
        if unat message_length \<noteq> sizeof_RawImu E then (NONE, s)
        else handled IMU (HandleRawImu E s (as_RawImu E message))
    | INSPVAX \<Rightarrow>
        if unat message_length \<noteq> sizeof_InsPvaX E then (NONE, s)
        else handled INS_STAT
               (HandleInsPvax E s (as_InsPvaX E message) gps_week gps_millisecs)
    | BDSEPHEMERIS \<Rightarrow>
        if unat message_length \<noteq> sizeof_BDS_Ephemeris E then (NONE, s)
        else handled BDSEPHEMERIDES (HandleBdsEph E s (as_BDS_Ephemeris E message))
    | GPSEPHEMERIS \<Rightarrow>
        if unat message_length \<noteq> sizeof_GPS_Ephemeris E then (NONE, s)
        else handled GPSEPHEMERIDES (HandleGpsEph E s (as_GPS_Ephemeris E message))
    | GLOEPHEMERIS \<Rightarrow>
        if unat message_length \<noteq> sizeof_GLO_Ephemeris E then (NONE, s)
        else handled GLOEPHEMERIDES (HandleGloEph E s (as_GLO_Ephemeris E message))
    | RANGE \<Rightarrow> handled OBSERVATION (DecodeGnssObservation E s (buffer_m s))
    | HEADING_ID \<Rightarrow>
        if unat message_length \<noteq> sizeof_Heading E then (NONE, s)
        else handled HEADING
               (HandleHeading E s (as_Heading E message) gps_week gps_millisecs)
    | OTHER_ID _ \<Rightarrow> (NONE, s))"

definition PrepareMessage :: "env \<Rightarrow> real \<Rightarrow> NewtonM2Parser \<Rightarrow> MessageType \<times> NewtonM2Parser" where
  "PrepareMessage E now s =
    (if \<not> check_crc E s then (NONE, s)
     else if buffer_m s ! 2 = SYNC_2_LONG_HEADER E
     then (let header = as_LongHeader E (buffer_m s)
           in PrepareMessage_switch E now s (drop (sizeof_LongHeader E) (buffer_m s))
                (header_message_id header) (header_message_length header)
                (header_gps_week header) (header_gps_millisecs header))
     else (let header = as_ShortHeader E (buffer_m s)
           in PrepareMessage_switch E now s (drop (sizeof_ShortHeader E) (buffer_m s))
                (header_message_id header) (header_message_length header)
                (header_gps_week header) (header_gps_millisecs header)))"

subsection \<open>Frame accumulation\<close>

text \<open>
  One round of the \<^verbatim>\<open>while\<close> loop of \<^verbatim>\<open>GetMessage\<close>, entered with \<^verbatim>\<open>data_ < data_end_\<close>:
  \<open>b\<close> is the byte \<^verbatim>\<open>*data_\<close> and \<open>rest\<close> the range after it, so that \<^verbatim>\<open>++data_\<close> stores
  \<open>Some rest\<close>. The result is \<open>Some type\<close> where the round returns from \<^verbatim>\<open>GetMessage\<close>,
  \<open>None\<close> where the loop goes on. In the last line no branch of the source applies
  and the round changes nothing.
\<close>

definition GetMessage_round ::
  "env \<Rightarrow> real \<Rightarrow> NewtonM2Parser \<Rightarrow> uint8_t \<Rightarrow> uint8_t list \<Rightarrow> MessageType option \<times> NewtonM2Parser" where
  "GetMessage_round E now s b rest =
    (if length (buffer_m s) = 0 then
       (if b = SYNC_0 then (None, s\<lparr>buffer_m := buffer_m s @ [b], data_m := Some rest\<rparr>)
        else (None, s\<lparr>data_m := Some rest\<rparr>))
     else if length (buffer_m s) = 1 then
       (if b = SYNC_1 then (None, s\<lparr>buffer_m := buffer_m s @ [b], data_m := Some rest\<rparr>)
        else (None, s\<lparr>buffer_m := []\<rparr>))
     else if length (buffer_m s) = 2 then
       (if b = SYNC_2_LONG_HEADER E
        then (None, s\<lparr>buffer_m := buffer_m s @ [b], data_m := Some rest,
                       header_length_m := sizeof_LongHeader E\<rparr>)
        else if b = SYNC_2_SHORT_HEADER E
        then (None, s\<lparr>buffer_m := buffer_m s @ [b], data_m := Some rest,
                       header_length_m := sizeof_ShortHeader E\<rparr>)
        else (None, s\<lparr>buffer_m := []\<rparr>))
     else if header_length_m s > 0 then
       (if length (buffer_m s) < header_length_m s
        then (None, s\<lparr>buffer_m := buffer_m s @ [b], data_m := Some rest\<rparr>)
        else if header_length_m s = sizeof_LongHeader E
        then (None, s\<lparr>total_length_m := header_length_m s + CRC_LENGTH
                         + unat (header_message_length (as_LongHeader E (buffer_m s))),
                       header_length_m := 0\<rparr>)
        else if header_length_m s = sizeof_ShortHeader E
        then (None, s\<lparr>total_length_m := header_length_m s + CRC_LENGTH
                         + unat (header_message_length (as_ShortHeader E (buffer_m s))),
                       header_length_m := 0\<rparr>)
        else (None, s\<lparr>buffer_m := [], header_length_m := 0\<rparr>))
     else if total_length_m s > 0 then
       (if length (buffer_m s) < total_length_m s
        then (None, s\<lparr>buffer_m := buffer_m s @ [b], data_m := Some rest\<rparr>)
        else
          (let type = fst (PrepareMessage E now s);
               s1 = (snd (PrepareMessage E now s))\<lparr>buffer_m := [], total_length_m := 0\<rparr>
           in if type \<noteq> NONE then (Some type, s1) else (None, s1)))
     else (None, s))"

text \<open>
  The loop: it ends with \<^verbatim>\<open>NONE\<close> when the input range is used up (or \<^verbatim>\<open>data_\<close> is
  null), and with a message type when a round returns one. A run of the source that
  never leaves the loop is the value \<open>None\<close>.
\<close>

partial_function (option) GetMessage_loop ::
  "env \<Rightarrow> real \<Rightarrow> NewtonM2Parser \<Rightarrow> (MessageType \<times> NewtonM2Parser) option" where
  "GetMessage_loop E now s =
    (case data_m s of
       Some (b # rest) \<Rightarrow>
         (case GetMessage_round E now s b rest of
            (Some type, s') \<Rightarrow> Some (type, s')
          | (None, s') \<Rightarrow> GetMessage_loop E now s')
     | _ \<Rightarrow> Some (NONE, s))"

definition GetMessage ::
  "env \<Rightarrow> real \<Rightarrow> NewtonM2Parser \<Rightarrow> (MessageType \<times> NewtonM2Parser) option" where
  "GetMessage E now s =
    (if data_m s = None then Some (NONE, s) else GetMessage_loop E now s)"

section \<open>Notions used in the statements\<close>

text \<open>The largest frame of the protocol: a long header, the checksum and the largest
  body length that the 16-bit length field can declare.\<close>

definition max_frame_size :: "env \<Rightarrow> nat" where
  "max_frame_size E = sizeof_LongHeader E + CRC_LENGTH + 65535"

text \<open>The state in which a round of \<^verbatim>\<open>GetMessage\<close> hands the buffer to
  \<^verbatim>\<open>PrepareMessage\<close>: a completed candidate frame.\<close>

definition frame_complete :: "NewtonM2Parser \<Rightarrow> bool" where
  "frame_complete s =
    (2 < length (buffer_m s) \<and> header_length_m s = 0 \<and> 0 < total_length_m s
      \<and> \<not> length (buffer_m s) < total_length_m s)"

text \<open>The header that \<^verbatim>\<open>PrepareMessage\<close> reads, by the third byte of the buffer.\<close>

definition frame_header :: "env \<Rightarrow> NewtonM2Parser \<Rightarrow> Header" where
  "frame_header E s =
    (if buffer_m s ! 2 = SYNC_2_LONG_HEADER E then as_LongHeader E (buffer_m s)
     else as_ShortHeader E (buffer_m s))"

definition frame_message :: "env \<Rightarrow> NewtonM2Parser \<Rightarrow> uint8_t list" where
  "frame_message E s =
    (if buffer_m s ! 2 = SYNC_2_LONG_HEADER E then drop (sizeof_LongHeader E) (buffer_m s)
     else drop (sizeof_ShortHeader E) (buffer_m s))"

text \<open>The three phases of the accumulation: sync search (fewer than three bytes), header
  (the header size is recorded) and body (the total length is recorded).\<close>

definition framing_inv :: "env \<Rightarrow> NewtonM2Parser \<Rightarrow> bool" where
  "framing_inv E s =
    (length (buffer_m s) < 3
     \<or> (0 < header_length_m s
         \<and> (header_length_m s = sizeof_LongHeader E \<or> header_length_m s = sizeof_ShortHeader E)
         \<and> length (buffer_m s) \<le> max 3 (header_length_m s))
     \<or> (header_length_m s = 0 \<and> 0 < total_length_m s
         \<and> total_length_m s
              \<le> max (sizeof_LongHeader E) (sizeof_ShortHeader E) + CRC_LENGTH + 65535
         \<and> length (buffer_m s) \<le> max 3 (total_length_m s)))"

text \<open>The states of a parser's life: constructed, given a new input range, or left by a
  round of the loop of \<^verbatim>\<open>GetMessage\<close> (at any clock value).\<close>

inductive reachable :: "env \<Rightarrow> NewtonM2Parser \<Rightarrow> bool" for E :: env where
  constructed: "reachable E (NewtonM2Parser_new E d config)"
| updated: "reachable E s \<Longrightarrow> reachable E (Update s bytes)"
| round: "reachable E s \<Longrightarrow> data_m s = Some (b # rest)
           \<Longrightarrow> reachable E (snd (GetMessage_round E now s b rest))"

text \<open>The life of one parser object: \<open>d\<close> is the object as the in-class member
  initialisers leave it, the constructor runs on it, and the object is then given input
  ranges and taken through rounds of the loop of \<^verbatim>\<open>GetMessage\<close>.\<close>

inductive lifetime :: "env \<Rightarrow> NewtonM2Parser \<Rightarrow> NewtonM2Parser \<Rightarrow> bool"
  for E :: env and d :: NewtonM2Parser where
  built: "lifetime E d (NewtonM2Parser_new E d config)"
| fed: "lifetime E d s \<Longrightarrow> lifetime E d (Update s bytes)"
| ran: "lifetime E d s \<Longrightarrow> data_m s = Some (b # rest)
           \<Longrightarrow> lifetime E d (snd (GetMessage_round E now s b rest))"

text \<open>The members that the accumulation of \<^verbatim>\<open>GetMessage\<close> owns.\<close>

definition same_framing :: "NewtonM2Parser \<Rightarrow> NewtonM2Parser \<Rightarrow> bool" where
  "same_framing s s' =
    (buffer_m s' = buffer_m s \<and> header_length_m s' = header_length_m s
      \<and> total_length_m s' = total_length_m s \<and> data_m s' = data_m s)"

text \<open>What is left to do before the loop of \<^verbatim>\<open>GetMessage\<close> ends: the bytes of the input
  range, and the rounds that consume none.\<close>

definition rounds_left :: "NewtonM2Parser \<Rightarrow> nat" where
  "rounds_left s =
    3 * length (case data_m s of None \<Rightarrow> [] | Some bytes \<Rightarrow> bytes)
      + (if buffer_m s = [] then 0
         else if length (buffer_m s) < 3 then 1
         else if 0 < header_length_m s then 2 else 1)"

text \<open>A header begins with the three sync bytes, and the short header is not longer than
  the long one: what the statements on frame sizes ask of the two layouts.\<close>

definition header_sizes_ok :: "env \<Rightarrow> bool" where
  "header_sizes_ok E =
    (3 \<le> sizeof_ShortHeader E \<and> sizeof_ShortHeader E \<le> sizeof_LongHeader E)"

text \<open>A frame that updates the fused-navigation record \<^verbatim>\<open>gnss_\<close>: a position body
  (BESTPOS, PSRPOS) or a velocity body (BESTGNSSVEL, BESTVEL, PSRVEL), with its handler.\<close>

datatype gnss_frame = PositionFrame BestPos | VelocityFrame BestVel

definition HandleGnssFrame ::
  "env \<Rightarrow> NewtonM2Parser \<Rightarrow> gnss_frame \<Rightarrow> uint16_t \<Rightarrow> uint32_t \<Rightarrow> bool \<times> NewtonM2Parser" where
  "HandleGnssFrame E s f gps_week gps_millisecs =
    (case f of
       PositionFrame pos \<Rightarrow> HandleBestPos E s pos gps_week gps_millisecs
     | VelocityFrame vel \<Rightarrow> HandleBestVel E s vel gps_week gps_millisecs)"

text \<open>The calibration members: gyro scale, accelerometer scale, sampling rate and sample
  interval.\<close>

definition calibration :: "NewtonM2Parser \<Rightarrow> real \<times> real \<times> real \<times> real" where
  "calibration s =
    (gyro_scale_m s, accel_scale_m s, imu_measurement_hz_m s, imu_measurement_span_m s)"

text \<open>A satellite whose system the output taxonomy knows; a band of a satellite that has
  a carrier phase and an identifier in the taxonomy; and the record the outer loop of
  \<^verbatim>\<open>DecodeGnssObservation\<close> appends for satellite \<open>i\<close>.\<close>

definition recognised_sat :: "env \<Rightarrow> obsd_t \<Rightarrow> bool" where
  "recognised_sat E d = (gnss_sys_type E (fst (satsys E (obsd_sat d))) \<noteq> None)"

definition mappable_band :: "env \<Rightarrow> GnssType \<Rightarrow> obsd_t \<Rightarrow> nat \<Rightarrow> bool" where
  "mappable_band E gnss_type d j =
    (\<not> is_zero (obsd_L d j) \<and> gnss_baud_id E gnss_type j \<noteq> None)"

definition decode_sat :: "env \<Rightarrow> nat \<Rightarrow> obsd_t \<Rightarrow> SatelliteObservation" where
  "decode_sat E i d =
    (let gnss_type = the (gnss_sys_type E (fst (satsys E (obsd_sat d))));
         r = band_obs_loop E gnss_type d i 0
               \<lparr>sat_sat_prn = snd (satsys E (obsd_sat d)), sat_sat_sys = gnss_type,
                sat_band_obs = [], sat_band_obs_num = 0\<rparr>
     in (snd r)\<lparr>sat_band_obs_num := fst r\<rparr>)"

section \<open>A sample instance\<close>

text \<open>
  Concrete values on which the theorems below are exercised: records with every field
  zero, an instance \<open>sample_env\<close> of the parameters (two header layouts of 28 and 12
  bytes with little-endian fields, an additive checksum standing in for the CRC, body
  views that return fixed records, a calibration table with one supported device) and
  a freshly constructed parser.
\<close>

definition zero_PointLLH :: PointLLH where
  "zero_PointLLH =
    \<lparr>lon = 0, lat = 0, height = 0\<rparr>"

definition zero_Point3D :: Point3D where
  "zero_Point3D =
    \<lparr>x = 0, y = 0, z = 0\<rparr>"

definition zero_BestPos :: BestPos where
  "zero_BestPos =
    \<lparr>pos_solution_status = OTHER_SOLUTION_STATUS 0,
     pos_position_type = OTHER_SOLUTION_TYPE 0, pos_latitude = 0, pos_longitude = 0,
     pos_height_msl = 0, pos_undulation = 0, pos_datum_id = OTHER_DATUM 0,
     pos_latitude_std_dev = 0, pos_longitude_std_dev = 0, pos_height_std_dev = 0,
     pos_base_station_id = [], pos_differential_age = 0, pos_solution_age = 0,
     pos_num_sats_tracked = 0, pos_num_sats_in_solution = 0, pos_num_sats_l1 = 0,
     pos_num_sats_multi = 0, pos_extended_solution_status = 0,
     pos_galileo_beidou_used_mask = 0, pos_gps_glonass_used_mask = 0\<rparr>"

definition zero_BestVel :: BestVel where
  "zero_BestVel =
    \<lparr>vel_velocity_type = OTHER_SOLUTION_TYPE 0, vel_latency = 0,
     vel_track_over_ground = 0, vel_horizontal_speed = 0, vel_vertical_speed = 0\<rparr>"

definition zero_CorrImuData :: CorrImuData where
  "zero_CorrImuData =
    \<lparr>corr_gps_week = 0, corr_gps_seconds = 0, corr_x_angle_change = 0,
     corr_y_angle_change = 0, corr_z_angle_change = 0, corr_x_velocity_change = 0,
     corr_y_velocity_change = 0, corr_z_velocity_change = 0\<rparr>"

definition zero_InsCov :: InsCov where
  "zero_InsCov =
    \<lparr>cov_position_covariance = (\<lambda>_. 0),
     cov_attitude_covariance = (\<lambda>_. 0),
     cov_velocity_covariance = (\<lambda>_. 0)\<rparr>"

text \<open>A covariance body with distinct entries.\<close>

definition sample_InsCov :: InsCov where
  "sample_InsCov =
    \<lparr>cov_position_covariance = (\<lambda>i. real i + 1),
     cov_attitude_covariance = (\<lambda>i. 2 * real i),
     cov_velocity_covariance = (\<lambda>i. 10 - real i)\<rparr>"

definition zero_InsPva :: InsPva where
  "zero_InsPva =
    \<lparr>pva_gps_week = 0, pva_gps_seconds = 0, pva_latitude = 0, pva_longitude = 0,
     pva_height = 0, pva_north_velocity = 0, pva_east_velocity = 0, pva_up_velocity = 0,
     pva_roll = 0, pva_pitch = 0, pva_azimuth = 0, pva_status = OTHER_INS_STATUS 0\<rparr>"

definition zero_InsPvaX :: InsPvaX where
  "zero_InsPvaX =
    \<lparr>pvax_ins_status = 0, pvax_pos_type = 0\<rparr>"

definition zero_RawImuX :: RawImuX where
  "zero_RawImuX =
    \<lparr>imux_imu_error = 0, imux_imuStatus = 0, imux_gps_week = 0, imux_gps_seconds = 0,
     imux_z_velocity_change = 0, imux_y_velocity_change_neg = 0, imux_x_velocity_change = 0,
     imux_z_angle_change = 0, imux_y_angle_change_neg = 0, imux_x_angle_change = 0\<rparr>"

definition zero_RawImu :: RawImu where
  "zero_RawImu =
    \<lparr>rimu_gps_week = 0, rimu_gps_seconds = 0, rimu_z_velocity_change = 0,
     rimu_y_velocity_change_neg = 0, rimu_x_velocity_change = 0, rimu_z_angle_change = 0,
     rimu_y_angle_change_neg = 0, rimu_x_angle_change = 0\<rparr>"

definition zero_GPS_Ephemeris :: GPS_Ephemeris where
  "zero_GPS_Ephemeris =
    \<lparr>gpseph_prn = 0, gpseph_week = 0, gpseph_af0 = 0, gpseph_af1 = 0, gpseph_af2 = 0,
     gpseph_iode1 = 0, gpseph_delta_A = 0, gpseph_M_0 = 0, gpseph_ecc = 0, gpseph_A = 0,
     gpseph_toe = 0, gpseph_toc = 0, gpseph_cic = 0, gpseph_crc = 0, gpseph_cis = 0,
     gpseph_crs = 0, gpseph_cuc = 0, gpseph_cus = 0, gpseph_omega_0 = 0, gpseph_omega = 0,
     gpseph_I_0 = 0, gpseph_dot_omega = 0, gpseph_dot_I = 0, gpseph_ura = 0,
     gpseph_health = 0, gpseph_tgd = 0, gpseph_iodc = 0\<rparr>"

definition zero_BDS_Ephemeris :: BDS_Ephemeris where
  "zero_BDS_Ephemeris =
    \<lparr>bdseph_satellite_id = 0, bdseph_week = 0, bdseph_a0 = 0, bdseph_a1 = 0,
     bdseph_a2 = 0, bdseph_aode = 0, bdseph_delta_N = 0, bdseph_M0 = 0, bdseph_ecc = 0,
     bdseph_rootA = 0, bdseph_toe = 0, bdseph_toc = 0, bdseph_cic = 0, bdseph_crc = 0,
     bdseph_cis = 0, bdseph_crs = 0, bdseph_cuc = 0, bdseph_cus = 0, bdseph_omega0 = 0,
     bdseph_omega = 0, bdseph_inc_angle = 0, bdseph_rra = 0, bdseph_idot = 0,
     bdseph_ura = 0, bdseph_health1 = 0, bdseph_tdg1 = 0, bdseph_aodc = 0\<rparr>"

definition zero_GLO_Ephemeris :: GLO_Ephemeris where
  "zero_GLO_Ephemeris =
    \<lparr>gloeph_sloto = 0, gloeph_e_time = 0, gloeph_freqo = 0, gloeph_e_week = 0,
     gloeph_Tk = 0, gloeph_tau_n = 0, gloeph_gamma = 0, gloeph_health = 0, gloeph_pos_x = 0,
     gloeph_pos_y = 0, gloeph_pos_z = 0, gloeph_vel_x = 0, gloeph_vel_y = 0,
     gloeph_vel_z = 0, gloeph_acc_x = 0, gloeph_acc_y = 0, gloeph_acc_z = 0,
     gloeph_age = 0\<rparr>"

definition zero_Heading :: Heading where
  "zero_Heading =
    \<lparr>hd_solution_status = OTHER_SOLUTION_STATUS 0,
     hd_position_type = OTHER_SOLUTION_TYPE 0, hd_length = 0, hd_heading = 0, hd_pitch = 0,
     hd_reserved = 0, hd_heading_std_dev = 0, hd_pitch_std_dev = 0, hd_station_id = [],
     hd_num_sats_tracked = 0, hd_num_sats_in_solution = 0, hd_num_sats_ele = 0,
     hd_num_sats_l2 = 0, hd_solution_source = 0, hd_extended_solution_status = 0,
     hd_galileo_beidou_sig_mask = 0, hd_gps_glonass_sig_mask = 0\<rparr>"

definition zero_GnssBestPose :: GnssBestPose where
  "zero_GnssBestPose =
    \<lparr>bestpos_sol_status = OTHER_SOLUTION_STATUS 0,
     bestpos_sol_type = OTHER_SOLUTION_TYPE 0, bestpos_latitude = 0, bestpos_longitude = 0,
     bestpos_height_msl = 0, bestpos_undulation = 0, bestpos_datum_id = OTHER_DATUM 0,
     bestpos_latitude_std_dev = 0, bestpos_longitude_std_dev = 0,
     bestpos_height_std_dev = 0, bestpos_base_station_id = [], bestpos_differential_age = 0,
     bestpos_solution_age = 0, bestpos_num_sats_tracked = 0,
     bestpos_num_sats_in_solution = 0, bestpos_num_sats_l1 = 0, bestpos_num_sats_multi = 0,
     bestpos_extended_solution_status = 0, bestpos_galileo_beidou_used_mask = 0,
     bestpos_gps_glonass_used_mask = 0, bestpos_measurement_time = 0\<rparr>"

definition zero_Gnss :: Gnss where
  "zero_Gnss =
    \<lparr>gnss_position = zero_PointLLH, gnss_position_std_dev = zero_Point3D,
     gnss_num_sats = 0, gnss_solution_status = 0, gnss_position_type = 0,
     gnss_Type = Gnss_INVALID, gnss_measurement_time = 0, gnss_velocity_latency = None,
     gnss_linear_velocity = zero_Point3D\<rparr>"

definition zero_Ins :: Ins where
  "zero_Ins =
    \<lparr>ins_linear_acceleration = zero_Point3D, ins_angular_velocity = zero_Point3D,
     ins_measurement_time = 0, ins_header_timestamp_sec = 0, ins_position_covariance = [],
     ins_euler_angles_covariance = [], ins_linear_velocity_covariance = [],
     ins_position = zero_PointLLH, ins_euler_angles = zero_Point3D,
     ins_linear_velocity = zero_Point3D, ins_type = Ins_INVALID\<rparr>"

definition zero_Imu :: Imu where
  "zero_Imu =
    \<lparr>imu_measurement_span = 0, imu_measurement_time = 0,
     imu_linear_acceleration = zero_Point3D, imu_angular_velocity = zero_Point3D\<rparr>"

definition zero_InsStat :: InsStat where
  "zero_InsStat =
    \<lparr>ins_stat_header_timestamp_sec = 0, ins_stat_ins_status = 0,
     ins_stat_pos_type = 0\<rparr>"

definition zero_KepplerOrbit :: KepplerOrbit where
  "zero_KepplerOrbit =
    \<lparr>ko_gnss_type = OTHER_SYS 0, ko_gnss_time_type = GPS_TIME, ko_sat_prn = 0,
     ko_week_num = 0, ko_af0 = 0, ko_af1 = 0, ko_af2 = 0, ko_iode = 0, ko_deltan = 0,
     ko_m0 = 0, ko_e = 0, ko_roota = 0, ko_toe = 0, ko_toc = 0, ko_cic = 0, ko_crc = 0,
     ko_cis = 0, ko_crs = 0, ko_cuc = 0, ko_cus = 0, ko_omega0 = 0, ko_omega = 0, ko_i0 = 0,
     ko_omegadot = 0, ko_idot = 0, ko_accuracy = 0, ko_health = 0, ko_tgd = 0,
     ko_iodc = 0\<rparr>"

definition zero_GlonassOrbit :: GlonassOrbit where
  "zero_GlonassOrbit =
    \<lparr>go_gnss_type = OTHER_SYS 0, go_gnss_time_type = GPS_TIME, go_slot_prn = 0,
     go_toe = 0, go_frequency_no = 0, go_week_num = 0, go_week_second_s = 0, go_tk = 0,
     go_clock_offset = 0, go_clock_drift = 0, go_health = 0, go_position_x = 0,
     go_position_y = 0, go_position_z = 0, go_velocity_x = 0, go_velocity_y = 0,
     go_velocity_z = 0, go_accelerate_x = 0, go_accelerate_y = 0, go_accelerate_z = 0,
     go_infor_age = 0\<rparr>"

definition zero_GnssEphemeris :: GnssEphemeris where
  "zero_GnssEphemeris =
    \<lparr>eph_gnss_type = OTHER_SYS 0, eph_keppler_orbit = zero_KepplerOrbit,
     eph_glonass_orbit = zero_GlonassOrbit\<rparr>"

definition zero_HeadingMsg :: HeadingMsg where
  "zero_HeadingMsg =
    \<lparr>heading_solution_status = 0, heading_position_type = 0,
     heading_baseline_length = 0, heading_heading = 0, heading_pitch = 0,
     heading_reserved = 0, heading_heading_std_dev = 0, heading_pitch_std_dev = 0,
     heading_station_id = [], heading_satellite_tracked_number = 0,
     heading_satellite_soulution_number = 0, heading_satellite_number_obs = 0,
     heading_satellite_number_multi = 0, heading_solution_source = 0,
     heading_extended_solution_status = 0, heading_galileo_beidou_sig_mask = 0,
     heading_gps_glonass_sig_mask = 0, heading_measurement_time = 0\<rparr>"

definition zero_EpochObservation :: EpochObservation where
  "zero_EpochObservation =
    \<lparr>epoch_receiver_id = 0, epoch_gnss_time_type = None, epoch_gnss_week = 0,
     epoch_gnss_second_s = 0, epoch_sat_obs_num = 0, epoch_sat_obs = []\<rparr>"

definition zero_raw_t :: raw_t where
  "zero_raw_t = \<lparr>raw_time = 0, raw_obs = [], raw_internal = []\<rparr>"

definition zero_parser :: NewtonM2Parser where
  "zero_parser =
    \<lparr>data_m = None, buffer_m = [], header_length_m = 0, total_length_m = 0,
     imu_type_m = IMU_TYPE 0, imu_frame_mapping_m = 5, gyro_scale_m = 0, accel_scale_m = 0,
     imu_measurement_hz_m = 0, imu_measurement_span_m = 0,
     imu_measurement_time_previous_m = 0,
     solution_status_m = OTHER_SOLUTION_STATUS 0, position_type_m = OTHER_SOLUTION_TYPE 0,
     velocity_type_m = OTHER_SOLUTION_TYPE 0, ins_status_m = OTHER_INS_STATUS 0,
     raw_m = zero_raw_t, bestpos_m = zero_GnssBestPose, gnss_m = zero_Gnss, ins_m = zero_Ins,
     imu_m = zero_Imu, ins_stat_m = zero_InsStat, gnss_ephemeris_m = zero_GnssEphemeris,
     heading_m = zero_HeadingMsg, gnss_observation_m = zero_EpochObservation\<rparr>"

definition sample_MessageId :: "uint16_t \<Rightarrow> MessageId" where
  "sample_MessageId n =
    (if n = 1429 then BESTGNSSPOS
     else if n = 42 then BESTPOS
     else if n = 47 then PSRPOS
     else if n = 1430 then BESTGNSSVEL
     else if n = 99 then BESTVEL
     else if n = 100 then PSRVEL
     else if n = 812 then CORRIMUDATA
     else if n = 813 then CORRIMUDATAS
     else if n = 264 then INSCOV
     else if n = 320 then INSCOVS
     else if n = 507 then INSPVA
     else if n = 508 then INSPVAS
     else if n = 1461 then RAWIMUX
     else if n = 1462 then RAWIMUSX
     else if n = 268 then RAWIMU
     else if n = 325 then RAWIMUS
     else if n = 1465 then INSPVAX
     else if n = 1696 then BDSEPHEMERIS
     else if n = 7 then GPSEPHEMERIS
     else if n = 723 then GLOEPHEMERIS
     else if n = 43 then RANGE
     else if n = 971 then HEADING_ID
     else OTHER_ID n)"

definition sample_crc32_block :: "uint8_t list \<Rightarrow> uint32_t" where
  "sample_crc32_block bytes = foldl (\<lambda>a b. a + ucast b) 0 bytes"

definition sample_uint16 :: "uint8_t list \<Rightarrow> nat \<Rightarrow> uint16_t" where
  "sample_uint16 bytes k = ucast (bytes ! k) + 256 * ucast (bytes ! (k + 1))"

definition sample_load_uint32 :: "uint8_t list \<Rightarrow> uint32_t" where
  "sample_load_uint32 bytes =
     ucast (bytes ! 0) + 256 * ucast (bytes ! 1) + 65536 * ucast (bytes ! 2)
       + 16777216 * ucast (bytes ! 3)"

definition sample_as_LongHeader :: "uint8_t list \<Rightarrow> Header" where
  "sample_as_LongHeader bytes =
    \<lparr>header_message_id = sample_MessageId (sample_uint16 bytes 4),
     header_message_length = sample_uint16 bytes 8,
     header_gps_week = sample_uint16 bytes 14,
     header_gps_millisecs = sample_load_uint32 (drop 16 bytes)\<rparr>"

definition sample_as_ShortHeader :: "uint8_t list \<Rightarrow> Header" where
  "sample_as_ShortHeader bytes =
    \<lparr>header_message_id = sample_MessageId (sample_uint16 bytes 4),
     header_message_length = ucast (bytes ! 3),
     header_gps_week = sample_uint16 bytes 6,
     header_gps_millisecs = sample_load_uint32 (drop 8 bytes)\<rparr>"

definition sample_BestPos :: BestPos where
  "sample_BestPos =
     zero_BestPos\<lparr>pos_solution_status := SOL_COMPUTED, pos_position_type := SINGLE,
       pos_latitude := 37.4, pos_longitude := - 122.1, pos_height_msl := 10,
       pos_undulation := - 25, pos_datum_id := WGS84\<rparr>"

definition sample_RawImuX :: RawImuX where
  "sample_RawImuX =
     zero_RawImuX\<lparr>imux_gps_week := 2200, imux_gps_seconds := 100,
       imux_x_velocity_change := 10, imux_y_velocity_change_neg := 20,
       imux_z_velocity_change := 30, imux_x_angle_change := 1, imux_y_angle_change_neg := 2,
       imux_z_angle_change := 3\<rparr>"

definition sample_RawImu :: RawImu where
  "sample_RawImu =
     zero_RawImu\<lparr>rimu_gps_week := 2200, rimu_gps_seconds := 100,
       rimu_x_velocity_change := 10, rimu_y_velocity_change_neg := 20,
       rimu_z_velocity_change := 30, rimu_x_angle_change := 1, rimu_y_angle_change_neg := 2,
       rimu_z_angle_change := 3\<rparr>"

definition sample_uint32_of_SolutionType :: "SolutionType \<Rightarrow> uint32_t" where
  "sample_uint32_of_SolutionType t =
    (case t of
       SINGLE \<Rightarrow> 16
     | INS_PSRSP \<Rightarrow> 53
     | PSRDIFF \<Rightarrow> 17
     | WAAS \<Rightarrow> 18
     | INS_SBAS \<Rightarrow> 52
     | FLOATCONV \<Rightarrow> 4
     | L1_FLOAT \<Rightarrow> 32
     | IONOFREE_FLOAT \<Rightarrow> 33
     | NARROW_FLOAT \<Rightarrow> 34
     | RTK_DIRECT_INS \<Rightarrow> 51
     | INS_RTKFLOAT \<Rightarrow> 55
     | WIDELANE \<Rightarrow> 5
     | NARROWLANE \<Rightarrow> 6
     | L1_INT \<Rightarrow> 48
     | WIDE_INT \<Rightarrow> 49
     | NARROW_INT \<Rightarrow> 50
     | INS_RTKFIXED \<Rightarrow> 56
     | OMNISTAR \<Rightarrow> 20
     | INS_OMNISTAR \<Rightarrow> 57
     | INS_OMNISTAR_HP \<Rightarrow> 58
     | INS_OMNISTAR_XP \<Rightarrow> 59
     | OMNISTAR_HP \<Rightarrow> 64
     | OMNISTAR_XP \<Rightarrow> 65
     | PPP_CONVERGING \<Rightarrow> 68
     | PPP \<Rightarrow> 69
     | INS_PPP_CONVERGING \<Rightarrow> 73
     | INS_PPP \<Rightarrow> 74
     | PROPOGATED \<Rightarrow> 19
     | OTHER_SOLUTION_TYPE n \<Rightarrow> of_nat n)"

definition sample_GetImuParameter :: "ImuType \<Rightarrow> ImuParameter" where
  "sample_GetImuParameter t =
    (case t of IMU_TYPE n \<Rightarrow>
       if n = 0
       then \<lparr>param_gyro_scale = 1 / 1000, param_accel_scale = 1 / 500, param_sampling_rate_hz = 200\<rparr>
       else \<lparr>param_gyro_scale = 0, param_accel_scale = 0, param_sampling_rate_hz = 0\<rparr>)"

definition sample_satsys :: "nat \<Rightarrow> int \<times> int" where
  "sample_satsys sat =
    (if 1 \<le> sat \<and> sat \<le> 32 then (1, int sat)
     else if 33 \<le> sat \<and> sat \<le> 59 then (4, int sat - 32)
     else if 60 \<le> sat \<and> sat \<le> 95 then (8, int sat - 59)
     else (0, 0))"

definition sample_gnss_sys_type :: "int \<Rightarrow> GnssType option" where
  "sample_gnss_sys_type sys =
    (if sys = 1 then Some GPS_SYS else if sys = 4 then Some GLO_SYS
     else if sys = 32 then Some BDS_SYS else None)"

definition sample_gnss_baud_id :: "GnssType \<Rightarrow> nat \<Rightarrow> GnssBandID option" where
  "sample_gnss_baud_id t j =
    (case t of
       GPS_SYS \<Rightarrow> (if j < 3 then Some (BAND_ID j) else None)
     | GLO_SYS \<Rightarrow> (if j < 2 then Some (BAND_ID (10 + j)) else None)
     | BDS_SYS \<Rightarrow> (if j < 3 then Some (BAND_ID (20 + j)) else None)
     | OTHER_SYS _ \<Rightarrow> None)"

text \<open>An observation epoch of three satellites: a GPS satellite with carrier phases on
  two bands, a satellite of no known system, and a second GPS satellite.\<close>

definition sample_obsd :: "nat \<Rightarrow> obsd_t" where
  "sample_obsd sat =
    \<lparr>obsd_sat = sat, obsd_L = (\<lambda>j. if j < 2 then 1000 else 0), obsd_P = (\<lambda>j. 2000),
     obsd_D = (\<lambda>j. 3), obsd_SNR = (\<lambda>j. 40), obsd_code = (\<lambda>j. 1)\<rparr>"

definition sample_epoch :: raw_t where
  "sample_epoch =
    \<lparr>raw_time = 0, raw_obs = [sample_obsd 5, sample_obsd 200, sample_obsd 7],
     raw_internal = []\<rparr>"

text \<open>A stand-in for the sub-decoder: the byte \<open>0xFF\<close> completes the sample epoch, any
  other byte is buffered.\<close>

definition sample_input_oem4 :: "raw_t \<Rightarrow> uint8_t \<Rightarrow> int \<times> raw_t" where
  "sample_input_oem4 r b =
    (if b = 0xFF then (1, sample_epoch) else (0, r\<lparr>raw_internal := raw_internal r @ [b]\<rparr>))"

definition sample_env :: env where
  "sample_env =
    \<lparr>SYNC_2_LONG_HEADER = 0x12, SYNC_2_SHORT_HEADER = 0x13,
     sizeof_LongHeader = 28, sizeof_ShortHeader = 12,
     crc32_block = sample_crc32_block, load_uint32 = sample_load_uint32,
     as_LongHeader = sample_as_LongHeader, as_ShortHeader = sample_as_ShortHeader,
     sizeof_BestPos = 72, sizeof_BestVel = 44, sizeof_CorrImuData = 60, sizeof_InsCov = 228,
     sizeof_InsPva = 88, sizeof_RawImuX = 40, sizeof_RawImu = 40, sizeof_InsPvaX = 126,
     sizeof_BDS_Ephemeris = 196, sizeof_GPS_Ephemeris = 224, sizeof_GLO_Ephemeris = 144,
     sizeof_Heading = 44,
     as_BestPos = (\<lambda>_. sample_BestPos), as_BestVel = (\<lambda>_. zero_BestVel),
     as_CorrImuData = (\<lambda>_. zero_CorrImuData), as_InsCov = (\<lambda>_. zero_InsCov),
     as_InsPva = (\<lambda>_. zero_InsPva), as_RawImuX = (\<lambda>_. sample_RawImuX),
     as_RawImu = (\<lambda>_. sample_RawImu), as_InsPvaX = (\<lambda>_. zero_InsPvaX),
     as_BDS_Ephemeris = (\<lambda>_. zero_BDS_Ephemeris), as_GPS_Ephemeris = (\<lambda>_. zero_GPS_Ephemeris),
     as_GLO_Ephemeris = (\<lambda>_. zero_GLO_Ephemeris), as_Heading = (\<lambda>_. zero_Heading),
     uint32_of_SolutionStatus =
       (\<lambda>st. case st of SOL_COMPUTED \<Rightarrow> 0 | OTHER_SOLUTION_STATUS n \<Rightarrow> of_nat n),
     uint32_of_SolutionType = sample_uint32_of_SolutionType,
     GetImuParameter = sample_GetImuParameter,
     azimuth_deg_to_yaw_rad = (\<lambda>azimuth. (90 - azimuth) * (pi / 180)),
     rfu_to_flu = (\<lambda>r f u flu. flu\<lparr>x := f, y := - r, z := u\<rparr>),
     gps2unix = (\<lambda>t. t + 315964782),
     DEG_TO_RAD = pi / 180,
     INDEX = (\<lambda>i. [4, 3, 5, 1, 0, 2, 7, 6, 8] ! i),
     FLOAT_NAN = 0,
     init_raw = (\<lambda>r. (1, zero_raw_t)),
     input_oem4 = sample_input_oem4,
     time2gpst = (\<lambda>t. (t - 604800 * real_of_int \<lfloor>t / 604800\<rfloor>, \<lfloor>t / 604800\<rfloor>)),
     satsys = sample_satsys, gnss_sys_type = sample_gnss_sys_type,
     gnss_baud_id = sample_gnss_baud_id,
     NFREQ_NEXOBS = 3, CODE_L1C = 1, CODE_L1P = 2\<rparr>"

definition sample_parser :: NewtonM2Parser where
  "sample_parser = NewtonM2Parser_new sample_env zero_parser \<lparr>config_imu_type = None\<rparr>"

text \<open>A frame with a short header, the identifier 1337 (none of the switch), an empty body and
  its checksum.\<close>

definition unknown_frame :: "uint8_t list" where
  "unknown_frame =
     [0xAA, 0x44, 0x13, 0, 0x39, 0x05, 0x98, 0x08, 0xA0, 0x86, 0x01, 0]
     @ [0x06, 0x03, 0, 0]"

text \<open>The same frame with one checksum byte altered.\<close>

definition bad_crc_frame :: "uint8_t list" where
  "bad_crc_frame =
     [0xAA, 0x44, 0x13, 0, 0x39, 0x05, 0x98, 0x08, 0xA0, 0x86, 0x01, 0]
     @ [0x07, 0x03, 0, 0]"

text \<open>A BESTPOS frame with a long header: week 2200, millisecond 100000, a body of 72 bytes.\<close>

definition bestpos_frame :: "uint8_t list" where
  "bestpos_frame =
     [0xAA, 0x44, 0x12, 0x1C, 0x2A, 0, 0, 0, 0x48, 0, 0, 0, 0, 0, 0x98, 0x08, 0xA0, 0x86, 0x01, 0, 0, 0, 0, 0, 0, 0, 0, 0]
     @ replicate 72 0
     @ [0x55, 0x03, 0, 0]"

text \<open>A RAWIMUX frame with a short header and a body of 40 bytes.\<close>

definition rawimux_frame :: "uint8_t list" where
  "rawimux_frame =
     [0xAA, 0x44, 0x13, 0x28, 0xB5, 0x05, 0x98, 0x08, 0xA0, 0x86, 0x01, 0]
     @ replicate 40 0
     @ [0xAA, 0x03, 0, 0]"

text \<open>A HEADING frame with a short header and a body of 44 bytes.\<close>

definition heading_frame :: "uint8_t list" where
  "heading_frame =
     [0xAA, 0x44, 0x13, 0x2C, 0xCB, 0x03, 0x98, 0x08, 0xA0, 0x86, 0x01, 0]
     @ replicate 44 0
     @ [0xC2, 0x03, 0, 0]"

text \<open>An INSCOV frame with a long header and a body of 228 bytes.\<close>

definition inscov_frame :: "uint8_t list" where
  "inscov_frame =
     [0xAA, 0x44, 0x12, 0x1C, 0x08, 0x01, 0, 0, 0xE4, 0, 0, 0, 0, 0, 0x98, 0x08, 0xA0, 0x86, 0x01, 0, 0, 0, 0, 0, 0, 0, 0, 0]
     @ replicate 228 0
     @ [0xD0, 0x03, 0, 0]"

section \<open>Auxiliary facts\<close>

subsection \<open>The handlers leave the accumulation alone\<close>

lemma same_framing_refl: "same_framing s s"
  by (simp add: same_framing_def)

lemma same_framing_GnssBestpos: "same_framing s (snd (HandleGnssBestpos E s pos w ms))"
  by (simp add: HandleGnssBestpos_def same_framing_def Let_def)

lemma same_framing_BestPos: "same_framing s (snd (HandleBestPos E s pos w ms))"
  by (simp add: HandleBestPos_def same_framing_def Let_def)

lemma same_framing_BestVel: "same_framing s (snd (HandleBestVel E s vel w ms))"
  by (simp add: HandleBestVel_def same_framing_def Let_def)

lemma same_framing_CorrImuData: "same_framing s (snd (HandleCorrImuData E now s imu))"
  by (simp add: HandleCorrImuData_def same_framing_def Let_def)

lemma same_framing_InsCov: "same_framing s (snd (HandleInsCov E s cov))"
  by (simp add: HandleInsCov_def same_framing_def)

lemma same_framing_InsPva: "same_framing s (snd (HandleInsPva E now s pva))"
  by (simp add: HandleInsPva_def same_framing_def Let_def)

lemma same_framing_InsPvax: "same_framing s (snd (HandleInsPvax E s pvax w ms))"
  by (simp add: HandleInsPvax_def same_framing_def Let_def)

lemma same_framing_RawImuX: "same_framing s (snd (HandleRawImuX E s imu))"
  unfolding HandleRawImuX_def same_framing_def
  by (cases "is_zero (gyro_scale_m s)") (simp_all add: Let_def)

lemma same_framing_RawImu: "same_framing s (snd (HandleRawImu E s imu))"
  unfolding HandleRawImu_def same_framing_def
  by (cases "is_zero (gyro_scale_m s)") (simp_all add: Let_def)

lemma same_framing_GpsEph: "same_framing s (snd (HandleGpsEph E s e))"
  by (simp add: HandleGpsEph_def same_framing_def Let_def)

lemma same_framing_BdsEph: "same_framing s (snd (HandleBdsEph E s e))"
  by (simp add: HandleBdsEph_def same_framing_def Let_def)

lemma same_framing_GloEph: "same_framing s (snd (HandleGloEph E s e))"
  by (simp add: HandleGloEph_def same_framing_def Let_def)

lemma same_framing_Heading: "same_framing s (snd (HandleHeading E s h w ms))"
  by (simp add: HandleHeading_def same_framing_def Let_def)

lemma same_framing_Decode: "same_framing s (snd (DecodeGnssObservation E s bytes))"
  by (induction bytes arbitrary: s) (simp_all add: same_framing_def Let_def)

lemma same_framing_handled:
  "same_framing s (snd r) \<Longrightarrow> same_framing s (snd (handled t r))"
  by (simp add: handled_def)

lemmas same_framing_handlers =
  same_framing_GnssBestpos same_framing_BestPos same_framing_BestVel same_framing_CorrImuData
  same_framing_InsCov same_framing_InsPva same_framing_InsPvax same_framing_RawImuX
  same_framing_RawImu same_framing_GpsEph same_framing_BdsEph same_framing_GloEph
  same_framing_Heading same_framing_Decode

subsection \<open>The switch, one identifier at a time\<close>

lemma PrepareMessage_switch_simps:
  "PrepareMessage_switch E now s message BESTGNSSPOS message_length gps_week gps_millisecs =
     (if unat message_length \<noteq> sizeof_BestPos E then (NONE, s)
        else handled BEST_GNSS_POS
               (HandleGnssBestpos E s (as_BestPos E message) gps_week gps_millisecs))"
  "PrepareMessage_switch E now s message BESTPOS message_length gps_week gps_millisecs =
     (if unat message_length \<noteq> sizeof_BestPos E then (NONE, s)
        else handled GNSS (HandleBestPos E s (as_BestPos E message) gps_week gps_millisecs))"
  "PrepareMessage_switch E now s message PSRPOS message_length gps_week gps_millisecs =
     (if unat message_length \<noteq> sizeof_BestPos E then (NONE, s)
        else handled GNSS (HandleBestPos E s (as_BestPos E message) gps_week gps_millisecs))"
  "PrepareMessage_switch E now s message BESTGNSSVEL message_length gps_week gps_millisecs =
     (if unat message_length \<noteq> sizeof_BestVel E then (NONE, s)
        else handled GNSS (HandleBestVel E s (as_BestVel E message) gps_week gps_millisecs))"
  "PrepareMessage_switch E now s message BESTVEL message_length gps_week gps_millisecs =
     (if unat message_length \<noteq> sizeof_BestVel E then (NONE, s)
        else handled GNSS (HandleBestVel E s (as_BestVel E message) gps_week gps_millisecs))"
  "PrepareMessage_switch E now s message PSRVEL message_length gps_week gps_millisecs =
     (if unat message_length \<noteq> sizeof_BestVel E then (NONE, s)
        else handled GNSS (HandleBestVel E s (as_BestVel E message) gps_week gps_millisecs))"
  "PrepareMessage_switch E now s message CORRIMUDATA message_length gps_week gps_millisecs =
     (if unat message_length \<noteq> sizeof_CorrImuData E then (NONE, s)
        else handled INS (HandleCorrImuData E now s (as_CorrImuData E message)))"
  "PrepareMessage_switch E now s message CORRIMUDATAS message_length gps_week gps_millisecs =
     (if unat message_length \<noteq> sizeof_CorrImuData E then (NONE, s)
        else handled INS (HandleCorrImuData E now s (as_CorrImuData E message)))"
  "PrepareMessage_switch E now s message INSCOV message_length gps_week gps_millisecs =
     (if unat message_length \<noteq> sizeof_InsCov E then (NONE, s)
        else handled INS (HandleInsCov E s (as_InsCov E message)))"
  "PrepareMessage_switch E now s message INSCOVS message_length gps_week gps_millisecs =
     (if unat message_length \<noteq> sizeof_InsCov E then (NONE, s)
        else handled INS (HandleInsCov E s (as_InsCov E message)))"
  "PrepareMessage_switch E now s message INSPVA message_length gps_week gps_millisecs =
     (if unat message_length \<noteq> sizeof_InsPva E then (NONE, s)
        else handled INS (HandleInsPva E now s (as_InsPva E message)))"
  "PrepareMessage_switch E now s message INSPVAS message_length gps_week gps_millisecs =
     (if unat message_length \<noteq> sizeof_InsPva E then (NONE, s)
        else handled INS (HandleInsPva E now s (as_InsPva E message)))"
  "PrepareMessage_switch E now s message RAWIMUX message_length gps_week gps_millisecs =
     (if unat message_length \<noteq> sizeof_RawImuX E then (NONE, s)
        else handled IMU (HandleRawImuX E s (as_RawImuX E message)))"
  "PrepareMessage_switch E now s message RAWIMUSX message_length gps_week gps_millisecs =
     (if unat message_length \<noteq> sizeof_RawImuX E then (NONE, s)
        else handled IMU (HandleRawImuX E s (as_RawImuX E message)))"
  "PrepareMessage_switch E now s message RAWIMU message_length gps_week gps_millisecs =
     (if unat message_length \<noteq> sizeof_RawImu E then (NONE, s)
        else handled IMU (HandleRawImu E s (as_RawImu E message)))"
  "PrepareMessage_switch E now s message RAWIMUS message_length gps_week gps_millisecs =
     (if unat message_length \<noteq> sizeof_RawImu E then (NONE, s)
        else handled IMU (HandleRawImu E s (as_RawImu E message)))"
  "PrepareMessage_switch E now s message INSPVAX message_length gps_week gps_millisecs =
     (if unat message_length \<noteq> sizeof_InsPvaX E then (NONE, s)
        else handled INS_STAT
               (HandleInsPvax E s (as_InsPvaX E message) gps_week gps_millisecs))"
  "PrepareMessage_switch E now s message BDSEPHEMERIS message_length gps_week gps_millisecs =
     (if unat message_length \<noteq> sizeof_BDS_Ephemeris E then (NONE, s)
        else handled BDSEPHEMERIDES (HandleBdsEph E s (as_BDS_Ephemeris E message)))"
  "PrepareMessage_switch E now s message GPSEPHEMERIS message_length gps_week gps_millisecs =
     (if unat message_length \<noteq> sizeof_GPS_Ephemeris E then (NONE, s)
        else handled GPSEPHEMERIDES (HandleGpsEph E s (as_GPS_Ephemeris E message)))"
  "PrepareMessage_switch E now s message GLOEPHEMERIS message_length gps_week gps_millisecs =
     (if unat message_length \<noteq> sizeof_GLO_Ephemeris E then (NONE, s)
        else handled GLOEPHEMERIDES (HandleGloEph E s (as_GLO_Ephemeris E message)))"
  "PrepareMessage_switch E now s message RANGE message_length gps_week gps_millisecs =
     (handled OBSERVATION (DecodeGnssObservation E s (buffer_m s)))"
  "PrepareMessage_switch E now s message HEADING_ID message_length gps_week gps_millisecs =
     (if unat message_length \<noteq> sizeof_Heading E then (NONE, s)
        else handled HEADING
               (HandleHeading E s (as_Heading E message) gps_week gps_millisecs))"
  "PrepareMessage_switch E now s message (OTHER_ID n) message_length gps_week gps_millisecs =
     ((NONE, s))"
  by (simp_all add: PrepareMessage_switch_def)

lemma same_framing_switch:
  "same_framing s
     (snd (PrepareMessage_switch E now s message message_id message_length gps_week gps_millisecs))"
  by (cases message_id)
    (simp_all add: PrepareMessage_switch_simps same_framing_refl same_framing_handled
      same_framing_handlers)

lemma same_framing_PrepareMessage: "same_framing s (snd (PrepareMessage E now s))"
  unfolding PrepareMessage_def Let_def
  by (simp add: same_framing_refl same_framing_switch)

lemma PrepareMessage_framing:
  "buffer_m (snd (PrepareMessage E now s)) = buffer_m s"
  "header_length_m (snd (PrepareMessage E now s)) = header_length_m s"
  "total_length_m (snd (PrepareMessage E now s)) = total_length_m s"
  "data_m (snd (PrepareMessage E now s)) = data_m s"
  using same_framing_PrepareMessage [of s E now] by (simp_all add: same_framing_def)

lemma PrepareMessage_valid:
  "check_crc E s \<Longrightarrow>
   PrepareMessage E now s =
     PrepareMessage_switch E now s (frame_message E s) (header_message_id (frame_header E s))
       (header_message_length (frame_header E s)) (header_gps_week (frame_header E s))
       (header_gps_millisecs (frame_header E s))"
  by (simp add: PrepareMessage_def frame_header_def frame_message_def Let_def)

lemma PrepareMessage_invalid: "\<not> check_crc E s \<Longrightarrow> PrepareMessage E now s = (NONE, s)"
  by (simp add: PrepareMessage_def)

subsection \<open>The phases of the accumulation\<close>

lemma unat_uint16_le: "unat (w :: uint16_t) \<le> 65535"
  using unsigned_less [of w, where 'a = nat] by simp

lemma round_sync:
  assumes "header_sizes_ok E" "length (buffer_m s) < 3"
  shows "framing_inv E (snd (GetMessage_round E now s b rest))"
proof -
  consider "length (buffer_m s) = 0" | "length (buffer_m s) = 1" | "length (buffer_m s) = 2"
    using assms by linarith
  then show ?thesis
  proof cases
    case 1
    then show ?thesis by (simp add: GetMessage_round_def framing_inv_def)
  next
    case 2
    then show ?thesis by (simp add: GetMessage_round_def framing_inv_def)
  next
    case 3
    then show ?thesis using assms(1)
      by (simp add: GetMessage_round_def framing_inv_def header_sizes_ok_def)
  qed
qed

lemma round_header:
  assumes "header_sizes_ok E" "framing_inv E s" "2 < length (buffer_m s)"
    "0 < header_length_m s"
  shows "framing_inv E (snd (GetMessage_round E now s b rest))"
proof -
  have len: "unat (header_message_length (as_LongHeader E (buffer_m s))) \<le> 65535"
    "unat (header_message_length (as_ShortHeader E (buffer_m s))) \<le> 65535"
    by (rule unat_uint16_le)+
  from assms have h:
    "header_length_m s = sizeof_LongHeader E \<or> header_length_m s = sizeof_ShortHeader E"
    and l: "length (buffer_m s) \<le> max 3 (header_length_m s)"
    by (auto simp: framing_inv_def)
  show ?thesis
  proof (cases "length (buffer_m s) < header_length_m s")
    case True
    then show ?thesis using assms h
      by (auto simp: GetMessage_round_def framing_inv_def)
  next
    case False
    then show ?thesis using assms h l len
      by (auto simp: GetMessage_round_def framing_inv_def header_sizes_ok_def CRC_LENGTH_def)
  qed
qed

lemma round_body:
  assumes "2 < length (buffer_m s)" "header_length_m s = 0" "framing_inv E s"
  shows "framing_inv E (snd (GetMessage_round E now s b rest))"
proof (cases "0 < total_length_m s \<and> \<not> length (buffer_m s) < total_length_m s")
  case True
  then show ?thesis using assms(1,2)
    by (simp add: GetMessage_round_def framing_inv_def Let_def)
next
  case False
  then show ?thesis using assms
    by (auto simp: GetMessage_round_def framing_inv_def)
qed

lemma round_framing_inv:
  assumes "header_sizes_ok E" "framing_inv E s"
  shows "framing_inv E (snd (GetMessage_round E now s b rest))"
proof -
  consider "length (buffer_m s) < 3" | "2 < length (buffer_m s)" "0 < header_length_m s"
    | "2 < length (buffer_m s)" "header_length_m s = 0"
    by linarith
  then show ?thesis
    using assms by cases (simp_all add: round_sync round_header round_body)
qed

lemma round_frame_complete:
  assumes "frame_complete s"
  shows "GetMessage_round E now s b rest =
     (if fst (PrepareMessage E now s) \<noteq> NONE then Some (fst (PrepareMessage E now s)) else None,
      (snd (PrepareMessage E now s))\<lparr>buffer_m := [], total_length_m := 0\<rparr>)"
proof -
  from assms have "buffer_m s \<noteq> []" "length (buffer_m s) \<noteq> Suc 0" "length (buffer_m s) \<noteq> 2"
    "header_length_m s = 0" "0 < total_length_m s" "\<not> length (buffer_m s) < total_length_m s"
    by (auto simp: frame_complete_def)
  then show ?thesis
    by (simp add: GetMessage_round_def Let_def)
qed

lemma new_buffer: "buffer_m (NewtonM2Parser_new E d config) = []"
  by (simp add: NewtonM2Parser_new_def Let_def split: option.split)

lemma reachable_framing_inv:
  assumes "header_sizes_ok E" "reachable E s"
  shows "framing_inv E s"
  using assms(2)
proof induction
  case (constructed d config)
  show ?case by (simp add: framing_inv_def new_buffer)
next
  case (updated s bytes)
  then show ?case by (simp add: framing_inv_def Update_def)
next
  case (round s b rest now)
  then show ?case using assms(1) by (simp add: round_framing_inv)
qed

lemma framing_inv_bound:
  assumes "header_sizes_ok E" "framing_inv E s"
  shows "length (buffer_m s) \<le> max_frame_size E"
  using assms
  by (auto simp: framing_inv_def header_sizes_ok_def max_frame_size_def CRC_LENGTH_def)

subsection \<open>The loop\<close>

lemma GetMessage_loop_step:
  assumes "data_m s = Some (b # rest)"
  shows "GetMessage_loop E now s =
    (case fst (GetMessage_round E now s b rest) of
       Some type \<Rightarrow> Some (type, snd (GetMessage_round E now s b rest))
     | None \<Rightarrow> GetMessage_loop E now (snd (GetMessage_round E now s b rest)))"
  using assms
  by (subst GetMessage_loop.simps) (simp add: split_beta split: option.split)

lemma GetMessage_loop_done:
  "data_m s = None \<or> data_m s = Some [] \<Longrightarrow> GetMessage_loop E now s = Some (NONE, s)"
  by (subst GetMessage_loop.simps) auto

lemma reachable_loop:
  assumes "GetMessage_loop E now s = Some r"
  shows "reachable E s \<longrightarrow> reachable E (snd r)"
proof (rule GetMessage_loop.raw_induct
    [where P = "\<lambda>E now s r. reachable E s \<longrightarrow> reachable E (snd r)", OF _ assms], goal_cases)
  case (1 loop E now s r)
  show ?case
  proof
    assume rs: "reachable E s"
    show "reachable E (snd r)"
    proof (cases "data_m s")
      case None
      with 1(2) rs show ?thesis by auto
    next
      case (Some bytes)
      show ?thesis
      proof (cases bytes)
        case Nil
        with 1(2) Some rs show ?thesis by auto
      next
        case (Cons b rest)
        have re: "reachable E (snd (GetMessage_round E now s b rest))"
          using rs Some Cons by (simp add: reachable.round)
        show ?thesis
        proof (cases "fst (GetMessage_round E now s b rest)")
          case None
          then have "loop E now (snd (GetMessage_round E now s b rest)) = Some r"
            using 1(2) Some Cons by (simp add: split_beta)
          then show ?thesis using 1(1) re by blast
        next
          case (Some type)
          then have "r = (type, snd (GetMessage_round E now s b rest))"
            using 1(2) \<open>data_m s = Some bytes\<close> Cons by (simp add: split_beta)
          then show ?thesis using re by simp
        qed
      qed
    qed
  qed
qed

lemma round_decreases:
  assumes "header_sizes_ok E" "framing_inv E s" "data_m s = Some (b # rest)"
  shows "fst (GetMessage_round E now s b rest) \<noteq> None
         \<or> rounds_left (snd (GetMessage_round E now s b rest)) < rounds_left s"
proof -
  have "length (buffer_m s) < 3 \<or> (2 < length (buffer_m s) \<and> 0 < header_length_m s)
      \<or> (2 < length (buffer_m s) \<and> header_length_m s = 0 \<and> 0 < total_length_m s)"
    using assms(2) unfolding framing_inv_def by auto
  then consider "length (buffer_m s) = 0" | "length (buffer_m s) = 1" | "length (buffer_m s) = 2"
    | "2 < length (buffer_m s)" "0 < header_length_m s"
    | "2 < length (buffer_m s)" "header_length_m s = 0" "0 < total_length_m s"
    by arith
  then show ?thesis
  proof cases
    case 1
    then show ?thesis using assms(3)
      by (simp add: GetMessage_round_def rounds_left_def)
  next
    case 2
    then show ?thesis using assms(3)
      by (auto simp: GetMessage_round_def rounds_left_def)
  next
    case 3
    then show ?thesis using assms(1,3)
      by (auto simp: GetMessage_round_def rounds_left_def header_sizes_ok_def)
  next
    case 4
    then show ?thesis using assms(1,3)
      by (auto simp: GetMessage_round_def rounds_left_def header_sizes_ok_def)
  next
    case 5
    show ?thesis
    proof (cases "length (buffer_m s) < total_length_m s")
      case True
      then show ?thesis using 5 assms(3)
        by (auto simp: GetMessage_round_def rounds_left_def)
    next
      case False
      then show ?thesis using 5 assms(3)
        by (auto simp: GetMessage_round_def rounds_left_def Let_def PrepareMessage_framing)
    qed
  qed
qed

lemma GetMessage_loop_returns:
  assumes "header_sizes_ok E" "framing_inv E s"
  shows "\<exists>r. GetMessage_loop E now s = Some r"
  using assms(2)
proof (induction "rounds_left s" arbitrary: s rule: less_induct)
  case less
  show ?case
  proof (cases "data_m s")
    case None
    then show ?thesis by (simp add: GetMessage_loop_done)
  next
    case (Some bytes)
    show ?thesis
    proof (cases bytes)
      case Nil
      with Some show ?thesis by (simp add: GetMessage_loop_done)
    next
      case (Cons b rest)
      show ?thesis
      proof (cases "fst (GetMessage_round E now s b rest)")
        case None
        let ?s' = "snd (GetMessage_round E now s b rest)"
        have "rounds_left ?s' < rounds_left s"
          using round_decreases [OF assms(1) less.prems, of b rest now] Some Cons None by simp
        moreover have "framing_inv E ?s'"
          using assms(1) less.prems by (rule round_framing_inv)
        ultimately obtain r where "GetMessage_loop E now ?s' = Some r"
          using less.hyps by blast
        then show ?thesis
          using Some Cons None by (simp add: GetMessage_loop_step)
      next
        case (Some type)
        then show ?thesis
          using \<open>data_m s = Some bytes\<close> Cons by (simp add: GetMessage_loop_step)
      qed
    qed
  qed
qed

subsection \<open>The sample instance\<close>

lemma sample_env_framing:
  "SYNC_2_LONG_HEADER sample_env = 0x12" "SYNC_2_SHORT_HEADER sample_env = 0x13"
  "sizeof_LongHeader sample_env = 28" "sizeof_ShortHeader sample_env = 12"
  "crc32_block sample_env = sample_crc32_block" "load_uint32 sample_env = sample_load_uint32"
  "as_LongHeader sample_env = sample_as_LongHeader"
  "as_ShortHeader sample_env = sample_as_ShortHeader"
  by (simp_all add: sample_env_def)

lemma sample_env_bodies:
  "sizeof_BestPos sample_env = 72" "as_BestPos sample_env bytes = sample_BestPos"
  "sizeof_RawImuX sample_env = 40" "as_RawImuX sample_env bytes = sample_RawImuX"
  "sizeof_RawImu sample_env = 40" "as_RawImu sample_env bytes = sample_RawImu"
  "sizeof_InsCov sample_env = 228" "as_InsCov sample_env bytes = zero_InsCov"
  "sizeof_Heading sample_env = 44" "as_Heading sample_env bytes = zero_Heading"
  "GetImuParameter sample_env = sample_GetImuParameter"
  by (simp_all add: sample_env_def)

lemma sample_header_sizes_ok: "header_sizes_ok sample_env"
  by (simp add: header_sizes_ok_def sample_env_framing)

lemma sample_parser_members:
  "data_m sample_parser = None" "buffer_m sample_parser = []"
  "header_length_m sample_parser = 0" "total_length_m sample_parser = 0"
  "imu_type_m sample_parser = IMU_TYPE 0" "imu_frame_mapping_m sample_parser = 5"
  "gyro_scale_m sample_parser = 0" "accel_scale_m sample_parser = 0"
  "imu_measurement_hz_m sample_parser = 0" "imu_measurement_span_m sample_parser = 0"
  "gnss_m sample_parser = zero_Gnss" "imu_m sample_parser = zero_Imu"
  by (simp_all add: sample_parser_def NewtonM2Parser_new_def zero_parser_def)

lemma foldl_replicate_zero:
  "foldl (\<lambda>a b. a + ucast b) a (replicate n (0::uint8_t)) = (a::uint32_t)"
  by (induction n) simp_all

lemma sample_seconds: "header_seconds 2200 100000 = 1330560100"
  by (simp add: header_seconds_def SECONDS_PER_WEEK_def)

section \<open>Frame accumulation and integrity\<close>

subsection \<open>Facts about the sample frames\<close>

lemma sample_run:
  "GetMessage sample_env 0 (Update sample_parser unknown_frame)
     = Some (NONE, sample_parser\<lparr>data_m := Some [], buffer_m := unknown_frame,
                     total_length_m := 16\<rparr>)"
  by (simp add: GetMessage_def GetMessage_loop.simps GetMessage_round_def Update_def
      unknown_frame_def sample_parser_def NewtonM2Parser_new_def zero_parser_def
      sample_env_framing SYNC_0_def SYNC_1_def CRC_LENGTH_def sample_as_ShortHeader_def)

lemma sample_run_reachable:
  "reachable sample_env (sample_parser\<lparr>data_m := Some [], buffer_m := unknown_frame,
      total_length_m := 16\<rparr>)"
proof -
  have "reachable sample_env (Update sample_parser unknown_frame)"
    unfolding sample_parser_def by (intro reachable.updated reachable.constructed)
  moreover have "GetMessage_loop sample_env 0 (Update sample_parser unknown_frame)
     = Some (NONE, sample_parser\<lparr>data_m := Some [], buffer_m := unknown_frame,
                     total_length_m := 16\<rparr>)"
    using sample_run by (simp add: GetMessage_def Update_def)
  ultimately show ?thesis
    using reachable_loop by fastforce
qed

lemma unknown_frame_complete:
  "frame_complete (sample_parser\<lparr>data_m := d, buffer_m := unknown_frame, total_length_m := 16\<rparr>)"
  by (simp add: frame_complete_def unknown_frame_def sample_parser_members)

lemma unknown_frame_check:
  "check_crc sample_env
     (sample_parser\<lparr>data_m := d, buffer_m := unknown_frame, total_length_m := 16\<rparr>)"
  by (simp add: check_crc_def unknown_frame_def sample_env_framing CRC_LENGTH_def
      sample_crc32_block_def sample_load_uint32_def)

lemma unknown_frame_id:
  "header_message_id (frame_header sample_env
     (sample_parser\<lparr>data_m := d, buffer_m := unknown_frame, total_length_m := 16\<rparr>))
   = OTHER_ID 1337"
  by (simp add: frame_header_def unknown_frame_def sample_env_framing sample_as_ShortHeader_def
      sample_uint16_def sample_MessageId_def)

lemma bad_crc_frame_complete:
  "frame_complete (sample_parser\<lparr>data_m := d, buffer_m := bad_crc_frame, total_length_m := 16\<rparr>)"
  by (simp add: frame_complete_def bad_crc_frame_def sample_parser_members)

lemma bad_crc_frame_check:
  "\<not> check_crc sample_env
     (sample_parser\<lparr>data_m := d, buffer_m := bad_crc_frame, total_length_m := 16\<rparr>)"
  by (simp add: check_crc_def bad_crc_frame_def sample_env_framing CRC_LENGTH_def
      sample_crc32_block_def sample_load_uint32_def)

subsection \<open>C9\<close>

text \<open>
  C9. In every state that a parser reaches (constructed, given input ranges, driven
  through the rounds of \<^verbatim>\<open>GetMessage\<close> on any bytes), the accumulation buffer is no
  longer than the largest frame of the protocol: the long header, the four checksum
  bytes and the largest body length a header can declare. The round that finds a
  completed frame leaves the buffer empty and the total length zero, whatever
  \<^verbatim>\<open>PrepareMessage\<close> returned; and every call of \<^verbatim>\<open>GetMessage\<close> returns, in a state that
  is reached again. The layouts are asked to hold the three sync bytes, the short header
  being no longer than the long one.
\<close>

theorem buffer_bounded_and_cleared:
  assumes "header_sizes_ok E" and "reachable E s"
  shows "length (buffer_m s) \<le> max_frame_size E
    \<and> (frame_complete s \<longrightarrow>
         buffer_m (snd (GetMessage_round E now s b rest)) = []
         \<and> total_length_m (snd (GetMessage_round E now s b rest)) = 0
         \<and> header_length_m (snd (GetMessage_round E now s b rest)) = 0)
    \<and> (\<exists>r. GetMessage E now s = Some r \<and> reachable E (snd r)
           \<and> length (buffer_m (snd r)) \<le> max_frame_size E)"
proof -
  have inv: "framing_inv E s"
    using assms by (rule reachable_framing_inv)
  have bound: "length (buffer_m s) \<le> max_frame_size E"
    using assms(1) inv by (rule framing_inv_bound)
  have cleared: "buffer_m (snd (GetMessage_round E now s b rest)) = []
         \<and> total_length_m (snd (GetMessage_round E now s b rest)) = 0
         \<and> header_length_m (snd (GetMessage_round E now s b rest)) = 0"
    if "frame_complete s"
    using that by (simp add: round_frame_complete PrepareMessage_framing frame_complete_def)
  obtain r where r: "GetMessage_loop E now s = Some r"
    using GetMessage_loop_returns [OF assms(1) inv] by blast
  have g: "GetMessage E now s = Some r"
    using r by (cases "data_m s") (simp_all add: GetMessage_def GetMessage_loop_done)
  have rr: "reachable E (snd r)"
    using reachable_loop [OF r] assms(2) by simp
  have "length (buffer_m (snd r)) \<le> max_frame_size E"
    using assms(1) rr by (intro framing_inv_bound reachable_framing_inv)
  with bound cleared g rr show ?thesis by blast
qed

theorem buffer_bounded_and_cleared_witness:
  "header_sizes_ok sample_env
   \<and> reachable sample_env
       (sample_parser\<lparr>data_m := Some [], buffer_m := unknown_frame, total_length_m := 16\<rparr>)
   \<and> frame_complete
       (sample_parser\<lparr>data_m := Some [], buffer_m := unknown_frame, total_length_m := 16\<rparr>)
   \<and> length unknown_frame \<le> max_frame_size sample_env
   \<and> buffer_m (snd (GetMessage_round sample_env 0
        (sample_parser\<lparr>data_m := Some [], buffer_m := unknown_frame, total_length_m := 16\<rparr>)
        0 [])) = []"
  using buffer_bounded_and_cleared [OF sample_header_sizes_ok sample_run_reachable, of 0 0 "[]"]
    sample_header_sizes_ok sample_run_reachable unknown_frame_complete [of "Some []"]
  by simp

subsection \<open>C1\<close>

text \<open>
  C1. For a completed candidate frame, \<^verbatim>\<open>check_crc\<close> compares the checksum of all buffer
  bytes but the last four with the 32-bit value in those four bytes. When they differ,
  \<^verbatim>\<open>PrepareMessage\<close> returns \<^verbatim>\<open>NONE\<close> and the object as it was, for any reading of headers
  and bodies (no field of the parameter record but the checksum and the load enters):
  no handler has run and no message is emitted. The round of \<^verbatim>\<open>GetMessage\<close> then empties
  the buffer and goes on; the loop continues from the same input position, and its next
  round is the search for the first sync byte.
\<close>

theorem crc_mismatch_discards_frame:
  assumes "frame_complete s" and "\<not> check_crc E s" and "data_m s = Some (b # rest)"
  shows "check_crc E s =
      (crc32_block E (take (length (buffer_m s) - 4) (buffer_m s))
        = load_uint32 E (drop (length (buffer_m s) - 4) (buffer_m s)))
    \<and> PrepareMessage E now s = (NONE, s)
    \<and> GetMessage_round E now s b rest = (None, s\<lparr>buffer_m := [], total_length_m := 0\<rparr>)
    \<and> GetMessage_loop E now s
        = GetMessage_loop E now (s\<lparr>buffer_m := [], total_length_m := 0\<rparr>)
    \<and> GetMessage_round E now (s\<lparr>buffer_m := [], total_length_m := 0\<rparr>) b rest
        = (None, if b = SYNC_0
                 then s\<lparr>buffer_m := [b], total_length_m := 0, data_m := Some rest\<rparr>
                 else s\<lparr>buffer_m := [], total_length_m := 0, data_m := Some rest\<rparr>)"
proof -
  have pm: "PrepareMessage E now s = (NONE, s)"
    using assms(2) by (rule PrepareMessage_invalid)
  have rd: "GetMessage_round E now s b rest = (None, s\<lparr>buffer_m := [], total_length_m := 0\<rparr>)"
    using assms(1) pm by (simp add: round_frame_complete)
  have lp: "GetMessage_loop E now s
        = GetMessage_loop E now (s\<lparr>buffer_m := [], total_length_m := 0\<rparr>)"
    using assms(3) rd by (simp add: GetMessage_loop_step)
  have nx: "GetMessage_round E now (s\<lparr>buffer_m := [], total_length_m := 0\<rparr>) b rest
        = (None, if b = SYNC_0
                 then s\<lparr>buffer_m := [b], total_length_m := 0, data_m := Some rest\<rparr>
                 else s\<lparr>buffer_m := [], total_length_m := 0, data_m := Some rest\<rparr>)"
    by (simp add: GetMessage_round_def)
  have ck: "check_crc E s =
      (crc32_block E (take (length (buffer_m s) - 4) (buffer_m s))
        = load_uint32 E (drop (length (buffer_m s) - 4) (buffer_m s)))"
    by (simp add: check_crc_def CRC_LENGTH_def Let_def)
  from ck pm rd lp nx show ?thesis by blast
qed

theorem crc_mismatch_discards_frame_witness:
  "frame_complete
     (sample_parser\<lparr>data_m := Some [0xAA], buffer_m := bad_crc_frame, total_length_m := 16\<rparr>)
   \<and> \<not> check_crc sample_env
     (sample_parser\<lparr>data_m := Some [0xAA], buffer_m := bad_crc_frame, total_length_m := 16\<rparr>)
   \<and> PrepareMessage sample_env 0
       (sample_parser\<lparr>data_m := Some [0xAA], buffer_m := bad_crc_frame, total_length_m := 16\<rparr>)
      = (NONE,
         sample_parser\<lparr>data_m := Some [0xAA], buffer_m := bad_crc_frame, total_length_m := 16\<rparr>)
   \<and> GetMessage_round sample_env 0
       (sample_parser\<lparr>data_m := Some [0xAA], buffer_m := bad_crc_frame, total_length_m := 16\<rparr>)
       0xAA []
      = (None, sample_parser\<lparr>data_m := Some [0xAA], buffer_m := [], total_length_m := 0\<rparr>)"
  using crc_mismatch_discards_frame
    [OF bad_crc_frame_complete [of "Some [0xAA]"] bad_crc_frame_check [of "Some [0xAA]"],
      of "0xAA" "[]" 0]
    bad_crc_frame_complete [of "Some [0xAA]"] bad_crc_frame_check [of "Some [0xAA]"]
  by simp

subsection \<open>C8\<close>

text \<open>
  C8. For a completed frame whose checksum is valid and whose identifier is none of those
  the switch names, \<^verbatim>\<open>PrepareMessage\<close> returns \<^verbatim>\<open>NONE\<close> and the object unchanged (no handler
  has run, nothing is emitted). The round of \<^verbatim>\<open>GetMessage\<close> empties the buffer and does
  not return; the loop goes on from the same input position with the bytes that follow,
  and it returns a value (no error, no endless loop).
\<close>

theorem unknown_id_discarded:
  assumes "header_sizes_ok E" and "framing_inv E s" and "frame_complete s"
    and "check_crc E s" and "header_message_id (frame_header E s) = OTHER_ID n"
    and "data_m s = Some (b # rest)"
  shows "PrepareMessage E now s = (NONE, s)
    \<and> GetMessage_round E now s b rest = (None, s\<lparr>buffer_m := [], total_length_m := 0\<rparr>)
    \<and> GetMessage_loop E now s
        = GetMessage_loop E now (s\<lparr>buffer_m := [], total_length_m := 0\<rparr>)
    \<and> data_m (s\<lparr>buffer_m := [], total_length_m := 0\<rparr>) = Some (b # rest)
    \<and> (\<exists>r. GetMessage_loop E now s = Some r)"
proof -
  have pm: "PrepareMessage E now s = (NONE, s)"
    using assms(4,5) by (simp add: PrepareMessage_valid PrepareMessage_switch_simps)
  have rd: "GetMessage_round E now s b rest = (None, s\<lparr>buffer_m := [], total_length_m := 0\<rparr>)"
    using assms(3) pm by (simp add: round_frame_complete)
  have lp: "GetMessage_loop E now s
        = GetMessage_loop E now (s\<lparr>buffer_m := [], total_length_m := 0\<rparr>)"
    using assms(6) rd by (simp add: GetMessage_loop_step)
  have "\<exists>r. GetMessage_loop E now s = Some r"
    using assms(1,2) by (rule GetMessage_loop_returns)
  with pm rd lp assms(6) show ?thesis by simp
qed

theorem unknown_id_discarded_witness:
  "header_sizes_ok sample_env
   \<and> frame_complete
       (sample_parser\<lparr>data_m := Some [0xAA], buffer_m := unknown_frame, total_length_m := 16\<rparr>)
   \<and> check_crc sample_env
       (sample_parser\<lparr>data_m := Some [0xAA], buffer_m := unknown_frame, total_length_m := 16\<rparr>)
   \<and> header_message_id (frame_header sample_env
       (sample_parser\<lparr>data_m := Some [0xAA], buffer_m := unknown_frame, total_length_m := 16\<rparr>))
      = OTHER_ID 1337
   \<and> PrepareMessage sample_env 0
       (sample_parser\<lparr>data_m := Some [0xAA], buffer_m := unknown_frame, total_length_m := 16\<rparr>)
      = (NONE,
         sample_parser\<lparr>data_m := Some [0xAA], buffer_m := unknown_frame, total_length_m := 16\<rparr>)
   \<and> GetMessage_round sample_env 0
       (sample_parser\<lparr>data_m := Some [0xAA], buffer_m := unknown_frame, total_length_m := 16\<rparr>)
       0xAA []
      = (None, sample_parser\<lparr>data_m := Some [0xAA], buffer_m := [], total_length_m := 0\<rparr>)"
proof -
  let ?s = "sample_parser\<lparr>data_m := Some [0xAA], buffer_m := unknown_frame, total_length_m := 16\<rparr>"
  have inv: "framing_inv sample_env ?s"
    by (simp add: framing_inv_def sample_parser_members unknown_frame_def sample_env_framing
        CRC_LENGTH_def)
  show ?thesis
    using unknown_id_discarded [OF sample_header_sizes_ok inv unknown_frame_complete
        unknown_frame_check unknown_frame_id, of "0xAA" "[]" 0]
      sample_header_sizes_ok unknown_frame_complete [of "Some [0xAA]"]
      unknown_frame_check [of "Some [0xAA]"] unknown_frame_id [of "Some [0xAA]"]
    by simp
qed

subsection \<open>C10\<close>

text \<open>
  C10. When \<^verbatim>\<open>check_crc\<close> fails, \<^verbatim>\<open>PrepareMessage\<close> returns \<^verbatim>\<open>NONE\<close>, and it does so for every
  reading of the header and body fields: only the checksum function and the 32-bit load
  of the parameter record matter. The object is left as it was; in particular the eight
  output records and the calibration members hold the values they held before, also
  after the round of \<^verbatim>\<open>GetMessage\<close> that processed the completed frame.
\<close>

theorem crc_failure_changes_nothing:
  assumes "\<not> check_crc E s"
  shows "fst (PrepareMessage E now s) = NONE
    \<and> snd (PrepareMessage E now s) = s
    \<and> (\<forall>E'. crc32_block E' = crc32_block E \<and> load_uint32 E' = load_uint32 E
            \<longrightarrow> PrepareMessage E' now s = (NONE, s))
    \<and> (frame_complete s \<longrightarrow>
         fst (GetMessage_round E now s b rest) = None
         \<and> bestpos_m (snd (GetMessage_round E now s b rest)) = bestpos_m s
         \<and> gnss_m (snd (GetMessage_round E now s b rest)) = gnss_m s
         \<and> ins_m (snd (GetMessage_round E now s b rest)) = ins_m s
         \<and> imu_m (snd (GetMessage_round E now s b rest)) = imu_m s
         \<and> ins_stat_m (snd (GetMessage_round E now s b rest)) = ins_stat_m s
         \<and> gnss_ephemeris_m (snd (GetMessage_round E now s b rest)) = gnss_ephemeris_m s
         \<and> heading_m (snd (GetMessage_round E now s b rest)) = heading_m s
         \<and> gnss_observation_m (snd (GetMessage_round E now s b rest)) = gnss_observation_m s
         \<and> calibration (snd (GetMessage_round E now s b rest)) = calibration s
         \<and> imu_measurement_time_previous_m (snd (GetMessage_round E now s b rest))
             = imu_measurement_time_previous_m s
         \<and> imu_frame_mapping_m (snd (GetMessage_round E now s b rest)) = imu_frame_mapping_m s
         \<and> raw_m (snd (GetMessage_round E now s b rest)) = raw_m s)"
proof -
  have pm: "PrepareMessage E now s = (NONE, s)"
    using assms by (rule PrepareMessage_invalid)
  have any: "PrepareMessage E' now s = (NONE, s)"
    if "crc32_block E' = crc32_block E \<and> load_uint32 E' = load_uint32 E" for E'
  proof -
    from that assms have "\<not> check_crc E' s"
      by (simp add: check_crc_def)
    then show ?thesis by (rule PrepareMessage_invalid)
  qed
  have rd: "GetMessage_round E now s b rest = (None, s\<lparr>buffer_m := [], total_length_m := 0\<rparr>)"
    if "frame_complete s"
    using that pm by (simp add: round_frame_complete)
  show ?thesis
    using pm any rd by (simp add: calibration_def)
qed

theorem crc_failure_changes_nothing_witness:
  "\<not> check_crc sample_env
       (sample_parser\<lparr>data_m := Some [0], buffer_m := bad_crc_frame, total_length_m := 16\<rparr>)
   \<and> frame_complete
       (sample_parser\<lparr>data_m := Some [0], buffer_m := bad_crc_frame, total_length_m := 16\<rparr>)
   \<and> fst (PrepareMessage sample_env 0
       (sample_parser\<lparr>data_m := Some [0], buffer_m := bad_crc_frame, total_length_m := 16\<rparr>))
      = NONE
   \<and> PrepareMessage (sample_env\<lparr>as_ShortHeader := sample_as_LongHeader, sizeof_BestPos := 0\<rparr>) 0
       (sample_parser\<lparr>data_m := Some [0], buffer_m := bad_crc_frame, total_length_m := 16\<rparr>)
      = (NONE,
         sample_parser\<lparr>data_m := Some [0], buffer_m := bad_crc_frame, total_length_m := 16\<rparr>)
   \<and> gnss_m (snd (GetMessage_round sample_env 0
       (sample_parser\<lparr>data_m := Some [0], buffer_m := bad_crc_frame, total_length_m := 16\<rparr>)
       0 [])) = zero_Gnss
   \<and> calibration (snd (GetMessage_round sample_env 0
       (sample_parser\<lparr>data_m := Some [0], buffer_m := bad_crc_frame, total_length_m := 16\<rparr>)
       0 [])) = (0, 0, 0, 0)"
proof -
  let ?s = "sample_parser\<lparr>data_m := Some [0], buffer_m := bad_crc_frame, total_length_m := 16\<rparr>"
  let ?E' = "sample_env\<lparr>as_ShortHeader := sample_as_LongHeader, sizeof_BestPos := 0\<rparr>"
  have same: "crc32_block ?E' = crc32_block sample_env \<and> load_uint32 ?E' = load_uint32 sample_env"
    by simp
  have "PrepareMessage ?E' 0 ?s = (NONE, ?s)"
    using crc_failure_changes_nothing [OF bad_crc_frame_check [of "Some [0]"], of 0 0 "[]"] same
    by blast
  then show ?thesis
    using crc_failure_changes_nothing [OF bad_crc_frame_check [of "Some [0]"], of 0 0 "[]"]
      bad_crc_frame_check [of "Some [0]"] bad_crc_frame_complete [of "Some [0]"]
    by (simp add: calibration_def sample_parser_members)
qed

section \<open>Decode handlers\<close>

subsection \<open>C2\<close>

lemma header_seconds_eq:
  "header_seconds w ms = real (unat w) * 604800 + real (unat ms) / 1000"
  by (simp add: header_seconds_def SECONDS_PER_WEEK_def)

lemma BestPos_ready:
  "fst (HandleBestPos E s pos w ms) = (gnss_measurement_time (gnss_m s) = header_seconds w ms)"
  by (simp add: HandleBestPos_def Let_def)

lemma BestPos_time:
  "gnss_measurement_time (gnss_m (snd (HandleBestPos E s pos w ms))) = header_seconds w ms"
  by (simp add: HandleBestPos_def Let_def)

lemma BestVel_ready:
  "fst (HandleBestVel E s vel w ms) = (gnss_measurement_time (gnss_m s) = header_seconds w ms)"
  by (simp add: HandleBestVel_def Let_def)

lemma BestVel_time:
  "gnss_measurement_time (gnss_m (snd (HandleBestVel E s vel w ms))) = header_seconds w ms"
  by (simp add: HandleBestVel_def Let_def)

lemma GnssFrame_ready:
  "fst (HandleGnssFrame E s f w ms) = (gnss_measurement_time (gnss_m s) = header_seconds w ms)"
  by (cases f) (simp_all add: HandleGnssFrame_def BestPos_ready BestVel_ready)

lemma GnssFrame_time:
  "gnss_measurement_time (gnss_m (snd (HandleGnssFrame E s f w ms))) = header_seconds w ms"
  by (cases f) (simp_all add: HandleGnssFrame_def BestPos_time BestVel_time)

lemma bestpos_frame_check:
  "check_crc sample_env (s\<lparr>buffer_m := bestpos_frame\<rparr>)"
  by (simp add: check_crc_def bestpos_frame_def sample_env_framing CRC_LENGTH_def
      sample_crc32_block_def sample_load_uint32_def foldl_replicate_zero)

lemma bestpos_frame_header:
  "frame_header sample_env (s\<lparr>buffer_m := bestpos_frame\<rparr>)
    = \<lparr>header_message_id = BESTPOS, header_message_length = 72, header_gps_week = 2200,
        header_gps_millisecs = 100000\<rparr>"
  by (simp add: frame_header_def bestpos_frame_def sample_env_framing sample_as_LongHeader_def
      sample_uint16_def sample_load_uint32_def sample_MessageId_def)

lemma position_frame_dispatch:
  assumes "check_crc E s"
    and "header_message_id (frame_header E s) = BESTPOS
         \<or> header_message_id (frame_header E s) = PSRPOS"
    and "unat (header_message_length (frame_header E s)) = sizeof_BestPos E"
  shows "PrepareMessage E now s =
    handled GNSS (HandleBestPos E s (as_BestPos E (frame_message E s))
      (header_gps_week (frame_header E s)) (header_gps_millisecs (frame_header E s)))"
  using assms by (auto simp: PrepareMessage_valid PrepareMessage_switch_simps)

lemma velocity_frame_dispatch:
  assumes "check_crc E s"
    and "header_message_id (frame_header E s) = BESTGNSSVEL
         \<or> header_message_id (frame_header E s) = BESTVEL
         \<or> header_message_id (frame_header E s) = PSRVEL"
    and "unat (header_message_length (frame_header E s)) = sizeof_BestVel E"
  shows "PrepareMessage E now s =
    handled GNSS (HandleBestVel E s (as_BestVel E (frame_message E s))
      (header_gps_week (frame_header E s)) (header_gps_millisecs (frame_header E s)))"
  using assms by (auto simp: PrepareMessage_valid PrepareMessage_switch_simps)

lemma gnss_frame_emitted:
  assumes "check_crc E s"
    and "(header_message_id (frame_header E s) = BESTPOS
            \<or> header_message_id (frame_header E s) = PSRPOS)
           \<and> unat (header_message_length (frame_header E s)) = sizeof_BestPos E
         \<or> (header_message_id (frame_header E s) = BESTGNSSVEL
            \<or> header_message_id (frame_header E s) = BESTVEL
            \<or> header_message_id (frame_header E s) = PSRVEL)
           \<and> unat (header_message_length (frame_header E s)) = sizeof_BestVel E"
  shows "fst (PrepareMessage E now s)
        = (if gnss_measurement_time (gnss_m s)
                = header_seconds (header_gps_week (frame_header E s))
                    (header_gps_millisecs (frame_header E s))
           then GNSS else NONE)
      \<and> gnss_measurement_time (gnss_m (snd (PrepareMessage E now s)))
        = header_seconds (header_gps_week (frame_header E s))
            (header_gps_millisecs (frame_header E s))"
  using assms(2)
proof
  assume "(header_message_id (frame_header E s) = BESTPOS
            \<or> header_message_id (frame_header E s) = PSRPOS)
           \<and> unat (header_message_length (frame_header E s)) = sizeof_BestPos E"
  then show ?thesis
    using assms(1)
    by (simp add: position_frame_dispatch handled_def BestPos_ready BestPos_time)
next
  assume "(header_message_id (frame_header E s) = BESTGNSSVEL
            \<or> header_message_id (frame_header E s) = BESTVEL
            \<or> header_message_id (frame_header E s) = PSRVEL)
           \<and> unat (header_message_length (frame_header E s)) = sizeof_BestVel E"
  then show ?thesis
    using assms(1)
    by (simp add: velocity_frame_dispatch handled_def BestVel_ready BestVel_time)
qed

lemma bestpos_frame_again:
  "buffer_m s = bestpos_frame \<Longrightarrow>
   fst (PrepareMessage sample_env now s)
     = (if gnss_measurement_time (gnss_m s) = 1330560100 then GNSS else NONE)
   \<and> gnss_measurement_time (gnss_m (snd (PrepareMessage sample_env now s))) = 1330560100
   \<and> buffer_m (snd (PrepareMessage sample_env now s)) = bestpos_frame"
proof -
  assume b: "buffer_m s = bestpos_frame"
  then have eq: "s = s\<lparr>buffer_m := bestpos_frame\<rparr>"
    by simp
  have ck: "check_crc sample_env s"
    using bestpos_frame_check [of s] eq by simp
  have hd: "frame_header sample_env s
    = \<lparr>header_message_id = BESTPOS, header_message_length = 72, header_gps_week = 2200,
        header_gps_millisecs = 100000\<rparr>"
    using bestpos_frame_header [of s] eq by simp
  show ?thesis
    using gnss_frame_emitted [OF ck, of now] b
    by (simp add: hd sample_env_bodies sample_seconds PrepareMessage_framing)
qed

text \<open>
  C2, as the code has it. The timestamp of a frame is \<^verbatim>\<open>week*604800 + ms/1000\<close>, from the
  week and millisecond fields of its header. A position or velocity frame whose timestamp
  differs from the measurement time stored in the fused-navigation record makes its
  handler store the new timestamp and return not-ready; a frame whose timestamp equals
  the stored one makes it return ready, and the stored time stays equal. Hence two frames
  of one timestamp, fed to a record whose stored time differs from it, give exactly one
  emission: none after the first frame, one after the second. Fed to a record whose stored
  time already equals their timestamp, both frames are ready. Through \<^verbatim>\<open>PrepareMessage\<close>, a
  position or velocity frame with valid checksum and body length is emitted as \<^verbatim>\<open>GNSS\<close>
  exactly when its timestamp equals the stored one.
\<close>

theorem gnss_readiness_gating:
  "(gnss_measurement_time (gnss_m s) \<noteq> real (unat w) * 604800 + real (unat ms) / 1000 \<longrightarrow>
      \<not> fst (HandleGnssFrame E s f w ms)
      \<and> gnss_measurement_time (gnss_m (snd (HandleGnssFrame E s f w ms)))
          = real (unat w) * 604800 + real (unat ms) / 1000
      \<and> fst (HandleGnssFrame E (snd (HandleGnssFrame E s f w ms)) f' w ms))
   \<and> (gnss_measurement_time (gnss_m s) = real (unat w) * 604800 + real (unat ms) / 1000 \<longrightarrow>
      fst (HandleGnssFrame E s f w ms)
      \<and> gnss_measurement_time (gnss_m (snd (HandleGnssFrame E s f w ms)))
          = real (unat w) * 604800 + real (unat ms) / 1000
      \<and> fst (HandleGnssFrame E (snd (HandleGnssFrame E s f w ms)) f' w ms))
   \<and> (check_crc E s
      \<and> ((header_message_id (frame_header E s) = BESTPOS
            \<or> header_message_id (frame_header E s) = PSRPOS)
           \<and> unat (header_message_length (frame_header E s)) = sizeof_BestPos E
         \<or> (header_message_id (frame_header E s) = BESTGNSSVEL
            \<or> header_message_id (frame_header E s) = BESTVEL
            \<or> header_message_id (frame_header E s) = PSRVEL)
           \<and> unat (header_message_length (frame_header E s)) = sizeof_BestVel E) \<longrightarrow>
      fst (PrepareMessage E now s)
        = (if gnss_measurement_time (gnss_m s)
                = real (unat (header_gps_week (frame_header E s))) * 604800
                  + real (unat (header_gps_millisecs (frame_header E s))) / 1000
           then GNSS else NONE)
      \<and> gnss_measurement_time (gnss_m (snd (PrepareMessage E now s)))
        = real (unat (header_gps_week (frame_header E s))) * 604800
          + real (unat (header_gps_millisecs (frame_header E s))) / 1000)"
  using gnss_frame_emitted [of E s now]
  by (simp add: GnssFrame_ready GnssFrame_time header_seconds_eq)

theorem gnss_readiness_gating_witness:
  "gnss_measurement_time (gnss_m sample_parser) \<noteq> 1330560100
   \<and> \<not> fst (HandleGnssFrame sample_env sample_parser (PositionFrame sample_BestPos) 2200 100000)
   \<and> gnss_measurement_time (gnss_m (snd (HandleGnssFrame sample_env sample_parser
        (PositionFrame sample_BestPos) 2200 100000))) = 1330560100
   \<and> fst (HandleGnssFrame sample_env
        (snd (HandleGnssFrame sample_env sample_parser (PositionFrame sample_BestPos) 2200 100000))
        (VelocityFrame zero_BestVel) 2200 100000)
   \<and> fst (HandleGnssFrame sample_env
        (snd (HandleGnssFrame sample_env
          (snd (HandleGnssFrame sample_env sample_parser (PositionFrame sample_BestPos)
            2200 100000))
          (VelocityFrame zero_BestVel) 2200 100000))
        (PositionFrame sample_BestPos) 2200 100000)
   \<and> check_crc sample_env (sample_parser\<lparr>buffer_m := bestpos_frame\<rparr>)
   \<and> fst (PrepareMessage sample_env 0 (sample_parser\<lparr>buffer_m := bestpos_frame\<rparr>)) = NONE
   \<and> fst (PrepareMessage sample_env 0
        (snd (PrepareMessage sample_env 0 (sample_parser\<lparr>buffer_m := bestpos_frame\<rparr>)))) = GNSS"
proof -
  let ?s1 = "snd (HandleGnssFrame sample_env sample_parser (PositionFrame sample_BestPos)
      2200 100000)"
  let ?s2 = "snd (HandleGnssFrame sample_env ?s1 (VelocityFrame zero_BestVel) 2200 100000)"
  let ?b = "sample_parser\<lparr>buffer_m := bestpos_frame\<rparr>"
  let ?b1 = "snd (PrepareMessage sample_env 0 ?b)"
  have first: "gnss_measurement_time (gnss_m sample_parser) \<noteq> 1330560100"
    by (simp add: sample_parser_members zero_Gnss_def)
  have one: "\<not> fst (HandleGnssFrame sample_env sample_parser (PositionFrame sample_BestPos)
        2200 100000)
    \<and> gnss_measurement_time (gnss_m ?s1) = 1330560100
    \<and> fst (HandleGnssFrame sample_env ?s1 (VelocityFrame zero_BestVel) 2200 100000)"
    using gnss_readiness_gating [of sample_parser 2200 100000 sample_env
        "PositionFrame sample_BestPos" "VelocityFrame zero_BestVel"] first
    by simp
  have two: "gnss_measurement_time (gnss_m ?s2) = 1330560100
    \<and> fst (HandleGnssFrame sample_env ?s2 (PositionFrame sample_BestPos) 2200 100000)"
    using gnss_readiness_gating [of ?s1 2200 100000 sample_env
        "VelocityFrame zero_BestVel" "PositionFrame sample_BestPos"] one
    by simp
  have b: "buffer_m ?b1 = bestpos_frame"
    by (simp add: PrepareMessage_framing)
  then have b1: "?b1 = ?b1\<lparr>buffer_m := bestpos_frame\<rparr>"
    by simp
  have ck: "check_crc sample_env ?b" "check_crc sample_env ?b1"
    using bestpos_frame_check [of sample_parser] bestpos_frame_check [of ?b1] b1 by simp_all
  have hd: "frame_header sample_env ?b1 = frame_header sample_env ?b"
    using bestpos_frame_header [of sample_parser] bestpos_frame_header [of ?b1] b1 by simp
  have p1: "fst (PrepareMessage sample_env 0 ?b) = NONE
    \<and> gnss_measurement_time (gnss_m ?b1) = 1330560100"
    using gnss_readiness_gating [of ?b _ _ sample_env _ _ 0] ck(1) first
    by (simp add: bestpos_frame_header sample_env_bodies)
  have p2: "fst (PrepareMessage sample_env 0 ?b1) = GNSS"
    using gnss_readiness_gating [of ?b1 _ _ sample_env _ _ 0] ck(2) p1
    by (simp add: hd bestpos_frame_header sample_env_bodies)
  show ?thesis
    using first one two ck(1) p1 p2 by simp
qed

text \<open>
  The last sentence of C2 fails when the stored measurement time already equals the
  timestamp of the frames. A freshly constructed parser stores the time 0, and two frames
  stamped week 0, millisecond 0 are both ready. Of three BESTPOS frames stamped week 2200,
  millisecond 100000 the first is not emitted and stores the time; the second and the
  third, two frames of one timestamp, are both emitted.
\<close>

theorem stored_time_equal_both_frames_ready:
  "gnss_measurement_time (gnss_m sample_parser) = 0
   \<and> fst (HandleGnssFrame sample_env sample_parser (PositionFrame sample_BestPos) 0 0)
   \<and> fst (HandleGnssFrame sample_env
        (snd (HandleGnssFrame sample_env sample_parser (PositionFrame sample_BestPos) 0 0))
        (VelocityFrame zero_BestVel) 0 0)
   \<and> fst (PrepareMessage sample_env 0 (sample_parser\<lparr>buffer_m := bestpos_frame\<rparr>)) = NONE
   \<and> fst (PrepareMessage sample_env 0
        (snd (PrepareMessage sample_env 0 (sample_parser\<lparr>buffer_m := bestpos_frame\<rparr>)))) = GNSS
   \<and> fst (PrepareMessage sample_env 0
        (snd (PrepareMessage sample_env 0
          (snd (PrepareMessage sample_env 0 (sample_parser\<lparr>buffer_m := bestpos_frame\<rparr>))))))
      = GNSS"
proof -
  let ?b = "sample_parser\<lparr>buffer_m := bestpos_frame\<rparr>"
  let ?b1 = "snd (PrepareMessage sample_env 0 ?b)"
  let ?b2 = "snd (PrepareMessage sample_env 0 ?b1)"
  have z: "header_seconds 0 0 = 0"
    by (simp add: header_seconds_def)
  have h: "fst (HandleGnssFrame sample_env sample_parser (PositionFrame sample_BestPos) 0 0)
    \<and> fst (HandleGnssFrame sample_env
        (snd (HandleGnssFrame sample_env sample_parser (PositionFrame sample_BestPos) 0 0))
        (VelocityFrame zero_BestVel) 0 0)"
    by (simp add: GnssFrame_ready GnssFrame_time z sample_parser_members zero_Gnss_def)
  have p0: "fst (PrepareMessage sample_env 0 ?b) = NONE
    \<and> gnss_measurement_time (gnss_m ?b1) = 1330560100 \<and> buffer_m ?b1 = bestpos_frame"
    using bestpos_frame_again [of ?b 0]
    by (simp add: sample_parser_members zero_Gnss_def)
  have p1: "fst (PrepareMessage sample_env 0 ?b1) = GNSS
    \<and> gnss_measurement_time (gnss_m ?b2) = 1330560100 \<and> buffer_m ?b2 = bestpos_frame"
    using bestpos_frame_again [of ?b1 0] p0 by simp
  have p2: "fst (PrepareMessage sample_env 0 ?b2) = GNSS"
    using bestpos_frame_again [of ?b2 0] p1 by simp
  show ?thesis
    using h p0 p1 p2 by (simp add: sample_parser_members zero_Gnss_def)
qed

subsection \<open>C3\<close>

lemma BestPos_position:
  "gnss_position (gnss_m (snd (HandleBestPos E s pos w ms)))
     = (gnss_position (gnss_m s))\<lparr>lon := pos_longitude pos, lat := pos_latitude pos,
          height := pos_height_msl pos + pos_undulation pos\<rparr>"
  by (simp add: HandleBestPos_def Let_def)

lemma BestPos_type:
  "gnss_Type (gnss_m (snd (HandleBestPos E s pos w ms)))
     = (if pos_solution_status pos = SOL_COMPUTED
        then position_type_class (pos_position_type pos) else Gnss_INVALID)"
  by (simp add: HandleBestPos_def Let_def)

text \<open>
  C3. A frame with a valid checksum, the identifier BESTPOS or PSRPOS, the body length of
  \<^verbatim>\<open>BestPos\<close>, week 2200 and millisecond 100000, whose body reads solution status
  \<^verbatim>\<open>SOL_COMPUTED\<close>, position type \<^verbatim>\<open>SINGLE\<close>, latitude 37.4, longitude -122.1, height 10.0
  above mean sea level and undulation -25.0, leaves the fused record with longitude
  -122.1, latitude 37.4, height -15.0, type \<^verbatim>\<open>SINGLE\<close> and the measurement time
  \<open>2200 * 604800 + 100000 / 1000\<close> seconds.
\<close>

theorem bestpos_frame_fills_gnss_record:
  assumes "check_crc E s"
    and "header_message_id (frame_header E s) = BESTPOS
         \<or> header_message_id (frame_header E s) = PSRPOS"
    and "unat (header_message_length (frame_header E s)) = sizeof_BestPos E"
    and "header_gps_week (frame_header E s) = 2200"
    and "header_gps_millisecs (frame_header E s) = 100000"
    and "pos_solution_status (as_BestPos E (frame_message E s)) = SOL_COMPUTED"
    and "pos_position_type (as_BestPos E (frame_message E s)) = SINGLE"
    and "pos_latitude (as_BestPos E (frame_message E s)) = 37.4"
    and "pos_longitude (as_BestPos E (frame_message E s)) = - 122.1"
    and "pos_height_msl (as_BestPos E (frame_message E s)) = 10"
    and "pos_undulation (as_BestPos E (frame_message E s)) = - 25"
  shows "lon (gnss_position (gnss_m (snd (PrepareMessage E now s)))) = - 122.1
    \<and> lat (gnss_position (gnss_m (snd (PrepareMessage E now s)))) = 37.4
    \<and> height (gnss_position (gnss_m (snd (PrepareMessage E now s)))) = - 15
    \<and> gnss_Type (gnss_m (snd (PrepareMessage E now s))) = Gnss_SINGLE
    \<and> gnss_measurement_time (gnss_m (snd (PrepareMessage E now s)))
        = 2200 * 604800 + 100000 / 1000"
proof -
  let ?pos = "as_BestPos E (frame_message E s)"
  have "snd (PrepareMessage E now s) = snd (HandleBestPos E s ?pos 2200 100000)"
    using assms(4,5) position_frame_dispatch [OF assms(1-3), of now]
    by (simp add: handled_def)
  then show ?thesis
    using assms(6-11)
    by (simp add: BestPos_position BestPos_type BestPos_time sample_seconds
        position_type_class_def)
qed

theorem bestpos_frame_fills_gnss_record_witness:
  "check_crc sample_env (sample_parser\<lparr>buffer_m := bestpos_frame\<rparr>)
   \<and> header_message_id (frame_header sample_env (sample_parser\<lparr>buffer_m := bestpos_frame\<rparr>))
      = BESTPOS
   \<and> lon (gnss_position (gnss_m (snd (PrepareMessage sample_env 0
         (sample_parser\<lparr>buffer_m := bestpos_frame\<rparr>))))) = - 122.1
   \<and> lat (gnss_position (gnss_m (snd (PrepareMessage sample_env 0
         (sample_parser\<lparr>buffer_m := bestpos_frame\<rparr>))))) = 37.4
   \<and> height (gnss_position (gnss_m (snd (PrepareMessage sample_env 0
         (sample_parser\<lparr>buffer_m := bestpos_frame\<rparr>))))) = - 15
   \<and> gnss_Type (gnss_m (snd (PrepareMessage sample_env 0
         (sample_parser\<lparr>buffer_m := bestpos_frame\<rparr>)))) = Gnss_SINGLE
   \<and> gnss_measurement_time (gnss_m (snd (PrepareMessage sample_env 0
         (sample_parser\<lparr>buffer_m := bestpos_frame\<rparr>)))) = 1330560100"
  using bestpos_frame_fills_gnss_record
      [of sample_env "sample_parser\<lparr>buffer_m := bestpos_frame\<rparr>" 0]
    bestpos_frame_check [of sample_parser]
  by (simp add: bestpos_frame_header sample_env_bodies sample_BestPos_def)

subsection \<open>Raw inertial frames: C4 and C5\<close>

lemma RawImuX_ready:
  "fst (HandleRawImuX E s imu)
    = (\<not> (is_zero (gyro_scale_m s)
          \<and> is_zero (param_sampling_rate_hz (GetImuParameter E (imu_type_m s)))))"
  by (simp add: HandleRawImuX_def Let_def)

lemma RawImu_ready:
  "fst (HandleRawImu E s imu)
    = (\<not> (is_zero (gyro_scale_m s)
          \<and> is_zero (param_sampling_rate_hz (GetImuParameter E (imu_type_m s)))))"
  by (simp add: HandleRawImu_def Let_def)

lemma RawImuX_unsupported:
  "is_zero (gyro_scale_m s) \<Longrightarrow>
   is_zero (param_sampling_rate_hz (GetImuParameter E (imu_type_m s))) \<Longrightarrow>
   HandleRawImuX E s imu = (False, s)"
  by (simp add: HandleRawImuX_def Let_def)

lemma RawImu_unsupported:
  "is_zero (gyro_scale_m s) \<Longrightarrow>
   is_zero (param_sampling_rate_hz (GetImuParameter E (imu_type_m s))) \<Longrightarrow>
   HandleRawImu E s imu = (False, s)"
  by (simp add: HandleRawImu_def Let_def)

lemma RawImuX_initialises:
  "is_zero (gyro_scale_m s) \<Longrightarrow>
   \<not> is_zero (param_sampling_rate_hz (GetImuParameter E (imu_type_m s))) \<Longrightarrow>
   calibration (snd (HandleRawImuX E s imu)) =
     (param_gyro_scale (GetImuParameter E (imu_type_m s))
        * param_sampling_rate_hz (GetImuParameter E (imu_type_m s)),
      param_accel_scale (GetImuParameter E (imu_type_m s))
        * param_sampling_rate_hz (GetImuParameter E (imu_type_m s)),
      param_sampling_rate_hz (GetImuParameter E (imu_type_m s)),
      1 / param_sampling_rate_hz (GetImuParameter E (imu_type_m s)))"
  by (simp add: HandleRawImuX_def Let_def calibration_def)

lemma RawImuX_keeps_set:
  "\<not> is_zero (gyro_scale_m s) \<Longrightarrow> calibration (snd (HandleRawImuX E s imu)) = calibration s"
  by (simp add: HandleRawImuX_def Let_def calibration_def)

lemma RawImuX_imu_type: "imu_type_m (snd (HandleRawImuX E s imu)) = imu_type_m s"
  unfolding HandleRawImuX_def
  by (cases "is_zero (gyro_scale_m s)") (simp_all add: Let_def)

lemma RawImu_calibration: "calibration (snd (HandleRawImu E s imu)) = calibration s"
  unfolding HandleRawImu_def
  by (cases "is_zero (gyro_scale_m s)") (simp_all add: Let_def calibration_def)

lemma calibration_others:
  "calibration (snd (HandleGnssBestpos E s pos w ms)) = calibration s"
  "calibration (snd (HandleBestPos E s pos w ms)) = calibration s"
  "calibration (snd (HandleBestVel E s vel w ms)) = calibration s"
  "calibration (snd (HandleCorrImuData E now s corr)) = calibration s"
  "calibration (snd (HandleInsCov E s cov)) = calibration s"
  "calibration (snd (HandleInsPva E now s pva)) = calibration s"
  "calibration (snd (HandleInsPvax E s pvax w ms)) = calibration s"
  "calibration (snd (HandleGpsEph E s ge)) = calibration s"
  "calibration (snd (HandleBdsEph E s be)) = calibration s"
  "calibration (snd (HandleGloEph E s gl)) = calibration s"
  "calibration (snd (HandleHeading E s h w ms)) = calibration s"
  by (simp_all add: calibration_def HandleGnssBestpos_def HandleBestPos_def HandleBestVel_def
      HandleCorrImuData_def HandleInsCov_def HandleInsPva_def HandleInsPvax_def
      HandleGpsEph_def HandleBdsEph_def HandleGloEph_def HandleHeading_def Let_def)

lemma calibration_Decode:
  "calibration (snd (DecodeGnssObservation E s bytes)) = calibration s"
  by (induction bytes arbitrary: s) (simp_all add: calibration_def Let_def)

lemma calibration_handled: "calibration (snd (handled t r)) = calibration (snd r)"
  by (simp add: handled_def)

lemma calibration_switch:
  "\<not> is_zero (gyro_scale_m s) \<Longrightarrow>
   calibration (snd (PrepareMessage_switch E now s message message_id message_length
      gps_week gps_millisecs)) = calibration s"
  by (cases message_id)
    (simp_all add: PrepareMessage_switch_simps calibration_handled calibration_others
      calibration_Decode RawImu_calibration RawImuX_keeps_set)

lemma calibration_PrepareMessage:
  "\<not> is_zero (gyro_scale_m s) \<Longrightarrow> calibration (snd (PrepareMessage E now s)) = calibration s"
  unfolding PrepareMessage_def Let_def
  by (simp add: calibration_switch)

lemma calibration_round:
  assumes "\<not> is_zero (gyro_scale_m s)"
  shows "calibration (snd (GetMessage_round E now s b rest)) = calibration s"
proof (cases "frame_complete s")
  case True
  have "calibration ((snd (PrepareMessage E now s))\<lparr>buffer_m := [], total_length_m := 0\<rparr>)
      = calibration (snd (PrepareMessage E now s))"
    by (simp add: calibration_def)
  then show ?thesis
    using True assms by (simp add: round_frame_complete calibration_PrepareMessage)
next
  case False
  then show ?thesis
    by (auto simp: GetMessage_round_def frame_complete_def calibration_def)
qed

text \<open>
  C4, as the code has it. A RAWIMUX or RAWIMUSX frame that finds the calibration unset
  (zero gyro scale) and a non-zero sampling rate in the table entry of the configured
  device stores gyro scale, accelerometer scale, sampling rate and sample interval derived
  from that entry. A RAWIMU or RAWIMUS frame in the same state derives the same scales
  for its own sample (its output is the one it would give with those values stored) but
  stores nothing: the calibration is as it was. With a zero sampling rate both handlers
  drop the frame and leave the object unchanged, so the next frame tries again. Once the
  gyro scale is non-zero no handler, no call of \<^verbatim>\<open>PrepareMessage\<close> and no round of
  \<^verbatim>\<open>GetMessage\<close> changes the calibration, and a second RAWIMUX frame leaves the
  calibration that the first one left.
\<close>

theorem calibration_set_once:
  "(is_zero (gyro_scale_m s)
      \<and> \<not> is_zero (param_sampling_rate_hz (GetImuParameter E (imu_type_m s))) \<longrightarrow>
        fst (HandleRawImuX E s imux)
      \<and> calibration (snd (HandleRawImuX E s imux)) =
          (param_gyro_scale (GetImuParameter E (imu_type_m s))
             * param_sampling_rate_hz (GetImuParameter E (imu_type_m s)),
           param_accel_scale (GetImuParameter E (imu_type_m s))
             * param_sampling_rate_hz (GetImuParameter E (imu_type_m s)),
           param_sampling_rate_hz (GetImuParameter E (imu_type_m s)),
           1 / param_sampling_rate_hz (GetImuParameter E (imu_type_m s)))
      \<and> fst (HandleRawImu E s rimu)
      \<and> calibration (snd (HandleRawImu E s rimu)) = calibration s
      \<and> imu_m (snd (HandleRawImu E s rimu)) =
          imu_m (snd (HandleRawImu E
            (s\<lparr>gyro_scale_m := param_gyro_scale (GetImuParameter E (imu_type_m s))
                    * param_sampling_rate_hz (GetImuParameter E (imu_type_m s)),
                accel_scale_m := param_accel_scale (GetImuParameter E (imu_type_m s))
                    * param_sampling_rate_hz (GetImuParameter E (imu_type_m s)),
                imu_measurement_span_m :=
                    1 / param_sampling_rate_hz (GetImuParameter E (imu_type_m s))\<rparr>) rimu)))
   \<and> (is_zero (gyro_scale_m s)
      \<and> is_zero (param_sampling_rate_hz (GetImuParameter E (imu_type_m s))) \<longrightarrow>
        HandleRawImuX E s imux = (False, s) \<and> HandleRawImu E s rimu = (False, s))
   \<and> (\<not> is_zero (gyro_scale_m s) \<longrightarrow>
        calibration (snd (HandleRawImuX E s imux)) = calibration s
      \<and> calibration (snd (HandleRawImu E s rimu)) = calibration s
      \<and> calibration (snd (PrepareMessage E now s)) = calibration s
      \<and> calibration (snd (GetMessage_round E now s b rest)) = calibration s)
   \<and> calibration (snd (HandleRawImuX E (snd (HandleRawImuX E s imux)) imux'))
        = calibration (snd (HandleRawImuX E s imux))"
proof -
  let ?p = "GetImuParameter E (imu_type_m s)"
  let ?rate = "param_sampling_rate_hz ?p"
  have same_output: "imu_m (snd (HandleRawImu E s rimu)) =
      imu_m (snd (HandleRawImu E
        (s\<lparr>gyro_scale_m := param_gyro_scale ?p * ?rate,
            accel_scale_m := param_accel_scale ?p * ?rate,
            imu_measurement_span_m := 1 / ?rate\<rparr>) rimu))"
    if "is_zero (gyro_scale_m s)" "\<not> is_zero ?rate"
    using that unfolding HandleRawImu_def
    by (cases "is_zero (param_gyro_scale ?p * ?rate)") (simp_all add: Let_def)
  have twice: "calibration (snd (HandleRawImuX E (snd (HandleRawImuX E s imux)) imux'))
        = calibration (snd (HandleRawImuX E s imux))"
  proof (cases "is_zero (gyro_scale_m (snd (HandleRawImuX E s imux)))")
    case False
    then show ?thesis by (rule RawImuX_keeps_set)
  next
    case True
    let ?s1 = "snd (HandleRawImuX E s imux)"
    have ty: "imu_type_m ?s1 = imu_type_m s"
      by (rule RawImuX_imu_type)
    show ?thesis
    proof (cases "is_zero ?rate")
      case True
      with \<open>is_zero (gyro_scale_m ?s1)\<close> ty show ?thesis
        by (simp add: RawImuX_unsupported)
    next
      case False
      have unset: "is_zero (gyro_scale_m s)"
      proof (rule ccontr)
        assume "\<not> is_zero (gyro_scale_m s)"
        then have "calibration ?s1 = calibration s"
          by (rule RawImuX_keeps_set)
        with True \<open>\<not> is_zero (gyro_scale_m s)\<close> show False
          by (simp add: calibration_def)
      qed
      have "calibration (snd (HandleRawImuX E ?s1 imux')) =
          (param_gyro_scale ?p * ?rate, param_accel_scale ?p * ?rate, ?rate, 1 / ?rate)"
        using RawImuX_initialises [of ?s1 E imux'] True False ty by simp
      moreover have "calibration ?s1 =
          (param_gyro_scale ?p * ?rate, param_accel_scale ?p * ?rate, ?rate, 1 / ?rate)"
        using unset False by (rule RawImuX_initialises)
      ultimately show ?thesis by simp
    qed
  qed
  show ?thesis
    using same_output twice
    by (simp add: RawImuX_ready RawImu_ready RawImuX_initialises RawImu_calibration
        RawImuX_unsupported RawImu_unsupported RawImuX_keeps_set calibration_PrepareMessage
        calibration_round)
qed

lemma sample_table:
  "sample_GetImuParameter (IMU_TYPE 0)
     = \<lparr>param_gyro_scale = 1 / 1000, param_accel_scale = 1 / 500, param_sampling_rate_hz = 200\<rparr>"
  by (simp add: sample_GetImuParameter_def)

theorem calibration_set_once_witness:
  "is_zero (gyro_scale_m sample_parser)
   \<and> \<not> is_zero (param_sampling_rate_hz (GetImuParameter sample_env (imu_type_m sample_parser)))
   \<and> fst (HandleRawImuX sample_env sample_parser sample_RawImuX)
   \<and> calibration (snd (HandleRawImuX sample_env sample_parser sample_RawImuX))
        = (1 / 5, 2 / 5, 200, 1 / 200)
   \<and> \<not> is_zero (gyro_scale_m (snd (HandleRawImuX sample_env sample_parser sample_RawImuX)))
   \<and> calibration (snd (HandleRawImuX sample_env
        (snd (HandleRawImuX sample_env sample_parser sample_RawImuX)) sample_RawImuX))
        = (1 / 5, 2 / 5, 200, 1 / 200)
   \<and> calibration (snd (PrepareMessage sample_env 0
        (snd (HandleRawImuX sample_env sample_parser sample_RawImuX))))
        = (1 / 5, 2 / 5, 200, 1 / 200)
   \<and> is_zero (gyro_scale_m (sample_parser\<lparr>imu_type_m := IMU_TYPE 1\<rparr>))
   \<and> is_zero (param_sampling_rate_hz (GetImuParameter sample_env
        (imu_type_m (sample_parser\<lparr>imu_type_m := IMU_TYPE 1\<rparr>))))
   \<and> HandleRawImuX sample_env (sample_parser\<lparr>imu_type_m := IMU_TYPE 1\<rparr>) sample_RawImuX
        = (False, sample_parser\<lparr>imu_type_m := IMU_TYPE 1\<rparr>)"
proof -
  let ?s1 = "snd (HandleRawImuX sample_env sample_parser sample_RawImuX)"
  have c: "calibration ?s1 = (1 / 5, 2 / 5, 200, 1 / 200)"
    using calibration_set_once [of sample_parser sample_env sample_RawImuX sample_RawImu 0 0 "[]"
        sample_RawImuX]
    by (simp add: is_zero_def sample_parser_members sample_env_bodies sample_table)
  then have g: "\<not> is_zero (gyro_scale_m ?s1)"
    by (simp add: calibration_def is_zero_def)
  have p: "calibration (snd (PrepareMessage sample_env 0 ?s1)) = (1 / 5, 2 / 5, 200, 1 / 200)"
    using calibration_set_once [of ?s1 sample_env sample_RawImuX sample_RawImu 0 0 "[]"
        sample_RawImuX] g c
    by simp
  show ?thesis
    using calibration_set_once [of sample_parser sample_env sample_RawImuX sample_RawImu 0 0 "[]"
        sample_RawImuX]
      calibration_set_once [of "sample_parser\<lparr>imu_type_m := IMU_TYPE 1\<rparr>" sample_env
        sample_RawImuX sample_RawImu 0 0 "[]" sample_RawImuX] c g p
    by (simp add: is_zero_def sample_parser_members sample_env_bodies sample_table
        sample_GetImuParameter_def)
qed

text \<open>
  The statement of C4 read with RAWIMU frames fails: after a RAWIMU frame that found the
  calibration unset and a supported device (the frame is processed and reported ready),
  the gyro scale is still zero, so the next raw-inertial frame derives the scales again.
\<close>

theorem raw_imu_leaves_calibration_unset:
  "is_zero (gyro_scale_m sample_parser)
   \<and> \<not> is_zero (param_sampling_rate_hz (GetImuParameter sample_env (imu_type_m sample_parser)))
   \<and> fst (HandleRawImu sample_env sample_parser sample_RawImu)
   \<and> is_zero (gyro_scale_m (snd (HandleRawImu sample_env sample_parser sample_RawImu)))
   \<and> calibration (snd (HandleRawImu sample_env sample_parser sample_RawImu)) = (0, 0, 0, 0)"
proof -
  have "calibration (snd (HandleRawImu sample_env sample_parser sample_RawImu)) = (0, 0, 0, 0)"
    by (simp add: RawImu_calibration) (simp add: calibration_def sample_parser_members)
  then show ?thesis
    by (simp add: RawImu_ready calibration_def is_zero_def sample_parser_members
        sample_env_bodies sample_table)
qed

lemma rawimux_frame_check:
  "check_crc sample_env (s\<lparr>buffer_m := rawimux_frame\<rparr>)"
  by (simp add: check_crc_def rawimux_frame_def sample_env_framing CRC_LENGTH_def
      sample_crc32_block_def sample_load_uint32_def foldl_replicate_zero)

lemma rawimux_frame_header:
  "frame_header sample_env (s\<lparr>buffer_m := rawimux_frame\<rparr>)
    = \<lparr>header_message_id = RAWIMUX, header_message_length = 40, header_gps_week = 2200,
        header_gps_millisecs = 100000\<rparr>"
  by (simp add: frame_header_def rawimux_frame_def sample_env_framing sample_as_ShortHeader_def
      sample_uint16_def sample_load_uint32_def sample_MessageId_def)

















subsection \<open>C6\<close>

lemma always_ready:
  "fst (HandleGnssBestpos E s pos w ms)" "fst (HandleInsPvax E s pvax w ms)"
  "fst (HandleHeading E s h w ms)" "fst (HandleGpsEph E s ge)" "fst (HandleBdsEph E s be)"
  "fst (HandleGloEph E s gl)"
  by (simp_all add: HandleGnssBestpos_def HandleInsPvax_def HandleHeading_def HandleGpsEph_def
      HandleBdsEph_def HandleGloEph_def Let_def)

lemma InsCov_never_ready: "\<not> fst (HandleInsCov E s cov)"
  by (simp add: HandleInsCov_def)

lemma InsCov_round_fields:
  "ins_position_covariance (InsCov_round E cov i0 i)
     = (ins_position_covariance i0)[i := cov_position_covariance cov i]"
  "ins_euler_angles_covariance (InsCov_round E cov i0 i)
     = (ins_euler_angles_covariance i0)
         [INDEX E i := (DEG_TO_RAD E * DEG_TO_RAD E) * cov_attitude_covariance cov i]"
  "ins_linear_velocity_covariance (InsCov_round E cov i0 i)
     = (ins_linear_velocity_covariance i0)[i := cov_velocity_covariance cov i]"
  by (simp_all add: InsCov_round_def)

lemma InsCov_fold_position:
  "n \<le> length (ins_position_covariance i0) \<Longrightarrow>
   ins_position_covariance (foldl (InsCov_round E cov) i0 [0..<n])
     = map (cov_position_covariance cov) [0..<n] @ drop n (ins_position_covariance i0)"
proof (induction n)
  case 0
  then show ?case by simp
next
  case (Suc n)
  let ?xs = "ins_position_covariance i0"
  from Suc.prems have n: "n < length ?xs"
    by simp
  then have d: "drop n ?xs = ?xs ! n # drop (Suc n) ?xs"
    by (simp add: Cons_nth_drop_Suc)
  have "ins_position_covariance (foldl (InsCov_round E cov) i0 [0..<Suc n])
      = (map (cov_position_covariance cov) [0..<n] @ drop n ?xs)
          [n := cov_position_covariance cov n]"
    using Suc.IH n by (simp add: InsCov_round_fields)
  also have "\<dots> = map (cov_position_covariance cov) [0..<n]
      @ (drop n ?xs)[0 := cov_position_covariance cov n]"
    by (simp add: list_update_append)
  also have "\<dots> = map (cov_position_covariance cov) [0..<Suc n] @ drop (Suc n) ?xs"
    by (simp add: d)
  finally show ?case .
qed

lemma InsCov_fold_velocity:
  "n \<le> length (ins_linear_velocity_covariance i0) \<Longrightarrow>
   ins_linear_velocity_covariance (foldl (InsCov_round E cov) i0 [0..<n])
     = map (cov_velocity_covariance cov) [0..<n] @ drop n (ins_linear_velocity_covariance i0)"
proof (induction n)
  case 0
  then show ?case by simp
next
  case (Suc n)
  let ?xs = "ins_linear_velocity_covariance i0"
  from Suc.prems have n: "n < length ?xs"
    by simp
  then have d: "drop n ?xs = ?xs ! n # drop (Suc n) ?xs"
    by (simp add: Cons_nth_drop_Suc)
  have "ins_linear_velocity_covariance (foldl (InsCov_round E cov) i0 [0..<Suc n])
      = (map (cov_velocity_covariance cov) [0..<n] @ drop n ?xs)
          [n := cov_velocity_covariance cov n]"
    using Suc.IH n by (simp add: InsCov_round_fields)
  also have "\<dots> = map (cov_velocity_covariance cov) [0..<n]
      @ (drop n ?xs)[0 := cov_velocity_covariance cov n]"
    by (simp add: list_update_append)
  also have "\<dots> = map (cov_velocity_covariance cov) [0..<Suc n] @ drop (Suc n) ?xs"
    by (simp add: d)
  finally show ?case .
qed

lemma InsCov_fold_euler_length:
  "length (ins_euler_angles_covariance (foldl (InsCov_round E cov) i0 ns))
     = length (ins_euler_angles_covariance i0)"
  by (induction ns arbitrary: i0) (simp_all add: InsCov_round_fields)

lemma InsCov_fold_euler:
  "distinct (map (INDEX E) [0..<n]) \<Longrightarrow>
   list_all (\<lambda>k. k < length (ins_euler_angles_covariance i0)) (map (INDEX E) [0..<n]) \<Longrightarrow>
   i < n \<Longrightarrow>
   ins_euler_angles_covariance (foldl (InsCov_round E cov) i0 [0..<n]) ! INDEX E i
     = (DEG_TO_RAD E * DEG_TO_RAD E) * cov_attitude_covariance cov i"
proof (induction n)
  case 0
  then show ?case by simp
next
  case (Suc n)
  let ?r = "foldl (InsCov_round E cov) i0 [0..<n]"
  have step: "ins_euler_angles_covariance (foldl (InsCov_round E cov) i0 [0..<Suc n])
      = (ins_euler_angles_covariance ?r)
          [INDEX E n := (DEG_TO_RAD E * DEG_TO_RAD E) * cov_attitude_covariance cov n]"
    by (simp add: InsCov_round_fields)
  have len: "INDEX E n < length (ins_euler_angles_covariance ?r)"
    using Suc.prems(2) by (simp add: InsCov_fold_euler_length)
  show ?case
  proof (cases "i = n")
    case True
    then show ?thesis
      using len unfolding step by simp
  next
    case False
    with Suc.prems(3) have i: "i < n"
      by simp
    then have "i \<in> {0..<n}"
      by simp
    then have "INDEX E i \<in> INDEX E ` {0..<n}"
      by (rule imageI)
    then have "INDEX E i \<noteq> INDEX E n"
      using Suc.prems(1) by auto
    moreover have "ins_euler_angles_covariance ?r ! INDEX E i
        = (DEG_TO_RAD E * DEG_TO_RAD E) * cov_attitude_covariance cov i"
      using Suc.IH Suc.prems(1,2) i by simp
    ultimately show ?thesis
      unfolding step by simp
  qed
qed

lemma InsCov_fold_others:
  "\<exists>P A V. foldl (InsCov_round E cov) i0 ns
     = i0\<lparr>ins_position_covariance := P, ins_euler_angles_covariance := A,
          ins_linear_velocity_covariance := V\<rparr>"
proof (induction ns rule: rev_induct)
  case Nil
  have "i0 = i0\<lparr>ins_position_covariance := ins_position_covariance i0,
      ins_euler_angles_covariance := ins_euler_angles_covariance i0,
      ins_linear_velocity_covariance := ins_linear_velocity_covariance i0\<rparr>"
    by simp
  then show ?case
    by (simp only: foldl_Nil) blast
next
  case (snoc n ns)
  then obtain P A V where "foldl (InsCov_round E cov) i0 ns
     = i0\<lparr>ins_position_covariance := P, ins_euler_angles_covariance := A,
          ins_linear_velocity_covariance := V\<rparr>"
    by blast
  then have "foldl (InsCov_round E cov) i0 (ns @ [n])
     = i0\<lparr>ins_position_covariance := P[n := cov_position_covariance cov n],
          ins_euler_angles_covariance :=
            A[INDEX E n := (DEG_TO_RAD E * DEG_TO_RAD E) * cov_attitude_covariance cov n],
          ins_linear_velocity_covariance := V[n := cov_velocity_covariance cov n]\<rparr>"
    by (simp add: InsCov_round_def)
  then show ?case
    by blast
qed

lemma InsCov_writes:
  "snd (HandleInsCov E s cov)
     = s\<lparr>ins_m := (ins_m s)
         \<lparr>ins_position_covariance :=
            ins_position_covariance (ins_m (snd (HandleInsCov E s cov))),
          ins_euler_angles_covariance :=
            ins_euler_angles_covariance (ins_m (snd (HandleInsCov E s cov))),
          ins_linear_velocity_covariance :=
            ins_linear_velocity_covariance (ins_m (snd (HandleInsCov E s cov)))\<rparr>\<rparr>"
proof -
  obtain P A V where "foldl (InsCov_round E cov) (ins_m s) [0..<9]
     = (ins_m s)\<lparr>ins_position_covariance := P, ins_euler_angles_covariance := A,
          ins_linear_velocity_covariance := V\<rparr>"
    using InsCov_fold_others by blast
  then show ?thesis
    by (simp add: HandleInsCov_def)
qed

lemma InsCov_position:
  "length (ins_position_covariance (ins_m s)) = 9 \<Longrightarrow>
   ins_position_covariance (ins_m (snd (HandleInsCov E s cov)))
     = map (cov_position_covariance cov) [0..<9]"
  using InsCov_fold_position [of 9 "ins_m s" E cov] by (simp add: HandleInsCov_def)

lemma InsCov_velocity:
  "length (ins_linear_velocity_covariance (ins_m s)) = 9 \<Longrightarrow>
   ins_linear_velocity_covariance (ins_m (snd (HandleInsCov E s cov)))
     = map (cov_velocity_covariance cov) [0..<9]"
  using InsCov_fold_velocity [of 9 "ins_m s" E cov] by (simp add: HandleInsCov_def)

lemma InsCov_euler:
  assumes "length (ins_euler_angles_covariance (ins_m s)) = 9"
    and "distinct (map (INDEX E) [0..<9])"
    and "list_all (\<lambda>k. k < 9) (map (INDEX E) [0..<9])"
  shows "map (\<lambda>i. ins_euler_angles_covariance (ins_m (snd (HandleInsCov E s cov))) ! INDEX E i)
       [0..<9]
     = map (\<lambda>i. (DEG_TO_RAD E * DEG_TO_RAD E) * cov_attitude_covariance cov i) [0..<9]"
proof (rule map_cong [OF refl])
  fix i
  assume "i \<in> set [0..<9]"
  then have "i < 9"
    by simp
  then show "ins_euler_angles_covariance (ins_m (snd (HandleInsCov E s cov))) ! INDEX E i
      = (DEG_TO_RAD E * DEG_TO_RAD E) * cov_attitude_covariance cov i"
    using InsCov_fold_euler [of E 9 "ins_m s" i cov] assms by (simp add: HandleInsCov_def)
qed

lemma InsCov_dispatch:
  assumes "check_crc E s"
    and "header_message_id (frame_header E s) = INSCOV
         \<or> header_message_id (frame_header E s) = INSCOVS"
  shows "fst (PrepareMessage E now s) = NONE"
    and "unat (header_message_length (frame_header E s)) = sizeof_InsCov E \<Longrightarrow>
         snd (PrepareMessage E now s) = snd (HandleInsCov E s (as_InsCov E (frame_message E s)))"
  using assms
  by (auto simp: PrepareMessage_valid PrepareMessage_switch_simps handled_def InsCov_never_ready)

text \<open>
  C6, as the code has it. The handlers of the navigation status (INSPVAX), the heading and
  the three ephemerides return ready on every frame, so a frame of these kinds with valid
  checksum and body length is emitted by \<^verbatim>\<open>PrepareMessage\<close>, and the round of
  \<^verbatim>\<open>GetMessage\<close> that processes a completed frame returns what \<^verbatim>\<open>PrepareMessage\<close> emits.
  With a supported frame-mapping selector (5 or 6) the raw-inertial handlers return ready
  unless the calibration is unset and the configured device has a zero sampling rate, in
  which case they return not-ready. The covariance handler returns not-ready on every
  frame: it writes the nine position covariances and the nine velocity covariances of the
  frame into the inertial record, writes each attitude covariance, scaled by
  \<^verbatim>\<open>DEG_TO_RAD\<close> squared, at the entry that \<^verbatim>\<open>INDEX\<close> names (the three fields have nine
  entries, as the constructor leaves them, and \<^verbatim>\<open>INDEX\<close> permutes the nine indices),
  changes nothing else, and an INSCOV or INSCOVS frame emits nothing.
\<close>

theorem self_sufficient_handlers_ready:
  "fst (HandleInsPvax E s pvax w ms) \<and> fst (HandleHeading E s h w ms)
   \<and> fst (HandleGpsEph E s ge) \<and> fst (HandleBdsEph E s be) \<and> fst (HandleGloEph E s gl)
   \<and> (imu_frame_mapping_m s = 5 \<or> imu_frame_mapping_m s = 6 \<longrightarrow>
        fst (HandleRawImuX E s imux)
          = (\<not> (is_zero (gyro_scale_m s)
                \<and> is_zero (param_sampling_rate_hz (GetImuParameter E (imu_type_m s)))))
        \<and> fst (HandleRawImu E s rimu)
          = (\<not> (is_zero (gyro_scale_m s)
                \<and> is_zero (param_sampling_rate_hz (GetImuParameter E (imu_type_m s))))))
   \<and> \<not> fst (HandleInsCov E s cov)
   \<and> snd (HandleInsCov E s cov)
       = s\<lparr>ins_m := (ins_m s)
           \<lparr>ins_position_covariance :=
              ins_position_covariance (ins_m (snd (HandleInsCov E s cov))),
            ins_euler_angles_covariance :=
              ins_euler_angles_covariance (ins_m (snd (HandleInsCov E s cov))),
            ins_linear_velocity_covariance :=
              ins_linear_velocity_covariance (ins_m (snd (HandleInsCov E s cov)))\<rparr>\<rparr>
   \<and> (length (ins_position_covariance (ins_m s)) = 9 \<longrightarrow>
        ins_position_covariance (ins_m (snd (HandleInsCov E s cov)))
          = map (cov_position_covariance cov) [0..<9])
   \<and> (length (ins_linear_velocity_covariance (ins_m s)) = 9 \<longrightarrow>
        ins_linear_velocity_covariance (ins_m (snd (HandleInsCov E s cov)))
          = map (cov_velocity_covariance cov) [0..<9])
   \<and> (length (ins_euler_angles_covariance (ins_m s)) = 9
        \<and> distinct (map (INDEX E) [0..<9])
        \<and> list_all (\<lambda>k. k < 9) (map (INDEX E) [0..<9]) \<longrightarrow>
        map (\<lambda>i. ins_euler_angles_covariance (ins_m (snd (HandleInsCov E s cov))) ! INDEX E i)
            [0..<9]
          = map (\<lambda>i. (DEG_TO_RAD E * DEG_TO_RAD E) * cov_attitude_covariance cov i) [0..<9])
   \<and> (frame_complete s \<longrightarrow>
        fst (GetMessage_round E now s b rest)
          = (if fst (PrepareMessage E now s) \<noteq> NONE then Some (fst (PrepareMessage E now s))
             else None))
   \<and> (check_crc E s \<longrightarrow>
        (header_message_id (frame_header E s) = INSPVAX
           \<and> unat (header_message_length (frame_header E s)) = sizeof_InsPvaX E
           \<longrightarrow> fst (PrepareMessage E now s) = INS_STAT)
      \<and> (header_message_id (frame_header E s) = HEADING_ID
           \<and> unat (header_message_length (frame_header E s)) = sizeof_Heading E
           \<longrightarrow> fst (PrepareMessage E now s) = HEADING)
      \<and> (header_message_id (frame_header E s) = GPSEPHEMERIS
           \<and> unat (header_message_length (frame_header E s)) = sizeof_GPS_Ephemeris E
           \<longrightarrow> fst (PrepareMessage E now s) = GPSEPHEMERIDES)
      \<and> (header_message_id (frame_header E s) = BDSEPHEMERIS
           \<and> unat (header_message_length (frame_header E s)) = sizeof_BDS_Ephemeris E
           \<longrightarrow> fst (PrepareMessage E now s) = BDSEPHEMERIDES)
      \<and> (header_message_id (frame_header E s) = GLOEPHEMERIS
           \<and> unat (header_message_length (frame_header E s)) = sizeof_GLO_Ephemeris E
           \<longrightarrow> fst (PrepareMessage E now s) = GLOEPHEMERIDES)
      \<and> ((imu_frame_mapping_m s = 5 \<or> imu_frame_mapping_m s = 6)
           \<and> (header_message_id (frame_header E s) = RAWIMUX
              \<or> header_message_id (frame_header E s) = RAWIMUSX)
           \<and> unat (header_message_length (frame_header E s)) = sizeof_RawImuX E
           \<longrightarrow> fst (PrepareMessage E now s)
                = (if is_zero (gyro_scale_m s)
                      \<and> is_zero (param_sampling_rate_hz (GetImuParameter E (imu_type_m s)))
                   then NONE else IMU))
      \<and> ((imu_frame_mapping_m s = 5 \<or> imu_frame_mapping_m s = 6)
           \<and> (header_message_id (frame_header E s) = RAWIMU
              \<or> header_message_id (frame_header E s) = RAWIMUS)
           \<and> unat (header_message_length (frame_header E s)) = sizeof_RawImu E
           \<longrightarrow> fst (PrepareMessage E now s)
                = (if is_zero (gyro_scale_m s)
                      \<and> is_zero (param_sampling_rate_hz (GetImuParameter E (imu_type_m s)))
                   then NONE else IMU))
      \<and> (header_message_id (frame_header E s) = INSCOV
            \<or> header_message_id (frame_header E s) = INSCOVS
           \<longrightarrow> fst (PrepareMessage E now s) = NONE)
      \<and> ((header_message_id (frame_header E s) = INSCOV
            \<or> header_message_id (frame_header E s) = INSCOVS)
           \<and> unat (header_message_length (frame_header E s)) = sizeof_InsCov E
           \<longrightarrow> snd (PrepareMessage E now s)
                = snd (HandleInsCov E s (as_InsCov E (frame_message E s)))))"
proof -
  have emit: "fst (PrepareMessage E now s) = INS_STAT"
    if "check_crc E s" "header_message_id (frame_header E s) = INSPVAX"
      "unat (header_message_length (frame_header E s)) = sizeof_InsPvaX E"
    using that by (simp add: PrepareMessage_valid PrepareMessage_switch_simps handled_def
        always_ready)
  have emit_h: "fst (PrepareMessage E now s) = HEADING"
    if "check_crc E s" "header_message_id (frame_header E s) = HEADING_ID"
      "unat (header_message_length (frame_header E s)) = sizeof_Heading E"
    using that by (simp add: PrepareMessage_valid PrepareMessage_switch_simps handled_def
        always_ready)
  have emit_g: "fst (PrepareMessage E now s) = GPSEPHEMERIDES"
    if "check_crc E s" "header_message_id (frame_header E s) = GPSEPHEMERIS"
      "unat (header_message_length (frame_header E s)) = sizeof_GPS_Ephemeris E"
    using that by (simp add: PrepareMessage_valid PrepareMessage_switch_simps handled_def
        always_ready)
  have emit_b: "fst (PrepareMessage E now s) = BDSEPHEMERIDES"
    if "check_crc E s" "header_message_id (frame_header E s) = BDSEPHEMERIS"
      "unat (header_message_length (frame_header E s)) = sizeof_BDS_Ephemeris E"
    using that by (simp add: PrepareMessage_valid PrepareMessage_switch_simps handled_def
        always_ready)
  have emit_l: "fst (PrepareMessage E now s) = GLOEPHEMERIDES"
    if "check_crc E s" "header_message_id (frame_header E s) = GLOEPHEMERIS"
      "unat (header_message_length (frame_header E s)) = sizeof_GLO_Ephemeris E"
    using that by (simp add: PrepareMessage_valid PrepareMessage_switch_simps handled_def
        always_ready)
  have emit_x: "fst (PrepareMessage E now s)
                = (if is_zero (gyro_scale_m s)
                      \<and> is_zero (param_sampling_rate_hz (GetImuParameter E (imu_type_m s)))
                   then NONE else IMU)"
    if "check_crc E s" "header_message_id (frame_header E s) = RAWIMUX
            \<or> header_message_id (frame_header E s) = RAWIMUSX"
      "unat (header_message_length (frame_header E s)) = sizeof_RawImuX E"
    using that by (auto simp: PrepareMessage_valid PrepareMessage_switch_simps handled_def
        RawImuX_ready)
  have emit_r: "fst (PrepareMessage E now s)
                = (if is_zero (gyro_scale_m s)
                      \<and> is_zero (param_sampling_rate_hz (GetImuParameter E (imu_type_m s)))
                   then NONE else IMU)"
    if "check_crc E s" "header_message_id (frame_header E s) = RAWIMU
            \<or> header_message_id (frame_header E s) = RAWIMUS"
      "unat (header_message_length (frame_header E s)) = sizeof_RawImu E"
    using that by (auto simp: PrepareMessage_valid PrepareMessage_switch_simps handled_def
        RawImu_ready)
  have rd: "fst (GetMessage_round E now s b rest)
          = (if fst (PrepareMessage E now s) \<noteq> NONE then Some (fst (PrepareMessage E now s))
             else None)"
    if "frame_complete s"
    using that by (simp add: round_frame_complete)
  have cov: "snd (HandleInsCov E s cov)
       = s\<lparr>ins_m := (ins_m s)
           \<lparr>ins_position_covariance :=
              ins_position_covariance (ins_m (snd (HandleInsCov E s cov))),
            ins_euler_angles_covariance :=
              ins_euler_angles_covariance (ins_m (snd (HandleInsCov E s cov))),
            ins_linear_velocity_covariance :=
              ins_linear_velocity_covariance (ins_m (snd (HandleInsCov E s cov)))\<rparr>\<rparr>"
    by (rule InsCov_writes)
  have handlers: "fst (HandleInsPvax E s pvax w ms) \<and> fst (HandleHeading E s h w ms)
   \<and> fst (HandleGpsEph E s ge) \<and> fst (HandleBdsEph E s be) \<and> fst (HandleGloEph E s gl)
   \<and> (imu_frame_mapping_m s = 5 \<or> imu_frame_mapping_m s = 6 \<longrightarrow>
        fst (HandleRawImuX E s imux)
          = (\<not> (is_zero (gyro_scale_m s)
                \<and> is_zero (param_sampling_rate_hz (GetImuParameter E (imu_type_m s)))))
        \<and> fst (HandleRawImu E s rimu)
          = (\<not> (is_zero (gyro_scale_m s)
                \<and> is_zero (param_sampling_rate_hz (GetImuParameter E (imu_type_m s))))))
   \<and> \<not> fst (HandleInsCov E s cov)"
    by (simp only: always_ready InsCov_never_ready RawImuX_ready RawImu_ready) blast
  have frames: "check_crc E s \<longrightarrow>
        (header_message_id (frame_header E s) = INSPVAX
           \<and> unat (header_message_length (frame_header E s)) = sizeof_InsPvaX E
           \<longrightarrow> fst (PrepareMessage E now s) = INS_STAT)
      \<and> (header_message_id (frame_header E s) = HEADING_ID
           \<and> unat (header_message_length (frame_header E s)) = sizeof_Heading E
           \<longrightarrow> fst (PrepareMessage E now s) = HEADING)
      \<and> (header_message_id (frame_header E s) = GPSEPHEMERIS
           \<and> unat (header_message_length (frame_header E s)) = sizeof_GPS_Ephemeris E
           \<longrightarrow> fst (PrepareMessage E now s) = GPSEPHEMERIDES)
      \<and> (header_message_id (frame_header E s) = BDSEPHEMERIS
           \<and> unat (header_message_length (frame_header E s)) = sizeof_BDS_Ephemeris E
           \<longrightarrow> fst (PrepareMessage E now s) = BDSEPHEMERIDES)
      \<and> (header_message_id (frame_header E s) = GLOEPHEMERIS
           \<and> unat (header_message_length (frame_header E s)) = sizeof_GLO_Ephemeris E
           \<longrightarrow> fst (PrepareMessage E now s) = GLOEPHEMERIDES)
      \<and> ((imu_frame_mapping_m s = 5 \<or> imu_frame_mapping_m s = 6)
           \<and> (header_message_id (frame_header E s) = RAWIMUX
              \<or> header_message_id (frame_header E s) = RAWIMUSX)
           \<and> unat (header_message_length (frame_header E s)) = sizeof_RawImuX E
           \<longrightarrow> fst (PrepareMessage E now s)
                = (if is_zero (gyro_scale_m s)
                      \<and> is_zero (param_sampling_rate_hz (GetImuParameter E (imu_type_m s)))
                   then NONE else IMU))
      \<and> ((imu_frame_mapping_m s = 5 \<or> imu_frame_mapping_m s = 6)
           \<and> (header_message_id (frame_header E s) = RAWIMU
              \<or> header_message_id (frame_header E s) = RAWIMUS)
           \<and> unat (header_message_length (frame_header E s)) = sizeof_RawImu E
           \<longrightarrow> fst (PrepareMessage E now s)
                = (if is_zero (gyro_scale_m s)
                      \<and> is_zero (param_sampling_rate_hz (GetImuParameter E (imu_type_m s)))
                   then NONE else IMU))
      \<and> (header_message_id (frame_header E s) = INSCOV
            \<or> header_message_id (frame_header E s) = INSCOVS
           \<longrightarrow> fst (PrepareMessage E now s) = NONE)
      \<and> ((header_message_id (frame_header E s) = INSCOV
            \<or> header_message_id (frame_header E s) = INSCOVS)
           \<and> unat (header_message_length (frame_header E s)) = sizeof_InsCov E
           \<longrightarrow> snd (PrepareMessage E now s)
                = snd (HandleInsCov E s (as_InsCov E (frame_message E s))))"
    using emit emit_h emit_g emit_b emit_l emit_x emit_r InsCov_dispatch [of E s now]
    by blast
  show ?thesis
    using handlers cov InsCov_position [of s E cov] InsCov_velocity [of s E cov]
      InsCov_euler [of s E cov] rd frames
    by blast
qed

lemma heading_frame_check:
  "check_crc sample_env (s\<lparr>buffer_m := heading_frame\<rparr>)"
  by (simp add: check_crc_def heading_frame_def sample_env_framing CRC_LENGTH_def
      sample_crc32_block_def sample_load_uint32_def foldl_replicate_zero)

lemma heading_frame_header:
  "frame_header sample_env (s\<lparr>buffer_m := heading_frame\<rparr>)
    = \<lparr>header_message_id = HEADING_ID, header_message_length = 44, header_gps_week = 2200,
        header_gps_millisecs = 100000\<rparr>"
  by (simp add: frame_header_def heading_frame_def sample_env_framing sample_as_ShortHeader_def
      sample_uint16_def sample_load_uint32_def sample_MessageId_def)

lemma heading_frame_complete:
  "frame_complete (sample_parser\<lparr>total_length_m := 60, buffer_m := heading_frame\<rparr>)"
  by (simp add: frame_complete_def heading_frame_def sample_parser_members)

lemma inscov_frame_check:
  "check_crc sample_env (s\<lparr>buffer_m := inscov_frame\<rparr>)"
  by (simp add: check_crc_def inscov_frame_def sample_env_framing CRC_LENGTH_def
      sample_crc32_block_def sample_load_uint32_def foldl_replicate_zero)

lemma inscov_frame_header:
  "frame_header sample_env (s\<lparr>buffer_m := inscov_frame\<rparr>)
    = \<lparr>header_message_id = INSCOV, header_message_length = 228, header_gps_week = 2200,
        header_gps_millisecs = 100000\<rparr>"
  by (simp add: frame_header_def inscov_frame_def sample_env_framing sample_as_LongHeader_def
      sample_uint16_def sample_load_uint32_def sample_MessageId_def)

lemma sample_parser_ins:
  "ins_position_covariance (ins_m sample_parser) = replicate 9 0"
  "ins_euler_angles_covariance (ins_m sample_parser) = replicate 9 0"
  "ins_linear_velocity_covariance (ins_m sample_parser) = replicate 9 0"
  by (simp_all add: sample_parser_def NewtonM2Parser_new_def zero_parser_def zero_Ins_def
      Resize_def sample_env_def)

lemma upt_nine: "[0..<9] = [0, 1, 2, 3, 4, 5, 6, 7, 8]"
  by (simp add: upt_rec)

lemma sample_INDEX:
  "map (INDEX sample_env) [0..<9] = [4, 3, 5, 1, 0, 2, 7, 6, 8]"
  "DEG_TO_RAD sample_env = pi / 180"
  by (simp_all add: sample_env_def upt_nine)

theorem self_sufficient_handlers_ready_witness:
  "check_crc sample_env (sample_parser\<lparr>total_length_m := 60, buffer_m := heading_frame\<rparr>)
   \<and> frame_complete (sample_parser\<lparr>total_length_m := 60, buffer_m := heading_frame\<rparr>)
   \<and> header_message_id (frame_header sample_env
        (sample_parser\<lparr>total_length_m := 60, buffer_m := heading_frame\<rparr>)) = HEADING_ID
   \<and> unat (header_message_length (frame_header sample_env
        (sample_parser\<lparr>total_length_m := 60, buffer_m := heading_frame\<rparr>)))
      = sizeof_Heading sample_env
   \<and> fst (PrepareMessage sample_env 0
        (sample_parser\<lparr>total_length_m := 60, buffer_m := heading_frame\<rparr>)) = HEADING
   \<and> fst (GetMessage_round sample_env 0
        (sample_parser\<lparr>total_length_m := 60, buffer_m := heading_frame\<rparr>) 0 []) = Some HEADING
   \<and> check_crc sample_env (sample_parser\<lparr>buffer_m := rawimux_frame\<rparr>)
   \<and> imu_frame_mapping_m (sample_parser\<lparr>buffer_m := rawimux_frame\<rparr>) = 5
   \<and> header_message_id (frame_header sample_env (sample_parser\<lparr>buffer_m := rawimux_frame\<rparr>))
      = RAWIMUX
   \<and> unat (header_message_length
        (frame_header sample_env (sample_parser\<lparr>buffer_m := rawimux_frame\<rparr>)))
      = sizeof_RawImuX sample_env
   \<and> fst (PrepareMessage sample_env 0 (sample_parser\<lparr>buffer_m := rawimux_frame\<rparr>)) = IMU
   \<and> fst (HandleRawImuX sample_env (sample_parser\<lparr>buffer_m := rawimux_frame\<rparr>) sample_RawImuX)
   \<and> length (ins_position_covariance (ins_m sample_parser)) = 9
   \<and> length (ins_linear_velocity_covariance (ins_m sample_parser)) = 9
   \<and> length (ins_euler_angles_covariance (ins_m sample_parser)) = 9
   \<and> distinct (map (INDEX sample_env) [0..<9])
   \<and> \<not> fst (HandleInsCov sample_env sample_parser sample_InsCov)
   \<and> ins_position_covariance (ins_m (snd (HandleInsCov sample_env sample_parser sample_InsCov)))
      = [1, 2, 3, 4, 5, 6, 7, 8, 9]
   \<and> ins_linear_velocity_covariance
        (ins_m (snd (HandleInsCov sample_env sample_parser sample_InsCov)))
      = [10, 9, 8, 7, 6, 5, 4, 3, 2]
   \<and> ins_euler_angles_covariance
        (ins_m (snd (HandleInsCov sample_env sample_parser sample_InsCov))) ! 3
      = pi / 180 * (pi / 180) * 2
   \<and> ins_euler_angles_covariance
        (ins_m (snd (HandleInsCov sample_env sample_parser sample_InsCov))) ! 8
      = pi / 180 * (pi / 180) * 16
   \<and> check_crc sample_env (sample_parser\<lparr>buffer_m := inscov_frame\<rparr>)
   \<and> fst (PrepareMessage sample_env 0 (sample_parser\<lparr>buffer_m := inscov_frame\<rparr>)) = NONE
   \<and> snd (PrepareMessage sample_env 0 (sample_parser\<lparr>buffer_m := inscov_frame\<rparr>))
      = snd (HandleInsCov sample_env (sample_parser\<lparr>buffer_m := inscov_frame\<rparr>) zero_InsCov)"
proof -
  let ?h = "sample_parser\<lparr>total_length_m := 60, buffer_m := heading_frame\<rparr>"
  let ?r = "sample_parser\<lparr>buffer_m := rawimux_frame\<rparr>"
  let ?c = "sample_parser\<lparr>buffer_m := inscov_frame\<rparr>"
  let ?i = "ins_m (snd (HandleInsCov sample_env sample_parser sample_InsCov))"
  have h: "fst (PrepareMessage sample_env 0 ?h) = HEADING"
    using self_sufficient_handlers_ready [where E = sample_env and s = ?h and now = 0]
      heading_frame_check [of "sample_parser\<lparr>total_length_m := 60\<rparr>"]
    by (simp add: heading_frame_header sample_env_bodies)
  have hr: "fst (GetMessage_round sample_env 0 ?h 0 []) = Some HEADING"
    using self_sufficient_handlers_ready [where E = sample_env and s = ?h and now = 0
        and b = 0 and rest = "[]"]
      heading_frame_complete h
    by simp
  have r: "fst (PrepareMessage sample_env 0 ?r) = IMU
      \<and> fst (HandleRawImuX sample_env ?r sample_RawImuX)"
    using self_sufficient_handlers_ready
        [where E = sample_env and s = ?r and imux = sample_RawImuX and now = 0]
      rawimux_frame_check [of sample_parser]
    by (simp add: rawimux_frame_header sample_env_bodies is_zero_def sample_parser_members
        sample_table)
  have len: "length (ins_position_covariance (ins_m sample_parser)) = 9"
    "length (ins_linear_velocity_covariance (ins_m sample_parser)) = 9"
    "length (ins_euler_angles_covariance (ins_m sample_parser)) = 9"
    by (simp_all add: sample_parser_ins)
  have idx: "distinct (map (INDEX sample_env) [0..<9])"
    "list_all (\<lambda>k. k < 9) (map (INDEX sample_env) [0..<9])"
    by (simp_all add: sample_INDEX)
  have cov: "\<not> fst (HandleInsCov sample_env sample_parser sample_InsCov)
      \<and> ins_position_covariance ?i = map (cov_position_covariance sample_InsCov) [0..<9]
      \<and> ins_linear_velocity_covariance ?i = map (cov_velocity_covariance sample_InsCov) [0..<9]
      \<and> map (\<lambda>i. ins_euler_angles_covariance ?i ! INDEX sample_env i) [0..<9]
          = map (\<lambda>i. (DEG_TO_RAD sample_env * DEG_TO_RAD sample_env)
                  * cov_attitude_covariance sample_InsCov i) [0..<9]"
    using self_sufficient_handlers_ready
        [where E = sample_env and s = sample_parser and cov = sample_InsCov]
      len idx
    by blast
  then have "map (\<lambda>i. ins_euler_angles_covariance ?i ! INDEX sample_env i) [0..<9]
          = map (\<lambda>i. (DEG_TO_RAD sample_env * DEG_TO_RAD sample_env)
                  * cov_attitude_covariance sample_InsCov i) [0..<9]"
    by blast
  then have eul: "ins_euler_angles_covariance ?i ! 3 = pi / 180 * (pi / 180) * 2
      \<and> ins_euler_angles_covariance ?i ! 8 = pi / 180 * (pi / 180) * 16"
    by (simp add: upt_nine sample_env_def sample_InsCov_def)
  have vals: "ins_position_covariance ?i = [1, 2, 3, 4, 5, 6, 7, 8, 9]
      \<and> ins_linear_velocity_covariance ?i = [10, 9, 8, 7, 6, 5, 4, 3, 2]"
    using cov by (simp add: upt_nine sample_InsCov_def)
  have c: "fst (PrepareMessage sample_env 0 ?c) = NONE
      \<and> snd (PrepareMessage sample_env 0 ?c) = snd (HandleInsCov sample_env ?c zero_InsCov)"
    using self_sufficient_handlers_ready [where E = sample_env and s = ?c and now = 0]
      inscov_frame_check [of sample_parser]
    by (simp add: inscov_frame_header sample_env_bodies)
  show ?thesis
    using h hr r len idx(1) cov eul vals c
      heading_frame_check [of "sample_parser\<lparr>total_length_m := 60\<rparr>"]
      rawimux_frame_check [of sample_parser] inscov_frame_check [of sample_parser]
      heading_frame_complete
    by (simp add: heading_frame_header rawimux_frame_header sample_env_bodies
        sample_parser_members)
qed

text \<open>
  The statement of C6 fails for the covariance handler: an INSCOV frame with valid
  checksum and body length gives no emission.
\<close>

theorem covariance_frame_not_emitted:
  "check_crc sample_env (sample_parser\<lparr>buffer_m := inscov_frame\<rparr>)
   \<and> header_message_id (frame_header sample_env (sample_parser\<lparr>buffer_m := inscov_frame\<rparr>))
      = INSCOV
   \<and> unat (header_message_length
        (frame_header sample_env (sample_parser\<lparr>buffer_m := inscov_frame\<rparr>)))
      = sizeof_InsCov sample_env
   \<and> fst (PrepareMessage sample_env 0 (sample_parser\<lparr>buffer_m := inscov_frame\<rparr>)) = NONE
   \<and> \<not> fst (HandleInsCov sample_env sample_parser zero_InsCov)"
  using inscov_frame_check [of sample_parser]
  by (simp add: PrepareMessage_valid inscov_frame_header PrepareMessage_switch_simps
      sample_env_bodies handled_def InsCov_never_ready)

section \<open>Raw observations\<close>

subsection \<open>The two loops\<close>

lemma band_obs_loop_count:
  "fst (band_obs_loop E t d i j so)
     = j + length (takeWhile (mappable_band E t d) [j..<NFREQ_NEXOBS E])
   \<and> length (sat_band_obs (snd (band_obs_loop E t d i j so)))
     = length (sat_band_obs so) + length (takeWhile (mappable_band E t d) [j..<NFREQ_NEXOBS E])
   \<and> sat_sat_sys (snd (band_obs_loop E t d i j so)) = sat_sat_sys so
   \<and> sat_sat_prn (snd (band_obs_loop E t d i j so)) = sat_sat_prn so"
proof (induction E t d i j so rule: band_obs_loop.induct)
  case (1 E t d i j so)
  show ?case
  proof (cases "j < NFREQ_NEXOBS E")
    case False
    then show ?thesis by (simp add: band_obs_loop.simps)
  next
    case True
    then have upt: "[j..<NFREQ_NEXOBS E] = j # [j + 1..<NFREQ_NEXOBS E]"
      by (simp add: upt_conv_Cons)
    show ?thesis
    proof (cases "is_zero (obsd_L d j)")
      case zero: True
      with True upt show ?thesis by (simp add: mappable_band_def band_obs_loop.simps)
    next
      case nonzero: False
      show ?thesis
      proof (cases "gnss_baud_id E t j")
        case None
        with True nonzero upt show ?thesis
          by (simp add: mappable_band_def band_obs_loop.simps)
      next
        case (Some baud_id)
        have m: "mappable_band E t d j"
          using nonzero Some by (simp add: mappable_band_def)
        show ?thesis
          using "1.IH" [OF True nonzero Some] True nonzero Some
          by (subst (1 2 3 4) band_obs_loop.simps) (simp add: upt m)
      qed
    qed
  qed
qed

lemma decode_sat_bands:
  "sat_band_obs_num (decode_sat E i d) = length (sat_band_obs (decode_sat E i d))
   \<and> length (sat_band_obs (decode_sat E i d))
       = length (takeWhile (mappable_band E (sat_sat_sys (decode_sat E i d)) d)
           [0..<NFREQ_NEXOBS E])
   \<and> sat_sat_sys (decode_sat E i d) = the (gnss_sys_type E (fst (satsys E (obsd_sat d))))
   \<and> sat_sat_prn (decode_sat E i d) = snd (satsys E (obsd_sat d))"
  by (simp add: decode_sat_def Let_def band_obs_loop_count)

lemma sat_obs_loop_other:
  "epoch_sat_obs_num (sat_obs_loop E i ds ob) = epoch_sat_obs_num ob"
  by (induction ds arbitrary: i ob) (simp_all add: Let_def split: option.split)

lemma sat_obs_loop_sats:
  "epoch_sat_obs (sat_obs_loop E i ds ob)
     = epoch_sat_obs ob
       @ map (\<lambda>(k, d). decode_sat E k d)
           (zip [i..<i + length ds] (takeWhile (recognised_sat E) ds))"
proof (induction ds arbitrary: i ob)
  case Nil
  then show ?case by simp
next
  case (Cons d ds)
  show ?case
  proof (cases "gnss_sys_type E (fst (satsys E (obsd_sat d)))")
    case None
    then show ?thesis by (simp add: recognised_sat_def)
  next
    case (Some gnss_type)
    have "[i..<i + Suc (length ds)] = i # [Suc i..<i + Suc (length ds)]"
      by (rule upt_conv_Cons) simp
    then have upt: "[i..<i + length (d # ds)] = i # [i + 1..<i + 1 + length ds]"
      by (simp del: upt_Suc)
    have step: "sat_obs_loop E i (d # ds) ob
        = sat_obs_loop E (i + 1) ds (ob\<lparr>epoch_sat_obs := epoch_sat_obs ob @ [decode_sat E i d]\<rparr>)"
      using Some by (simp add: decode_sat_def Let_def)
    have tw: "takeWhile (recognised_sat E) (d # ds) = d # takeWhile (recognised_sat E) ds"
      using Some by (simp add: recognised_sat_def)
    show ?thesis
      unfolding step tw upt Cons.IH by simp
  qed
qed

lemma observation_epoch_sats:
  "epoch_sat_obs (observation_epoch E r)
     = map (\<lambda>(k, d). decode_sat E k d)
         (zip [0..<length (raw_obs r)] (takeWhile (recognised_sat E) (raw_obs r)))"
  using sat_obs_loop_sats [of E 0 "raw_obs r"]
  by (simp add: observation_epoch_def SetObservationTime_def Let_def)

lemma observation_epoch_length:
  "length (epoch_sat_obs (observation_epoch E r))
     = length (takeWhile (recognised_sat E) (raw_obs r))"
proof -
  have "length (takeWhile (recognised_sat E) (raw_obs r)) \<le> length (raw_obs r)"
    by (rule length_takeWhile_le)
  then show ?thesis
    by (simp add: observation_epoch_sats)
qed

lemma observation_epoch_num:
  "epoch_sat_obs_num (observation_epoch E r) = length (raw_obs r)"
  by (simp add: observation_epoch_def SetObservationTime_def Let_def sat_obs_loop_other)

lemma observation_epoch_nth:
  assumes "k < length (epoch_sat_obs (observation_epoch E r))"
  shows "epoch_sat_obs (observation_epoch E r) ! k = decode_sat E k (raw_obs r ! k)
    \<and> recognised_sat E (raw_obs r ! k)"
proof -
  let ?tw = "takeWhile (recognised_sat E) (raw_obs r)"
  have k: "k < length ?tw"
    using assms by (simp add: observation_epoch_length)
  have le: "length ?tw \<le> length (raw_obs r)"
    by (rule length_takeWhile_le)
  have "?tw ! k = raw_obs r ! k"
    using k by (rule takeWhile_nth)
  moreover have "recognised_sat E (?tw ! k)"
    using k by (metis nth_mem set_takeWhileD)
  ultimately show ?thesis
    using k le by (simp add: observation_epoch_sats)
qed

lemma sample_recognised:
  "recognised_sat sample_env (sample_obsd 5)" "\<not> recognised_sat sample_env (sample_obsd 200)"
  "recognised_sat sample_env (sample_obsd 7)"
  by (simp_all add: recognised_sat_def sample_env_def sample_obsd_def sample_satsys_def
      sample_gnss_sys_type_def)

subsection \<open>C7\<close>

text \<open>
  C7, as the code has it. Decoding a complete epoch, the satellite loop stops at the first
  satellite whose system the taxonomy does not know: the satellites before it are
  decoded, it and all satellites after it are not, and the satellite count of the record
  is still the count of the whole epoch. For each decoded satellite the band loop stops
  at the first band that has no carrier phase or no identifier for the system: the band
  list holds the bands before it, and \<^verbatim>\<open>band_obs_num\<close> is the length of that list.
\<close>

theorem observation_epoch_truncates:
  "length (epoch_sat_obs (observation_epoch E r))
     = length (takeWhile (recognised_sat E) (raw_obs r))
   \<and> epoch_sat_obs_num (observation_epoch E r) = length (raw_obs r)
   \<and> (\<forall>k. k < length (epoch_sat_obs (observation_epoch E r)) \<longrightarrow>
        gnss_sys_type E (fst (satsys E (obsd_sat (raw_obs r ! k))))
          = Some (sat_sat_sys (epoch_sat_obs (observation_epoch E r) ! k))
        \<and> sat_sat_prn (epoch_sat_obs (observation_epoch E r) ! k)
          = snd (satsys E (obsd_sat (raw_obs r ! k)))
        \<and> sat_band_obs_num (epoch_sat_obs (observation_epoch E r) ! k)
          = length (sat_band_obs (epoch_sat_obs (observation_epoch E r) ! k))
        \<and> length (sat_band_obs (epoch_sat_obs (observation_epoch E r) ! k))
          = length (takeWhile
              (mappable_band E (sat_sat_sys (epoch_sat_obs (observation_epoch E r) ! k))
                 (raw_obs r ! k))
              [0..<NFREQ_NEXOBS E]))
   \<and> (fst (input_oem4 E (raw_m s) b) = 1 \<longrightarrow>
        DecodeGnssObservation E s (b # bytes)
          = (True, s\<lparr>raw_m := snd (input_oem4 E (raw_m s) b),
                     gnss_observation_m := observation_epoch E (snd (input_oem4 E (raw_m s) b))\<rparr>))"
proof -
  have sat: "gnss_sys_type E (fst (satsys E (obsd_sat (raw_obs r ! k))))
          = Some (sat_sat_sys (epoch_sat_obs (observation_epoch E r) ! k))
        \<and> sat_sat_prn (epoch_sat_obs (observation_epoch E r) ! k)
          = snd (satsys E (obsd_sat (raw_obs r ! k)))
        \<and> sat_band_obs_num (epoch_sat_obs (observation_epoch E r) ! k)
          = length (sat_band_obs (epoch_sat_obs (observation_epoch E r) ! k))
        \<and> length (sat_band_obs (epoch_sat_obs (observation_epoch E r) ! k))
          = length (takeWhile
              (mappable_band E (sat_sat_sys (epoch_sat_obs (observation_epoch E r) ! k))
                 (raw_obs r ! k))
              [0..<NFREQ_NEXOBS E])"
    if "k < length (epoch_sat_obs (observation_epoch E r))" for k
  proof -
    from that have eq: "epoch_sat_obs (observation_epoch E r) ! k = decode_sat E k (raw_obs r ! k)"
      and rec: "recognised_sat E (raw_obs r ! k)"
      by (simp_all add: observation_epoch_nth)
    from rec obtain t where t: "gnss_sys_type E (fst (satsys E (obsd_sat (raw_obs r ! k)))) = Some t"
      by (auto simp: recognised_sat_def)
    show ?thesis
      using decode_sat_bands [of E k "raw_obs r ! k"] t by (simp add: eq)
  qed
  have dec: "DecodeGnssObservation E s (b # bytes)
          = (True, s\<lparr>raw_m := snd (input_oem4 E (raw_m s) b),
                     gnss_observation_m := observation_epoch E (snd (input_oem4 E (raw_m s) b))\<rparr>)"
    if "fst (input_oem4 E (raw_m s) b) = 1"
    using that by (simp add: Let_def)
  show ?thesis
    using sat dec by (simp add: observation_epoch_length observation_epoch_num)
qed

lemma sample_takeWhile:
  "takeWhile (recognised_sat sample_env) (raw_obs sample_epoch) = [sample_obsd 5]"
  by (simp add: sample_epoch_def sample_recognised)

lemma sample_bands:
  "takeWhile (mappable_band sample_env GPS_SYS (sample_obsd 5)) [0..<NFREQ_NEXOBS sample_env]
     = [0, 1]"
proof -
  have "[0..<NFREQ_NEXOBS sample_env] = [0, 1, 2]"
    by (simp add: sample_env_def upt_conv_Cons)
  then show ?thesis
    by (simp add: mappable_band_def sample_obsd_def is_zero_def sample_env_def
        sample_gnss_baud_id_def)
qed

theorem observation_epoch_truncates_witness:
  "0 < length (epoch_sat_obs (observation_epoch sample_env sample_epoch))
   \<and> length (epoch_sat_obs (observation_epoch sample_env sample_epoch)) = 1
   \<and> epoch_sat_obs_num (observation_epoch sample_env sample_epoch) = 3
   \<and> sat_sat_sys (epoch_sat_obs (observation_epoch sample_env sample_epoch) ! 0) = GPS_SYS
   \<and> sat_sat_prn (epoch_sat_obs (observation_epoch sample_env sample_epoch) ! 0) = 5
   \<and> sat_band_obs_num (epoch_sat_obs (observation_epoch sample_env sample_epoch) ! 0) = 2
   \<and> length (sat_band_obs (epoch_sat_obs (observation_epoch sample_env sample_epoch) ! 0)) = 2
   \<and> fst (input_oem4 sample_env (raw_m sample_parser) 0xFF) = 1
   \<and> DecodeGnssObservation sample_env sample_parser [0xFF]
        = (True, sample_parser\<lparr>raw_m := sample_epoch,
             gnss_observation_m := observation_epoch sample_env sample_epoch\<rparr>)"
proof -
  have sys: "gnss_sys_type sample_env (fst (satsys sample_env (obsd_sat (raw_obs sample_epoch ! 0))))
      = Some GPS_SYS"
    "snd (satsys sample_env (obsd_sat (raw_obs sample_epoch ! 0))) = 5"
    by (simp_all add: sample_epoch_def sample_env_def sample_obsd_def sample_satsys_def
        sample_gnss_sys_type_def)
  have first: "raw_obs sample_epoch ! 0 = sample_obsd 5" "length (raw_obs sample_epoch) = 3"
    by (simp_all add: sample_epoch_def)
  have len: "length (epoch_sat_obs (observation_epoch sample_env sample_epoch)) = 1"
    using observation_epoch_truncates [of sample_env sample_epoch]
    by (simp add: sample_takeWhile)
  then have k: "0 < length (epoch_sat_obs (observation_epoch sample_env sample_epoch))"
    by simp
  have t: "sat_sat_sys (epoch_sat_obs (observation_epoch sample_env sample_epoch) ! 0) = GPS_SYS"
    using observation_epoch_truncates [of sample_env sample_epoch] k sys(1) by simp
  have "sat_band_obs_num (epoch_sat_obs (observation_epoch sample_env sample_epoch) ! 0)
          = length (sat_band_obs (epoch_sat_obs (observation_epoch sample_env sample_epoch) ! 0))
        \<and> length (sat_band_obs (epoch_sat_obs (observation_epoch sample_env sample_epoch) ! 0))
          = length (takeWhile
              (mappable_band sample_env
                 (sat_sat_sys (epoch_sat_obs (observation_epoch sample_env sample_epoch) ! 0))
                 (raw_obs sample_epoch ! 0))
              [0..<NFREQ_NEXOBS sample_env])
        \<and> sat_sat_prn (epoch_sat_obs (observation_epoch sample_env sample_epoch) ! 0)
          = snd (satsys sample_env (obsd_sat (raw_obs sample_epoch ! 0)))"
    using observation_epoch_truncates [of sample_env sample_epoch] k by blast
  then have b: "sat_band_obs_num (epoch_sat_obs (observation_epoch sample_env sample_epoch) ! 0) = 2
      \<and> length (sat_band_obs (epoch_sat_obs (observation_epoch sample_env sample_epoch) ! 0)) = 2
      \<and> sat_sat_prn (epoch_sat_obs (observation_epoch sample_env sample_epoch) ! 0) = 5"
    by (simp add: t first(1) sample_bands sys(2) [unfolded first(1)])
  have "epoch_sat_obs_num (observation_epoch sample_env sample_epoch) = 3"
    using observation_epoch_truncates [of sample_env sample_epoch] first(2) by simp
  moreover have io: "input_oem4 sample_env (raw_m sample_parser) 0xFF = (1, sample_epoch)"
    by (simp add: sample_env_def sample_input_oem4_def)
  moreover have "DecodeGnssObservation sample_env sample_parser [0xFF]
        = (True, sample_parser\<lparr>raw_m := sample_epoch,
             gnss_observation_m := observation_epoch sample_env sample_epoch\<rparr>)"
    using observation_epoch_truncates [of sample_env _ sample_parser "0xFF" "[]"] io
    by simp
  ultimately show ?thesis
    using len k t b by simp
qed

text \<open>
  The statement of C7 fails for the satellites: in an epoch of a GPS satellite, a
  satellite of no known system and a second GPS satellite, the second GPS satellite is
  recognised and yet not decoded; one satellite record is produced and the satellite
  count says three.
\<close>

theorem later_satellite_not_decoded:
  "raw_obs sample_epoch = [sample_obsd 5, sample_obsd 200, sample_obsd 7]
   \<and> \<not> recognised_sat sample_env (sample_obsd 200)
   \<and> recognised_sat sample_env (sample_obsd 7)
   \<and> length (epoch_sat_obs (observation_epoch sample_env sample_epoch)) = 1
   \<and> epoch_sat_obs_num (observation_epoch sample_env sample_epoch) = 3"
  by (simp add: observation_epoch_length observation_epoch_num sample_recognised)
    (simp add: sample_epoch_def sample_recognised)

end
